theory Spec2Isabelle
  imports Complex_Main "HOL-Library.AList"
begin

section \<open>Errors and results\<close>

text \<open>
  The parser of \<^verbatim>\<open>src/ebuttd\<close> raises its own \<^verbatim>\<open>ParseError\<close> (parse.py) and
  Python's \<^verbatim>\<open>ValueError\<close>, raised by the value parsers of model.py and by the builtins
  \<^verbatim>\<open>int\<close> and \<^verbatim>\<open>float\<close>. Its float arithmetic with an \<^verbatim>\<open>int\<close> operand can raise
  \<^verbatim>\<open>OverflowError\<close> (the integer has no float) and \<^verbatim>\<open>ZeroDivisionError\<close>. All are
  values here, with the message the source gives them; an exception raised by a builtin
  carries the offending literal instead of the interpreter's message text.
\<close>

datatype error =
  ParseError string | ValueError string | OverflowError string | ZeroDivisionError string

fun bind :: "error + 'a \<Rightarrow> ('a \<Rightarrow> error + 'b) \<Rightarrow> error + 'b" where
  "bind (Inl e) f = Inl e"
| "bind (Inr x) f = f x"

section \<open>Python strings\<close>

text \<open>
  A Python \<^verbatim>\<open>str\<close> is modelled as a \<^typ>\<open>string\<close>: the code points below 256.
  \<^verbatim>\<open>str.strip()\<close> removes the characters for which \<^verbatim>\<open>str.isspace\<close> holds; below
  256 these are 9 to 13, 28 to 32, 133 and 160.
\<close>

definition py_isspace :: "char \<Rightarrow> bool" where
  "py_isspace c =
     (let n = (of_char c :: nat)
      in (9 \<le> n \<and> n \<le> 13) \<or> (28 \<le> n \<and> n \<le> 32) \<or> n = 133 \<or> n = 160)"

definition strip :: "string \<Rightarrow> string" where
  "strip s = rev (dropWhile py_isspace (rev (dropWhile py_isspace s)))"

text \<open>
  The builtins \<^verbatim>\<open>int\<close> and \<^verbatim>\<open>float\<close> skip less: the characters 9 to 13 and 32 of
  C's \<^verbatim>\<open>isspace\<close>, and 133 and 160, which they first turn into a space.
\<close>

definition num_isspace :: "char \<Rightarrow> bool" where
  "num_isspace c =
     (let n = (of_char c :: nat) in (9 \<le> n \<and> n \<le> 13) \<or> n = 32 \<or> n = 133 \<or> n = 160)"

definition num_strip :: "string \<Rightarrow> string" where
  "num_strip s = rev (dropWhile num_isspace (rev (dropWhile num_isspace s)))"

text \<open>\<^verbatim>\<open>s.split(d)\<close> for a one-character separator: never empty, keeps empty fields.\<close>

fun split_on :: "char \<Rightarrow> string \<Rightarrow> string list" where
  "split_on d [] = [[]]"
| "split_on d (c # cs) =
     (let r = split_on d cs in if c = d then [] # r else (c # hd r) # tl r)"

definition split_value :: "string \<Rightarrow> string list" where
  "split_value v = filter (\<lambda>w. w \<noteq> []) (split_on (CHR '' '') (strip v))"

definition is_digit :: "char \<Rightarrow> bool" where
  "is_digit c = (let n = (of_char c :: nat) in 48 \<le> n \<and> n \<le> 57)"

definition nat_of_digits :: "string \<Rightarrow> nat" where
  "nat_of_digits ds = foldl (\<lambda>a c. 10 * a + ((of_char c :: nat) - 48)) 0 ds"

subsection \<open>The builtin \<^verbatim>\<open>int(s, base)\<close>\<close>

text \<open>
  CPython's \<^verbatim>\<open>PyLong_FromString\<close>: surrounding whitespace, an optional sign, for base 16
  an optional \<^verbatim>\<open>0x\<close> prefix (one underscore may follow it), then digits with single
  underscores between them. \<^verbatim>\<open>None\<close> stands for the \<^verbatim>\<open>ValueError\<close>. The interpreter's
  configurable limit on the number of decimal digits is not modelled.
\<close>

definition digit_value :: "char \<Rightarrow> nat option" where
  "digit_value c =
     (let n = (of_char c :: nat)
      in if 48 \<le> n \<and> n \<le> 57 then Some (n - 48)
         else if 97 \<le> n \<and> n \<le> 122 then Some (n - 87)
         else if 65 \<le> n \<and> n \<le> 90 then Some (n - 55)
         else None)"

fun scan_digits :: "nat \<Rightarrow> char \<Rightarrow> string \<Rightarrow> nat \<Rightarrow> nat option" where
  "scan_digits b prev [] acc = (if prev = CHR ''_'' then None else Some acc)"
| "scan_digits b prev (c # cs) acc =
     (if c = CHR ''_'' then (if prev = CHR ''_'' then None else scan_digits b c cs acc)
      else (case digit_value c of
              None \<Rightarrow> None
            | Some d \<Rightarrow> if d < b then scan_digits b c cs (acc * b + d) else None))"

definition py_int :: "nat \<Rightarrow> string \<Rightarrow> int option" where
  "py_int b s =
     (let s1 = num_strip s;
          neg = (s1 \<noteq> [] \<and> hd s1 = CHR ''-'');
          s2 = (if s1 \<noteq> [] \<and> (hd s1 = CHR ''+'' \<or> hd s1 = CHR ''-'') then tl s1 else s1);
          s3 = (case s2 of
                  c0 # c1 # r \<Rightarrow>
                    if b = 16 \<and> c0 = CHR ''0'' \<and> (c1 = CHR ''x'' \<or> c1 = CHR ''X'')
                    then (case r of c2 # r' \<Rightarrow> if c2 = CHR ''_'' then r' else r | [] \<Rightarrow> r)
                    else s2
                | _ \<Rightarrow> s2)
      in if s3 = [] \<or> hd s3 = CHR ''_'' then None
         else map_option (\<lambda>n. if neg then - int n else int n)
                (scan_digits b (CHR 0x00) s3 0))"

subsection \<open>The builtin \<^verbatim>\<open>float(s)\<close>\<close>

text \<open>
  A Python float is modelled by a real number; \<^verbatim>\<open>inf\<close> and \<^verbatim>\<open>nan\<close> are one value
  \<open>NonFinite\<close>, since the only use the source makes of them is \<^verbatim>\<open>math.isfinite\<close>.
  Rounding is modelled where it decides what the program does next: a decimal literal
  whose value would round beyond the largest double is \<^verbatim>\<open>inf\<close>, and a value below the
  smallest normal double is rounded to the grid of the subnormal doubles (to even on a
  tie), so that it is zero exactly when the double is. Between these bounds a value is
  the exact real, where the double is the nearest of 53 bits. Underscores are allowed
  between digits only.
\<close>

definition round_half_even :: "real \<Rightarrow> int" where
  "round_half_even y =
     (let f = \<lfloor>y\<rfloor>;
          d = y - real_of_int f
      in if d < 1 / 2 then f else if d > 1 / 2 then f + 1 else if even f then f else f + 1)"

definition round_subnormal :: "real \<Rightarrow> real" where
  "round_subnormal x =
     (if x < 1 / 2 ^ 1022 then real_of_int (round_half_even (x * 2 ^ 1074)) / 2 ^ 1074 else x)"

text \<open>
  The float of an \<^verbatim>\<open>int\<close> operand: an integer that would round to \<open>2 ^ 1024\<close> or
  beyond has none. The quotient of a float and an \<^verbatim>\<open>int\<close>, as in \<^verbatim>\<open>x / rows\<close>.
\<close>

definition float_of_int :: "int \<Rightarrow> error + real" where
  "float_of_int n =
     (if \<bar>n\<bar> \<ge> 2 ^ 1024 - 2 ^ 970
      then Inl (OverflowError ''int too large to convert to float'')
      else Inr (real_of_int n))"

definition float_div_int :: "real \<Rightarrow> int \<Rightarrow> error + real" where
  "float_div_int x n =
     bind (float_of_int n) (\<lambda>d.
       if d = 0 then Inl (ZeroDivisionError ''float division by zero'') else Inr (x / d))"

datatype pyfloat = Finite real | NonFinite

fun strip_underscores :: "char \<Rightarrow> string \<Rightarrow> string option" where
  "strip_underscores prev [] = (if prev = CHR ''_'' then None else Some [])"
| "strip_underscores prev (c # cs) =
     (if c = CHR ''_'' then (if is_digit prev then strip_underscores c cs else None)
      else if prev = CHR ''_'' \<and> \<not> is_digit c then None
      else map_option ((#) c) (strip_underscores c cs))"

definition lower :: "char \<Rightarrow> char" where
  "lower c = (let n = (of_char c :: nat) in if 65 \<le> n \<and> n \<le> 90 then char_of (n + 32) else c)"

definition split_sign :: "string \<Rightarrow> bool \<times> string" where
  "split_sign s =
     (case s of
        [] \<Rightarrow> (False, [])
      | c # r \<Rightarrow> if c = CHR ''-'' then (True, r) else if c = CHR ''+'' then (False, r) else (False, s))"

definition parse_decimal :: "string \<Rightarrow> real option" where
  "parse_decimal s =
     (let ip = takeWhile is_digit s;
          r1 = dropWhile is_digit s;
          fp = (case r1 of c # t \<Rightarrow> if c = CHR ''.'' then takeWhile is_digit t else [] | [] \<Rightarrow> []);
          r2 = (case r1 of c # t \<Rightarrow> if c = CHR ''.'' then dropWhile is_digit t else r1 | [] \<Rightarrow> []);
          m = real (nat_of_digits (ip @ fp)) / 10 ^ length fp
      in if ip = [] \<and> fp = [] then None
         else (case r2 of
                 [] \<Rightarrow> Some m
               | c # t \<Rightarrow>
                   if c = CHR ''e'' \<or> c = CHR ''E'' then
                     (let (eneg, t') = split_sign t;
                          ed = takeWhile is_digit t'
                      in if ed = [] \<or> dropWhile is_digit t' \<noteq> [] then None
                         else Some (if eneg then m / 10 ^ nat_of_digits ed
                                    else m * 10 ^ nat_of_digits ed))
                   else None))"

definition py_float :: "string \<Rightarrow> error + pyfloat" where
  "py_float s =
     (case strip_underscores (CHR 0x00) (num_strip s) of
        None \<Rightarrow> Inl (ValueError s)
      | Some s1 \<Rightarrow>
          (let (neg, s2) = split_sign s1;
               w = map lower s2
           in if w = ''inf'' \<or> w = ''infinity'' \<or> w = ''nan'' then Inr NonFinite
              else (case parse_decimal s2 of
                      None \<Rightarrow> Inl (ValueError s)
                    | Some m \<Rightarrow>
                        if m \<ge> 2 ^ 1024 - 2 ^ 970 then Inr NonFinite
                        else Inr (Finite (if neg then - round_subnormal m
                                          else round_subnormal m)))))"

section \<open>Value parsers (model.py)\<close>

datatype Unit = CELL | PERCENT

definition Unit_parse :: "Unit \<Rightarrow> string \<Rightarrow> real option \<Rightarrow> error + real" where
  "Unit_parse u val max_value =
     (let v = strip val;
          suffix = (if u = CELL then CHR ''c'' else CHR ''%'')
      in if v = [] \<or> last v \<noteq> suffix then Inl (ValueError val)
         else bind (py_float (butlast v)) (\<lambda>f.
           case f of
             NonFinite \<Rightarrow> Inl (ValueError val)
           | Finite n \<Rightarrow>
               if n < 0 then Inl (ValueError val)
               else if (case max_value of None \<Rightarrow> False | Some m \<Rightarrow> n > m)
                    then Inl (ValueError val)
               else if u = CELL then Inr n
               else Inr (round_subnormal (n / 100))))"

record Color =
  red :: int
  green :: int
  blue :: int
  alpha :: int

definition Color_is_valid :: "Color \<Rightarrow> bool" where
  "Color_is_valid c =
     (red c \<ge> 0 \<and> red c \<le> 255 \<and> green c \<ge> 0 \<and> green c \<le> 255
      \<and> blue c \<ge> 0 \<and> blue c \<le> 255 \<and> alpha c \<ge> 0 \<and> alpha c \<le> 255)"

definition black :: Color where
  "black = \<lparr>red = 0, green = 0, blue = 0, alpha = 255\<rparr>"

definition white :: Color where
  "white = \<lparr>red = 255, green = 255, blue = 255, alpha = 255\<rparr>"

definition transparent :: Color where
  "transparent = \<lparr>red = 0, green = 0, blue = 0, alpha = 0\<rparr>"

text \<open>\<^verbatim>\<open>int(v[i:j], base=16)\<close>, the \<^verbatim>\<open>ValueError\<close> of the builtin included.\<close>

definition int16 :: "string \<Rightarrow> error + int" where
  "int16 s = (case py_int 16 s of None \<Rightarrow> Inl (ValueError s) | Some n \<Rightarrow> Inr n)"

definition Color_parse :: "string \<Rightarrow> error + Color" where
  "Color_parse val =
     (let v = strip val
      in if v = [] \<or> hd v \<noteq> CHR ''#'' then Inl (ValueError val)
         else (let v = tl v
               in if length v \<noteq> 6 \<and> length v \<noteq> 8 then Inl (ValueError val)
                  else bind (int16 (take 2 v)) (\<lambda>r.
                       bind (int16 (take 2 (drop 2 v))) (\<lambda>g.
                       bind (int16 (take 2 (drop 4 v))) (\<lambda>b.
                       bind (if length v = 8 then int16 (take 2 (drop 6 v)) else Inr 0) (\<lambda>a.
                       (let color = \<lparr>red = r, green = g, blue = b, alpha = a\<rparr>
                        in if Color_is_valid color then Inr color
                           else Inl (ValueError val))))))))"

record Padding =
  pad_before :: real
  pad_end :: real
  pad_after :: real
  pad_start :: real

text \<open>
  The loop of \<^verbatim>\<open>Padding.parse\<close> over \<^verbatim>\<open>enumerate(values)\<close>: the index selects which
  sides the parsed length is written to.
\<close>

fun Padding_loop :: "nat \<Rightarrow> string list \<Rightarrow> Padding \<Rightarrow> error + Padding" where
  "Padding_loop i [] p = Inr p"
| "Padding_loop i (v # vs) p =
     bind (Unit_parse PERCENT v None) (\<lambda>l.
       Padding_loop (Suc i) vs
         (if i = 0 then \<lparr>pad_before = l, pad_end = l, pad_after = l, pad_start = l\<rparr>
          else if i = 1 then p\<lparr>pad_end := l, pad_start := l\<rparr>
          else if i = 2 then p\<lparr>pad_after := l\<rparr>
          else p\<lparr>pad_start := l\<rparr>))"

definition Padding_parse :: "string \<Rightarrow> error + Padding" where
  "Padding_parse val =
     (let values = split_value val
      in if values = [] \<or> length values > 3 then Inl (ValueError val)
         else Padding_loop 0 values
                \<lparr>pad_before = 0, pad_end = 0, pad_after = 0, pad_start = 0\<rparr>)"

section \<open>Enumerations (model.py)\<close>

text \<open>
  Each enumeration is a datatype whose constructors are named after the class and its
  member, since several classes share member names. Every \<^verbatim>\<open>parse\<close> matches the
  stripped literal against the fixed spellings and raises \<^verbatim>\<open>ValueError(value)\<close>.
\<close>

datatype Direction = Direction_LTR | Direction_RTL

definition Direction_parse :: "string \<Rightarrow> error + Direction" where
  "Direction_parse val =
     (let v = strip val
      in if v = ''ltr'' then Inr Direction_LTR
         else if v = ''rtl'' then Inr Direction_RTL
         else Inl (ValueError val))"

datatype DisplayAlign = DisplayAlign_BEFORE | DisplayAlign_CENTER | DisplayAlign_AFTER

definition DisplayAlign_parse :: "string \<Rightarrow> error + DisplayAlign" where
  "DisplayAlign_parse val =
     (let v = strip val
      in if v = ''before'' then Inr DisplayAlign_BEFORE
         else if v = ''center'' then Inr DisplayAlign_CENTER
         else if v = ''after'' then Inr DisplayAlign_AFTER
         else Inl (ValueError val))"

datatype FontStyle = FontStyle_NORMAL | FontStyle_ITALIC

definition FontStyle_parse :: "string \<Rightarrow> error + FontStyle" where
  "FontStyle_parse val =
     (let v = strip val
      in if v = ''normal'' then Inr FontStyle_NORMAL
         else if v = ''italic'' then Inr FontStyle_ITALIC
         else Inl (ValueError val))"

datatype FontWeight = FontWeight_NORMAL | FontWeight_BOLD

definition FontWeight_parse :: "string \<Rightarrow> error + FontWeight" where
  "FontWeight_parse val =
     (let v = strip val
      in if v = ''normal'' then Inr FontWeight_NORMAL
         else if v = ''bold'' then Inr FontWeight_BOLD
         else Inl (ValueError val))"

datatype MultiRowAlign =
  MultiRowAlign_AUTO | MultiRowAlign_START | MultiRowAlign_CENTER | MultiRowAlign_END

definition MultiRowAlign_parse :: "string \<Rightarrow> error + MultiRowAlign" where
  "MultiRowAlign_parse val =
     (let v = strip val
      in if v = ''auto'' then Inr MultiRowAlign_AUTO
         else if v = ''start'' then Inr MultiRowAlign_START
         else if v = ''center'' then Inr MultiRowAlign_CENTER
         else if v = ''end'' then Inr MultiRowAlign_END
         else Inl (ValueError val))"

datatype Overflow = Overflow_HIDDEN | Overflow_VISIBLE

definition Overflow_parse :: "string \<Rightarrow> error + Overflow" where
  "Overflow_parse val =
     (let v = strip val
      in if v = ''hidden'' then Inr Overflow_HIDDEN
         else if v = ''visible'' then Inr Overflow_VISIBLE
         else Inl (ValueError val))"

datatype ShowBackground = ShowBackground_ALWAYS | ShowBackground_WHEN_ACTIVE

definition ShowBackground_parse :: "string \<Rightarrow> error + ShowBackground" where
  "ShowBackground_parse val =
     (let v = strip val
      in if v = ''always'' then Inr ShowBackground_ALWAYS
         else if v = ''whenActive'' then Inr ShowBackground_WHEN_ACTIVE
         else Inl (ValueError val))"

datatype TextAlign =
  TextAlign_LEFT | TextAlign_CENTER | TextAlign_RIGHT | TextAlign_START | TextAlign_END

definition TextAlign_parse :: "string \<Rightarrow> error + TextAlign" where
  "TextAlign_parse val =
     (let v = strip val
      in if v = ''left'' then Inr TextAlign_LEFT
         else if v = ''center'' then Inr TextAlign_CENTER
         else if v = ''right'' then Inr TextAlign_RIGHT
         else if v = ''start'' then Inr TextAlign_START
         else if v = ''end'' then Inr TextAlign_END
         else Inl (ValueError val))"

datatype TextDecoration = TextDecoration_NONE | TextDecoration_UNDERLINE

definition TextDecoration_parse :: "string \<Rightarrow> error + TextDecoration" where
  "TextDecoration_parse val =
     (let v = strip val
      in if v = ''none'' then Inr TextDecoration_NONE
         else if v = ''underline'' then Inr TextDecoration_UNDERLINE
         else Inl (ValueError val))"

datatype Space = Space_DEFAULT | Space_PRESERVE

definition Space_parse :: "string \<Rightarrow> error + Space" where
  "Space_parse val =
     (let v = strip val
      in if v = ''default'' then Inr Space_DEFAULT
         else if v = ''preserve'' then Inr Space_PRESERVE
         else Inl (ValueError val))"

datatype UnicodeBidi = UnicodeBidi_NORMAL | UnicodeBidi_EMBED | UnicodeBidi_BIDI_OVERRIDE

definition UnicodeBidi_parse :: "string \<Rightarrow> error + UnicodeBidi" where
  "UnicodeBidi_parse val =
     (let v = strip val
      in if v = ''normal'' then Inr UnicodeBidi_NORMAL
         else if v = ''embed'' then Inr UnicodeBidi_EMBED
         else if v = ''bidiOverride'' then Inr UnicodeBidi_BIDI_OVERRIDE
         else Inl (ValueError val))"

datatype WrapOption = WrapOption_WRAP | WrapOption_NO_WRAP

definition WrapOption_parse :: "string \<Rightarrow> error + WrapOption" where
  "WrapOption_parse val =
     (let v = strip val
      in if v = ''wrap'' then Inr WrapOption_WRAP
         else if v = ''noWrap'' then Inr WrapOption_NO_WRAP
         else Inl (ValueError val))"

datatype WritingMode =
  WritingMode_LRTB | WritingMode_RLTB | WritingMode_TBRL | WritingMode_TBLR

definition WritingMode_parse :: "string \<Rightarrow> error + WritingMode" where
  "WritingMode_parse val =
     (let v = strip val
      in if v = ''lrtb'' \<or> v = ''lr'' then Inr WritingMode_LRTB
         else if v = ''rltb'' \<or> v = ''rl'' then Inr WritingMode_RLTB
         else if v = ''tbrl'' \<or> v = ''tb'' then Inr WritingMode_TBRL
         else if v = ''tblr'' then Inr WritingMode_TBLR
         else Inl (ValueError val))"

section \<open>Tuples of lengths (model.py)\<close>

record ActiveArea =
  aa_left :: real
  aa_top :: real
  aa_width :: real
  aa_height :: real

definition ActiveArea_parse :: "string \<Rightarrow> error + ActiveArea" where
  "ActiveArea_parse val =
     (let values = split_value val
      in if length values \<noteq> 4 then Inl (ValueError val)
         else bind (Unit_parse PERCENT (values ! 0) (Some 100)) (\<lambda>l.
              bind (Unit_parse PERCENT (values ! 1) (Some 100)) (\<lambda>t.
              bind (Unit_parse PERCENT (values ! 2) (Some 100)) (\<lambda>w.
              bind (Unit_parse PERCENT (values ! 3) (Some 100)) (\<lambda>h.
              Inr \<lparr>aa_left = l, aa_top = t, aa_width = w, aa_height = h\<rparr>)))))"

record CellResolution =
  columns :: int
  rows :: int

definition CellResolution_is_valid :: "CellResolution \<Rightarrow> bool" where
  "CellResolution_is_valid c = (columns c > 0 \<and> rows c > 0)"

definition int10 :: "string \<Rightarrow> error + int" where
  "int10 s = (case py_int 10 s of None \<Rightarrow> Inl (ValueError s) | Some n \<Rightarrow> Inr n)"

definition CellResolution_parse :: "string \<Rightarrow> error + CellResolution" where
  "CellResolution_parse val =
     (let values = split_value val
      in if length values \<noteq> 2 then Inl (ValueError val)
         else bind (int10 (values ! 0)) (\<lambda>c.
              bind (int10 (values ! 1)) (\<lambda>r.
              (let cell_resolution = \<lparr>columns = c, rows = r\<rparr>
               in if CellResolution_is_valid cell_resolution then Inr cell_resolution
                  else Inl (ValueError val)))))"

record Extent =
  ext_width :: real
  ext_height :: real

definition Extent_parse :: "string \<Rightarrow> error + Extent" where
  "Extent_parse val =
     (let values = split_value val
      in if values = [] \<or> length values \<noteq> 2 then Inl (ValueError val)
         else bind (Unit_parse PERCENT (values ! 0) (Some 100)) (\<lambda>w.
              bind (Unit_parse PERCENT (values ! 1) (Some 100)) (\<lambda>h.
              Inr \<lparr>ext_width = w, ext_height = h\<rparr>)))"

record Origin =
  org_x :: real
  org_y :: real

definition Origin_parse :: "string \<Rightarrow> error + Origin" where
  "Origin_parse val =
     (let values = split_value val
      in if length values \<noteq> 2 then Inl (ValueError val)
         else bind (Unit_parse PERCENT (values ! 0) (Some 100)) (\<lambda>x.
              bind (Unit_parse PERCENT (values ! 1) (Some 100)) (\<lambda>y.
              Inr \<lparr>org_x = x, org_y = y\<rparr>)))"

definition FontSize_parse :: "string \<Rightarrow> error + real" where
  "FontSize_parse val = Unit_parse PERCENT val None"

definition LineHeight_parse :: "string \<Rightarrow> error + real option" where
  "LineHeight_parse val =
     (let v = strip val
      in if v = ''normal'' then Inr None
         else bind (Unit_parse PERCENT v None) (\<lambda>n. Inr (Some n)))"

definition LinePadding_parse :: "string \<Rightarrow> error + real" where
  "LinePadding_parse val = Unit_parse CELL val None"

record TextOutline =
  to_color :: "Color option"
  thickness :: real
  blur_radius :: "real option"

definition TextOutline_parse :: "string \<Rightarrow> error + TextOutline option" where
  "TextOutline_parse val =
     (let values = split_value val
      in if values = [] then Inl (ValueError val)
         else if length values = 1 \<and> values ! 0 = ''none'' then Inr None
         else if length values > 3 then Inl (ValueError val)
         else bind (if take 1 (values ! 0) = ''#''
                    then (if length values = 1 then Inl (ValueError val)
                          else bind (Color_parse (values ! 0)) (\<lambda>c. Inr (Some c, tl values)))
                    else Inr (None, values)) (\<lambda>(color, values).
              bind (Unit_parse PERCENT (values ! 0) None) (\<lambda>th.
              bind (if length values > 1
                    then bind (Unit_parse PERCENT (values ! 1) None) (\<lambda>b. Inr (Some b))
                    else Inr None) (\<lambda>br.
              Inr (Some \<lparr>to_color = color, thickness = th, blur_radius = br\<rparr>)))))"

section \<open>The document model (model.py)\<close>

text \<open>
  The dataclasses are records. Field names are those of the source, with a prefix naming
  the class where several classes have the same field (\<open>span_\<close>, \<open>para_\<close>, \<open>div_\<close>,
  \<open>body_\<close>, \<open>doc_\<close>, and \<open>sp_\<close> for \<^verbatim>\<open>StyleProperties\<close>); the fields of
  \<^verbatim>\<open>ResolvedStyle\<close> keep their names.
\<close>

record Span =
  span_id :: string
  span_language :: string
  span_space :: Space
  span_background_color :: Color
  span_color :: Color
  span_direction :: Direction
  span_font_family :: "string list"
  span_font_size :: real
  span_font_style :: FontStyle
  span_font_weight :: FontWeight
  span_text_decoration :: TextDecoration
  span_text_outline :: "TextOutline option"
  span_unicode_bidi :: UnicodeBidi
  span_wrap_option :: WrapOption
  span_text :: string

datatype Content = Br | SpanC Span

record Paragraph =
  para_id :: string
  begin_secs :: real
  end_secs :: real
  para_region_index :: int
  para_language :: string
  para_space :: Space
  para_background_color :: Color
  para_direction :: Direction
  para_fill_line_gap :: bool
  para_line_height :: "real option"
  para_line_padding :: real
  para_multi_row_align :: MultiRowAlign
  para_text_align :: TextAlign
  para_unicode_bidi :: UnicodeBidi
  para_contents :: "Content list"

record Div =
  div_id :: string
  div_language :: string
  div_background_color :: Color
  div_paragraphs :: "Paragraph list"

record Body =
  body_background_color :: Color
  body_divs :: "Div list"

record Region =
  origin :: Origin
  extent :: Extent
  display_align :: DisplayAlign
  overflow :: Overflow
  padding :: Padding
  show_background :: ShowBackground
  writing_mode :: WritingMode

definition Region_default :: Region where
  "Region_default =
     \<lparr>origin = \<lparr>org_x = 0, org_y = 0\<rparr>, extent = \<lparr>ext_width = 0, ext_height = 0\<rparr>,
      display_align = DisplayAlign_BEFORE, overflow = Overflow_HIDDEN,
      padding = \<lparr>pad_before = 0, pad_end = 0, pad_after = 0, pad_start = 0\<rparr>,
      show_background = ShowBackground_ALWAYS, writing_mode = WritingMode_LRTB\<rparr>"

record Document =
  active_area :: ActiveArea
  cell_resolution :: CellResolution
  doc_language :: string
  doc_space :: Space
  regions :: "Region list"
  body :: Body

definition Document_default :: Document where
  "Document_default =
     \<lparr>active_area = \<lparr>aa_left = 0, aa_top = 0, aa_width = 1, aa_height = 1\<rparr>,
      cell_resolution = \<lparr>columns = 32, rows = 15\<rparr>,
      doc_language = [], doc_space = Space_DEFAULT, regions = [],
      body = \<lparr>body_background_color = transparent, body_divs = []\<rparr>\<rparr>"

text \<open>
  \<^verbatim>\<open>StyleProperties\<close> is a \<^verbatim>\<open>TypedDict\<close> with \<^verbatim>\<open>total=False\<close>: every key may be
  absent. A field is \<open>None\<close> when the key is absent. The values of \<^verbatim>\<open>line_height\<close> and
  \<^verbatim>\<open>text_outline\<close> may themselves be \<^verbatim>\<open>None\<close>, so these two are options of options.
\<close>

record StyleProperties =
  sp_background_color :: "Color option"
  sp_color :: "Color option"
  sp_direction :: "Direction option"
  sp_fill_line_gap :: "bool option"
  sp_font_family :: "string list option"
  sp_font_size :: "real option"
  sp_font_style :: "FontStyle option"
  sp_font_weight :: "FontWeight option"
  sp_line_height :: "real option option"
  sp_line_padding :: "real option"
  sp_multi_row_align :: "MultiRowAlign option"
  sp_text_align :: "TextAlign option"
  sp_text_decoration :: "TextDecoration option"
  sp_text_outline :: "TextOutline option option"
  sp_unicode_bidi :: "UnicodeBidi option"
  sp_wrap_option :: "WrapOption option"

definition StyleProperties_empty :: StyleProperties where
  "StyleProperties_empty =
     \<lparr>sp_background_color = None, sp_color = None, sp_direction = None,
      sp_fill_line_gap = None, sp_font_family = None, sp_font_size = None,
      sp_font_style = None, sp_font_weight = None, sp_line_height = None,
      sp_line_padding = None, sp_multi_row_align = None, sp_text_align = None,
      sp_text_decoration = None, sp_text_outline = None, sp_unicode_bidi = None,
      sp_wrap_option = None\<rparr>"

section \<open>The resolved style record (model.py)\<close>

unbundle bit_operations_syntax

definition COMPUTE_FONT_SIZE_BIT :: int where "COMPUTE_FONT_SIZE_BIT = 1"
definition COMPUTE_LINE_HEIGHT_BIT :: int where "COMPUTE_LINE_HEIGHT_BIT = 2"
definition COMPUTE_LINE_PADDING_BIT :: int where "COMPUTE_LINE_PADDING_BIT = 4"
definition COMPUTE_TEXT_OUTLINE_BIT :: int where "COMPUTE_TEXT_OUTLINE_BIT = 8"

definition COMPUTE_ALL_MASK :: int where
  "COMPUTE_ALL_MASK =
     COMPUTE_FONT_SIZE_BIT OR COMPUTE_LINE_HEIGHT_BIT OR COMPUTE_LINE_PADDING_BIT
       OR COMPUTE_TEXT_OUTLINE_BIT"

record ResolvedStyle =
  background_color :: Color
  color :: Color
  direction :: Direction
  fill_line_gap :: bool
  font_family :: "string list"
  font_size :: real
  font_style :: FontStyle
  font_weight :: FontWeight
  line_height :: "real option"
  line_padding :: real
  multi_row_align :: MultiRowAlign
  text_align :: TextAlign
  text_decoration :: TextDecoration
  text_outline :: "TextOutline option"
  unicode_bidi :: UnicodeBidi
  wrap_option :: WrapOption

definition ResolvedStyle_default :: ResolvedStyle where
  "ResolvedStyle_default =
     \<lparr>background_color = transparent, color = white, direction = Direction_LTR,
      fill_line_gap = False, font_family = [''default''], font_size = 1,
      font_style = FontStyle_NORMAL, font_weight = FontWeight_NORMAL, line_height = None,
      line_padding = 0, multi_row_align = MultiRowAlign_AUTO, text_align = TextAlign_START,
      text_decoration = TextDecoration_NONE, text_outline = None,
      unicode_bidi = UnicodeBidi_NORMAL, wrap_option = WrapOption_WRAP\<rparr>"

text \<open>
  \<^verbatim>\<open>ResolvedStyle.compute\<close> updates the record in place; here it returns the updated
  record. The font size is computed first and the line height and the outline use the
  new value, as in the source. The two divisions by the row and the column count are
  divisions of a float by an \<^verbatim>\<open>int\<close> and raise where Python does; the products are
  exact.
\<close>

definition compute ::
  "int \<Rightarrow> real option \<Rightarrow> CellResolution \<Rightarrow> ResolvedStyle \<Rightarrow> error + ResolvedStyle" where
  "compute msk parent_font_size cr self =
     (let compute_font_size = ((msk AND COMPUTE_FONT_SIZE_BIT) \<noteq> 0)
      in bind (if compute_font_size
               then (case parent_font_size of
                       None \<Rightarrow> float_div_int (font_size self * 1) (rows cr)
                     | Some p \<Rightarrow> Inr (font_size self * p))
               else Inr (font_size self)) (\<lambda>fs.
         (let lh = (if compute_font_size \<or> (msk AND COMPUTE_LINE_HEIGHT_BIT) \<noteq> 0
                    then map_option (\<lambda>l. l * fs) (line_height self)
                    else line_height self)
          in bind (if (msk AND COMPUTE_LINE_PADDING_BIT) \<noteq> 0
                   then float_div_int (line_padding self * 1) (columns cr)
                   else Inr (line_padding self)) (\<lambda>lp.
             (let ol = (if compute_font_size \<or> (msk AND COMPUTE_TEXT_OUTLINE_BIT) \<noteq> 0
                        then map_option
                               (\<lambda>outline. outline\<lparr>thickness := thickness outline * fs,
                                  blur_radius := map_option (\<lambda>b. b * fs) (blur_radius outline)\<rparr>)
                               (text_outline self)
                        else text_outline self)
              in Inr (self\<lparr>font_size := fs, line_height := lh, line_padding := lp,
                        text_outline := ol\<rparr>))))))"

definition inherited :: "ResolvedStyle \<Rightarrow> ResolvedStyle" where
  "inherited self = self\<lparr>background_color := transparent, unicode_bidi := UnicodeBidi_NORMAL\<rparr>"

text \<open>
  \<^verbatim>\<open>merge_properties\<close> tests twelve keys and \<^verbatim>\<open>font_size\<close> and \<^verbatim>\<open>line_padding\<close> with
  \<^verbatim>\<open>if v := properties.get(key)\<close>: the field is assigned when the key is present and
  its value is truthy. \<open>get_truthy\<close> is that test, given what truthy means at the type of
  the value: a \<^verbatim>\<open>Color\<close> (a tuple of four) and an enumeration member are always truthy,
  a \<^verbatim>\<open>bool\<close> when it is \<^verbatim>\<open>True\<close>, a list when it is not empty, a float when it is
  not zero. \<^verbatim>\<open>line_height\<close> and \<^verbatim>\<open>text_outline\<close> are tested with \<^verbatim>\<open>key in properties\<close>.
  Each statement of the source assigns one field of its own, so the statements are the
  fields of one record update; the mask \<open>msk\<close> is built in the order of the source.
\<close>

definition get_truthy :: "'a option \<Rightarrow> ('a \<Rightarrow> bool) \<Rightarrow> 'a option" where
  "get_truthy ov truthy = (case ov of None \<Rightarrow> None | Some v \<Rightarrow> if truthy v then Some v else None)"

definition assign :: "'a option \<Rightarrow> 'a \<Rightarrow> 'a" where
  "assign ov old = (case ov of None \<Rightarrow> old | Some v \<Rightarrow> v)"

definition merge_properties :: "ResolvedStyle \<Rightarrow> StyleProperties \<Rightarrow> int \<times> ResolvedStyle" where
  "merge_properties self properties =
     (let msk = 0;
          msk = (if sp_line_height properties \<noteq> None
                  then msk OR COMPUTE_LINE_HEIGHT_BIT else msk);
          msk = (if sp_text_outline properties \<noteq> None
                  then msk OR COMPUTE_TEXT_OUTLINE_BIT else msk);
          msk = (if get_truthy (sp_font_size properties) (\<lambda>v. v \<noteq> 0) \<noteq> None
                  then msk OR COMPUTE_FONT_SIZE_BIT else msk);
          msk = (if get_truthy (sp_line_padding properties) (\<lambda>v. v \<noteq> 0) \<noteq> None
                  then msk OR COMPUTE_LINE_PADDING_BIT else msk)
      in (msk,
          \<lparr>background_color =
             assign (get_truthy (sp_background_color properties) (\<lambda>v. True)) (background_color self),
           color = assign (get_truthy (sp_color properties) (\<lambda>v. True)) (color self),
           direction = assign (get_truthy (sp_direction properties) (\<lambda>v. True)) (direction self),
           fill_line_gap =
             assign (get_truthy (sp_fill_line_gap properties) (\<lambda>v. v)) (fill_line_gap self),
           font_family =
             assign (get_truthy (sp_font_family properties) (\<lambda>v. v \<noteq> [])) (font_family self),
           font_size =
             assign (get_truthy (sp_font_size properties) (\<lambda>v. v \<noteq> 0)) (font_size self),
           font_style = assign (get_truthy (sp_font_style properties) (\<lambda>v. True)) (font_style self),
           font_weight =
             assign (get_truthy (sp_font_weight properties) (\<lambda>v. True)) (font_weight self),
           line_height = assign (sp_line_height properties) (line_height self),
           line_padding =
             assign (get_truthy (sp_line_padding properties) (\<lambda>v. v \<noteq> 0)) (line_padding self),
           multi_row_align =
             assign (get_truthy (sp_multi_row_align properties) (\<lambda>v. True)) (multi_row_align self),
           text_align = assign (get_truthy (sp_text_align properties) (\<lambda>v. True)) (text_align self),
           text_decoration =
             assign (get_truthy (sp_text_decoration properties) (\<lambda>v. True)) (text_decoration self),
           text_outline = assign (sp_text_outline properties) (text_outline self),
           unicode_bidi =
             assign (get_truthy (sp_unicode_bidi properties) (\<lambda>v. True)) (unicode_bidi self),
           wrap_option =
             assign (get_truthy (sp_wrap_option properties) (\<lambda>v. True)) (wrap_option self)\<rparr>))"

section \<open>The parse context and the cascade resolver (parse.py)\<close>

text \<open>
  The dictionaries \<^verbatim>\<open>styles\<close> and \<^verbatim>\<open>regions\<close> are association lists in insertion
  order, read with \<^const>\<open>map_of\<close> and written with \<^const>\<open>AList.update\<close>; the registry
  \<^verbatim>\<open>ids\<close> is a set, as in the source.
\<close>

record Context =
  document :: Document
  ids :: "string set"
  styles :: "(string \<times> StyleProperties) list"
  ctx_regions :: "(string \<times> (int \<times> string)) list"

definition Context_init :: "Document \<Rightarrow> Context" where
  "Context_init d = \<lparr>document = d, ids = {}, styles = [], ctx_regions = []\<rparr>"

definition add_id :: "string \<Rightarrow> Context \<Rightarrow> error + Context" where
  "add_id i ctx =
     (if i \<in> ids ctx then Inl (ParseError (''Non unique identifier: '' @ i))
      else Inr (ctx\<lparr>ids := insert i (ids ctx)\<rparr>))"

text \<open>
  \<^verbatim>\<open>_resolve_style\<close>. The state of its two loops is the resolved style and
  \<^verbatim>\<open>parent_font_size\<close>. \<open>resolve_ids\<close> is the inner loop over the identifiers
  \<^verbatim>\<open>value.split(" ")\<close> of one scope, \<open>resolve_scopes\<close> the outer loop over
  \<^verbatim>\<open>enumerate(style_stack)\<close>. The message of the reference error is not an f-string in
  the source, so it holds the text \<^verbatim>\<open>{id}\<close>.
\<close>

fun resolve_ids ::
  "Context \<Rightarrow> string list \<Rightarrow> ResolvedStyle \<times> real \<Rightarrow> error + (ResolvedStyle \<times> real)" where
  "resolve_ids ctx [] st = Inr st"
| "resolve_ids ctx (i # is) st =
     (if i = [] then resolve_ids ctx is st
      else (case map_of (styles ctx) i of
              None \<Rightarrow> Inl (ParseError ''Invalid style id: {id}'')
            | Some properties \<Rightarrow>
                (let (msk, resolved_style) = merge_properties (fst st) properties
                 in bind (compute msk (Some (snd st)) (cell_resolution (document ctx))
                            resolved_style) (\<lambda>resolved_style.
                      resolve_ids ctx is (resolved_style, font_size resolved_style)))))"

fun resolve_scopes ::
  "Context \<Rightarrow> nat \<Rightarrow> string list \<Rightarrow> ResolvedStyle \<times> real \<Rightarrow> error + (ResolvedStyle \<times> real)" where
  "resolve_scopes ctx index [] st = Inr st"
| "resolve_scopes ctx index (v # vs) st =
     bind (resolve_ids ctx (split_on (CHR '' '') v)
             (if index \<noteq> 0 then inherited (fst st) else fst st, snd st))
       (resolve_scopes ctx (Suc index) vs)"

definition resolve_style :: "string list \<Rightarrow> Context \<Rightarrow> error + ResolvedStyle" where
  "resolve_style style_stack ctx =
     bind (compute COMPUTE_ALL_MASK None (cell_resolution (document ctx)) ResolvedStyle_default)
       (\<lambda>resolved_style.
          (let parent_font_size = font_size resolved_style
           in bind (resolve_scopes ctx 0 style_stack (resolved_style, parent_font_size))
                (\<lambda>st. Inr (fst st))))"

section \<open>The structural walker (parse.py)\<close>

text \<open>
  The tree that \<^verbatim>\<open>xml.etree.ElementTree.fromstring\<close> returns is the input of the model:
  an element has a tag, its attributes in document order (a dictionary in the source,
  so the names are distinct), its text and its child elements. Building the tree from
  the input text is the work of the XML library and is not modelled.
\<close>

datatype Element =
  Element (tag: string) (attrib: "(string \<times> string) list") (elem_text: "string option")
    (children: "Element list")

definition elem_get :: "Element \<Rightarrow> string \<Rightarrow> string option" where
  "elem_get elem name = map_of (attrib elem) name"

text \<open>\<^verbatim>\<open>elem.get(name, "")\<close>\<close>

definition elem_get_default :: "Element \<Rightarrow> string \<Rightarrow> string" where
  "elem_get_default elem name = (case elem_get elem name of None \<Rightarrow> [] | Some v \<Rightarrow> v)"

definition ID_ATTR :: string where
  "ID_ATTR = ''{http://www.w3.org/XML/1998/namespace}id''"
definition LANG_ATTR :: string where
  "LANG_ATTR = ''{http://www.w3.org/XML/1998/namespace}lang''"
definition SPACE_ATTR :: string where
  "SPACE_ATTR = ''{http://www.w3.org/XML/1998/namespace}space''"

definition TT_ELEM :: string where
  "TT_ELEM = ''{http://www.w3.org/ns/ttml}tt''"
definition TIME_BASE_ATTR :: string where
  "TIME_BASE_ATTR = ''{http://www.w3.org/ns/ttml#parameter}timeBase''"
definition ACTIVE_AREA_ATTR :: string where
  "ACTIVE_AREA_ATTR = ''{http://www.w3.org/ns/ttml/profile/imsc1#parameter}activeArea''"
definition CELL_RESOLUTION_ATTR :: string where
  "CELL_RESOLUTION_ATTR = ''{http://www.w3.org/ns/ttml#parameter}cellResolution''"

definition HEAD_ELEM :: string where
  "HEAD_ELEM = ''{http://www.w3.org/ns/ttml}head''"
definition STYLING_ELEM :: string where
  "STYLING_ELEM = ''{http://www.w3.org/ns/ttml}styling''"
definition LAYOUT_ELEM :: string where
  "LAYOUT_ELEM = ''{http://www.w3.org/ns/ttml}layout''"

definition STYLE_ELEM :: string where
  "STYLE_ELEM = ''{http://www.w3.org/ns/ttml}style''"
definition BACKGROUND_COLOR_ATTR :: string where
  "BACKGROUND_COLOR_ATTR = ''{http://www.w3.org/ns/ttml#styling}backgroundColor''"
definition COLOR_ATTR :: string where
  "COLOR_ATTR = ''{http://www.w3.org/ns/ttml#styling}color''"
definition DIRECTION_ATTR :: string where
  "DIRECTION_ATTR = ''{http://www.w3.org/ns/ttml#styling}direction''"
definition FILL_LINE_GAP_ATTR :: string where
  "FILL_LINE_GAP_ATTR = ''{http://www.w3.org/ns/ttml/profile/imsc1#styling}fillLineGap''"
definition FONT_FAMILY_ATTR :: string where
  "FONT_FAMILY_ATTR = ''{http://www.w3.org/ns/ttml#styling}fontFamily''"
definition FONT_SIZE_ATTR :: string where
  "FONT_SIZE_ATTR = ''{http://www.w3.org/ns/ttml#styling}fontSize''"
definition FONT_STYLE_ATTR :: string where
  "FONT_STYLE_ATTR = ''{http://www.w3.org/ns/ttml#styling}fontStyle''"
definition FONT_WEIGHT_ATTR :: string where
  "FONT_WEIGHT_ATTR = ''{http://www.w3.org/ns/ttml#styling}fontWeight''"
definition LINE_HEIGHT_ATTR :: string where
  "LINE_HEIGHT_ATTR = ''{http://www.w3.org/ns/ttml#styling}lineHeight''"
definition LINE_PADDING_ATTR :: string where
  "LINE_PADDING_ATTR = ''{urn:ebu:tt:style}linePadding''"
definition MULTI_ROW_ALIGN_ATTR :: string where
  "MULTI_ROW_ALIGN_ATTR = ''{urn:ebu:tt:style}multiRowAlign''"
definition TEXT_ALIGN_ATTR :: string where
  "TEXT_ALIGN_ATTR = ''{http://www.w3.org/ns/ttml#styling}textAlign''"
definition TEXT_DECORATION_ATTR :: string where
  "TEXT_DECORATION_ATTR = ''{http://www.w3.org/ns/ttml#styling}textDecoration''"
definition TEXT_OUTLINE_ATTR :: string where
  "TEXT_OUTLINE_ATTR = ''{http://www.w3.org/ns/ttml#styling}textOutline''"
definition UNICODE_BIDI_ATTR :: string where
  "UNICODE_BIDI_ATTR = ''{http://www.w3.org/ns/ttml#styling}unicodeBidi''"
definition WRAP_OPTION_ATTR :: string where
  "WRAP_OPTION_ATTR = ''{http://www.w3.org/ns/ttml#styling}wrapOption''"

definition REGION_ELEM :: string where
  "REGION_ELEM = ''{http://www.w3.org/ns/ttml}region''"
definition ORIGIN_ATTR :: string where
  "ORIGIN_ATTR = ''{http://www.w3.org/ns/ttml#styling}origin''"
definition EXTENT_ATTR :: string where
  "EXTENT_ATTR = ''{http://www.w3.org/ns/ttml#styling}extent''"
definition DISPLAY_ALIGN_ATTR :: string where
  "DISPLAY_ALIGN_ATTR = ''{http://www.w3.org/ns/ttml#styling}displayAlign''"
definition OVERFLOW_ATTR :: string where
  "OVERFLOW_ATTR = ''{http://www.w3.org/ns/ttml#styling}overflow''"
definition PADDING_ATTR :: string where
  "PADDING_ATTR = ''{http://www.w3.org/ns/ttml#styling}padding''"
definition SHOW_BACKGROUND_ATTR :: string where
  "SHOW_BACKGROUND_ATTR = ''{http://www.w3.org/ns/ttml#styling}showBackground''"
definition WRITING_MODE_ATTR :: string where
  "WRITING_MODE_ATTR = ''{http://www.w3.org/ns/ttml#styling}writingMode''"

definition BODY_ELEM :: string where
  "BODY_ELEM = ''{http://www.w3.org/ns/ttml}body''"
definition DIV_ELEM :: string where
  "DIV_ELEM = ''{http://www.w3.org/ns/ttml}div''"
definition P_ELEM :: string where
  "P_ELEM = ''{http://www.w3.org/ns/ttml}p''"
definition BR_ELEM :: string where
  "BR_ELEM = ''{http://www.w3.org/ns/ttml}br''"
definition SPAN_ELEM :: string where
  "SPAN_ELEM = ''{http://www.w3.org/ns/ttml}span''"

text \<open>\<^verbatim>\<open>if v := elem.get(name)\<close> for a string: present and not empty.\<close>

definition get_nonempty :: "Element \<Rightarrow> string \<Rightarrow> string option" where
  "get_nonempty elem name = get_truthy (elem_get elem name) (\<lambda>v. v \<noteq> [])"

definition parse_id :: "Element \<Rightarrow> bool \<Rightarrow> error + string" where
  "parse_id elem required =
     (case get_nonempty elem ID_ATTR of
        Some v \<Rightarrow>
          (let s = strip v
           in if s \<noteq> [] then Inr s
              else Inl (ParseError (''Empty `id` attribute on '' @ tag elem)))
      | None \<Rightarrow>
          if required then Inl (ParseError (''Missing `id` attribute on '' @ tag elem))
          else Inr [])"

subsection \<open>Styles\<close>

text \<open>One step of the loop over \<^verbatim>\<open>elem.items()\<close> in \<^verbatim>\<open>_parse_styles\<close>.\<close>

definition style_attr :: "string \<Rightarrow> string \<Rightarrow> StyleProperties \<Rightarrow> error + StyleProperties" where
  "style_attr name val properties =
     (if name = BACKGROUND_COLOR_ATTR then
        bind (Color_parse val) (\<lambda>v. Inr (properties\<lparr>sp_background_color := Some v\<rparr>))
      else if name = COLOR_ATTR then
        bind (Color_parse val) (\<lambda>v. Inr (properties\<lparr>sp_color := Some v\<rparr>))
      else if name = DIRECTION_ATTR then
        bind (Direction_parse val) (\<lambda>v. Inr (properties\<lparr>sp_direction := Some v\<rparr>))
      else if name = FILL_LINE_GAP_ATTR then
        (let v = strip val
         in if v = ''true'' then Inr (properties\<lparr>sp_fill_line_gap := Some True\<rparr>)
            else if v = ''false'' then Inr (properties\<lparr>sp_fill_line_gap := Some False\<rparr>)
            else Inl (ParseError (''Invaid `fillLineGap` attribute: '' @ val)))
      else if name = FONT_FAMILY_ATTR then
        Inr (properties\<lparr>sp_font_family :=
               Some (filter (\<lambda>v. v \<noteq> []) (split_on (CHR '','') (strip val)))\<rparr>)
      else if name = FONT_SIZE_ATTR then
        bind (FontSize_parse val) (\<lambda>v. Inr (properties\<lparr>sp_font_size := Some v\<rparr>))
      else if name = FONT_STYLE_ATTR then
        bind (FontStyle_parse val) (\<lambda>v. Inr (properties\<lparr>sp_font_style := Some v\<rparr>))
      else if name = FONT_WEIGHT_ATTR then
        bind (FontWeight_parse val) (\<lambda>v. Inr (properties\<lparr>sp_font_weight := Some v\<rparr>))
      else if name = LINE_HEIGHT_ATTR then
        bind (LineHeight_parse val) (\<lambda>v. Inr (properties\<lparr>sp_line_height := Some v\<rparr>))
      else if name = LINE_PADDING_ATTR then
        bind (LinePadding_parse val) (\<lambda>v. Inr (properties\<lparr>sp_line_padding := Some v\<rparr>))
      else if name = MULTI_ROW_ALIGN_ATTR then
        bind (MultiRowAlign_parse val) (\<lambda>v. Inr (properties\<lparr>sp_multi_row_align := Some v\<rparr>))
      else if name = TEXT_ALIGN_ATTR then
        bind (TextAlign_parse val) (\<lambda>v. Inr (properties\<lparr>sp_text_align := Some v\<rparr>))
      else if name = TEXT_DECORATION_ATTR then
        bind (TextDecoration_parse val) (\<lambda>v. Inr (properties\<lparr>sp_text_decoration := Some v\<rparr>))
      else if name = TEXT_OUTLINE_ATTR then
        bind (TextOutline_parse val) (\<lambda>v. Inr (properties\<lparr>sp_text_outline := Some v\<rparr>))
      else if name = UNICODE_BIDI_ATTR then
        bind (UnicodeBidi_parse val) (\<lambda>v. Inr (properties\<lparr>sp_unicode_bidi := Some v\<rparr>))
      else if name = WRAP_OPTION_ATTR then
        bind (WrapOption_parse val) (\<lambda>v. Inr (properties\<lparr>sp_wrap_option := Some v\<rparr>))
      else Inr properties)"

fun style_attrs :: "(string \<times> string) list \<Rightarrow> StyleProperties \<Rightarrow> error + StyleProperties" where
  "style_attrs [] properties = Inr properties"
| "style_attrs ((name, val) # items) properties =
     bind (style_attr name val properties) (style_attrs items)"

text \<open>The body of the loop of \<^verbatim>\<open>_parse_styles\<close> for one \<^verbatim>\<open>style\<close> element.\<close>

definition parse_style :: "Element \<Rightarrow> Context \<Rightarrow> error + Context" where
  "parse_style elem ctx =
     bind (parse_id elem True) (\<lambda>i.
     bind (add_id i ctx) (\<lambda>ctx.
     bind (style_attrs (attrib elem) StyleProperties_empty) (\<lambda>properties.
     Inr (ctx\<lparr>styles := AList.update i properties (styles ctx)\<rparr>))))"

fun parse_styles_loop :: "Element list \<Rightarrow> Context \<Rightarrow> error + Context" where
  "parse_styles_loop [] ctx = Inr ctx"
| "parse_styles_loop (elem # elems) ctx =
     (if tag elem \<noteq> STYLE_ELEM then parse_styles_loop elems ctx
      else bind (parse_style elem ctx) (parse_styles_loop elems))"

definition parse_styles :: "Element \<Rightarrow> Context \<Rightarrow> error + Context" where
  "parse_styles styling ctx = parse_styles_loop (children styling) ctx"

subsection \<open>Regions\<close>

text \<open>
  The state of the loop over the attributes of a \<^verbatim>\<open>region\<close> element: the region, the
  flags \<^verbatim>\<open>origin_parsed\<close> and \<^verbatim>\<open>extent_parsed\<close>, and \<^verbatim>\<open>style\<close> (fields \<open>rs_\<close>).
\<close>

record region_state =
  rs_region :: Region
  rs_origin_parsed :: bool
  rs_extent_parsed :: bool
  rs_style :: string

definition region_attr :: "string \<Rightarrow> string \<Rightarrow> region_state \<Rightarrow> error + region_state" where
  "region_attr name val s =
     (if name = ORIGIN_ATTR then
        bind (Origin_parse val) (\<lambda>v.
          Inr (s\<lparr>rs_region := (rs_region s)\<lparr>origin := v\<rparr>, rs_origin_parsed := True\<rparr>))
      else if name = EXTENT_ATTR then
        bind (Extent_parse val) (\<lambda>v.
          Inr (s\<lparr>rs_region := (rs_region s)\<lparr>extent := v\<rparr>, rs_extent_parsed := True\<rparr>))
      else if name = ''style'' then Inr (s\<lparr>rs_style := strip val\<rparr>)
      else if name = DISPLAY_ALIGN_ATTR then
        bind (DisplayAlign_parse val) (\<lambda>v. Inr (s\<lparr>rs_region := (rs_region s)\<lparr>display_align := v\<rparr>\<rparr>))
      else if name = OVERFLOW_ATTR then
        bind (Overflow_parse val) (\<lambda>v. Inr (s\<lparr>rs_region := (rs_region s)\<lparr>overflow := v\<rparr>\<rparr>))
      else if name = PADDING_ATTR then
        bind (Padding_parse val) (\<lambda>v. Inr (s\<lparr>rs_region := (rs_region s)\<lparr>padding := v\<rparr>\<rparr>))
      else if name = SHOW_BACKGROUND_ATTR then
        bind (ShowBackground_parse val) (\<lambda>v.
          Inr (s\<lparr>rs_region := (rs_region s)\<lparr>show_background := v\<rparr>\<rparr>))
      else if name = WRITING_MODE_ATTR then
        bind (WritingMode_parse val) (\<lambda>v. Inr (s\<lparr>rs_region := (rs_region s)\<lparr>writing_mode := v\<rparr>\<rparr>))
      else Inr s)"

fun region_attrs :: "(string \<times> string) list \<Rightarrow> region_state \<Rightarrow> error + region_state" where
  "region_attrs [] s = Inr s"
| "region_attrs ((name, val) # items) s = bind (region_attr name val s) (region_attrs items)"

text \<open>
  \<^verbatim>\<open>region = model.Region(); origin_parsed = False; extent_parsed = False; style = ""\<close>
\<close>

definition region_state_init :: region_state where
  "region_state_init =
     \<lparr>rs_region = Region_default, rs_origin_parsed = False, rs_extent_parsed = False,
      rs_style = []\<rparr>"

text \<open>The body of the loop of \<^verbatim>\<open>_parse_regions\<close> for one \<^verbatim>\<open>region\<close> element.\<close>

definition parse_region :: "Element \<Rightarrow> Context \<Rightarrow> error + Context" where
  "parse_region elem ctx =
     bind (parse_id elem True) (\<lambda>i.
     bind (add_id i ctx) (\<lambda>ctx.
     bind (region_attrs (attrib elem) region_state_init) (\<lambda>s.
     if \<not> rs_origin_parsed s then Inl (ParseError ''Missing `origin` attribute'')
     else if \<not> rs_extent_parsed s then Inl (ParseError ''Missing `extent` attribute'')
     else Inr (ctx\<lparr>ctx_regions :=
                      AList.update i (int (length (regions (document ctx))), rs_style s)
                        (ctx_regions ctx),
                    document := (document ctx)\<lparr>regions := regions (document ctx) @ [rs_region s]\<rparr>\<rparr>))))"

fun parse_regions_loop :: "Element list \<Rightarrow> Context \<Rightarrow> error + Context" where
  "parse_regions_loop [] ctx = Inr ctx"
| "parse_regions_loop (elem # elems) ctx =
     (if tag elem \<noteq> REGION_ELEM then parse_regions_loop elems ctx
      else bind (parse_region elem ctx) (parse_regions_loop elems))"

definition parse_regions :: "Element \<Rightarrow> Context \<Rightarrow> error + Context" where
  "parse_regions layout ctx = parse_regions_loop (children layout) ctx"

subsection \<open>Head\<close>

text \<open>
  \<^verbatim>\<open>functools.reduce\<close> over \<^verbatim>\<open>root.iterfind(tag)\<close> yields the last child with the tag
  (or \<^verbatim>\<open>None\<close>) and the number of such children.
\<close>

definition find_children :: "Element \<Rightarrow> string \<Rightarrow> Element list" where
  "find_children root_elem name = filter (\<lambda>e. tag e = name) (children root_elem)"

fun parse_head_loop :: "Element list \<Rightarrow> nat \<Rightarrow> nat \<Rightarrow> Context \<Rightarrow> error + (nat \<times> nat \<times> Context)" where
  "parse_head_loop [] styling_count layout_count ctx = Inr (styling_count, layout_count, ctx)"
| "parse_head_loop (elem # elems) styling_count layout_count ctx =
     (if tag elem = STYLING_ELEM then
        (if styling_count \<noteq> 0 then Inl (ParseError ''Multiple `styling` elements'')
         else bind (parse_styles elem ctx) (\<lambda>ctx.
                if styles ctx = [] then Inl (ParseError ''Missing element `style`'')
                else parse_head_loop elems (styling_count + 1) layout_count ctx))
      else if tag elem = LAYOUT_ELEM then
        (if layout_count \<noteq> 0 then Inl (ParseError ''Multiple `layout` elements'')
         else bind (parse_regions elem ctx) (\<lambda>ctx.
                if regions (document ctx) = [] then Inl (ParseError ''Missing element `region`'')
                else parse_head_loop elems styling_count (layout_count + 1) ctx))
      else parse_head_loop elems styling_count layout_count ctx)"

definition parse_head :: "Element \<Rightarrow> Context \<Rightarrow> error + Context" where
  "parse_head root_elem ctx =
     (let heads = find_children root_elem HEAD_ELEM
      in if heads = [] then Inl (ParseError ''Missing element `head`'')
         else if length heads > 1 then Inl (ParseError ''Multiple `head` elements'')
         else bind (parse_head_loop (children (last heads)) 0 0 ctx)
                (\<lambda>(styling_count, layout_count, ctx).
                   if styling_count = 0 then Inl (ParseError ''Missing element `styling`'')
                   else if layout_count = 0 then Inl (ParseError ''Missing element `layout`'')
                   else Inr ctx))"

subsection \<open>Timecodes\<close>

text \<open>
  The \<^verbatim>\<open>Scanner\<close> holds the rest of the input; its methods return the new rest, or
  the \<^verbatim>\<open>ValueError()\<close> they raise. \<^verbatim>\<open>_parse_timecode\<close> catches \<^verbatim>\<open>ValueError\<close> only:
  the \<^verbatim>\<open>OverflowError\<close> of the product of the hour field and \<^verbatim>\<open>3600.0\<close> leaves it.
\<close>

definition scan_char :: "char \<Rightarrow> string \<Rightarrow> error + string" where
  "scan_char c input =
     (if input \<noteq> [] \<and> hd input = c then Inr (tl input) else Inl (ValueError []))"

definition scan_int :: "nat \<Rightarrow> nat \<Rightarrow> string \<Rightarrow> error + (nat \<times> string)" where
  "scan_int num_digits limit input =
     (let count = length (takeWhile is_digit input)
      in if count = 0 \<or> (num_digits > 0 \<and> count \<noteq> num_digits) then Inl (ValueError [])
         else (let n = nat_of_digits (take count input)
               in if limit > 0 \<and> n > limit then Inl (ValueError [])
                  else Inr (n, drop count input)))"

text \<open>The statements of the \<^verbatim>\<open>try\<close> block: the seconds and the rest of the input.\<close>

definition scan_timecode :: "string \<Rightarrow> error + (real \<times> string)" where
  "scan_timecode input =
     bind (scan_int 0 0 input) (\<lambda>(h, input).
     bind (float_of_int (int h)) (\<lambda>hf.
     bind (scan_char (CHR '':'') input) (\<lambda>input.
     bind (scan_int 2 59 input) (\<lambda>(m, input).
     bind (scan_char (CHR '':'') input) (\<lambda>input.
     bind (scan_int 2 59 input) (\<lambda>(s, input).
     bind (scan_char (CHR ''.'') input) (\<lambda>input.
     bind (scan_int 3 0 input) (\<lambda>(ms, input).
     Inr (hf * 3600 + real m * 60 + real s + real ms * (1 / 1000), input)))))))))"

definition parse_timecode :: "string \<Rightarrow> string \<Rightarrow> error + real" where
  "parse_timecode attr input =
     (case scan_timecode input of
        Inl (ValueError x) \<Rightarrow>
          Inl (ParseError (''Invalid `'' @ attr @ ''` attribute value: '' @ input))
      | Inl e \<Rightarrow> Inl e
      | Inr (secs, rest) \<Rightarrow>
          if rest \<noteq> [] then
            Inl (ParseError (''Invalid `'' @ attr @ ''` attribute value: '' @ input))
          else Inr secs)"

subsection \<open>Body, divisions, paragraphs and spans\<close>

text \<open>
  The source appends each element to the document as soon as it is built and keeps one
  style stack, a deque that it pushes to before a descent and pops afterwards. Here each
  loop returns the list it built, together with the context, and the stack is a list
  passed down: a region style is put in front (\<^verbatim>\<open>appendleft\<close>), an element style at the
  end (\<^verbatim>\<open>append\<close>). On every path that returns, the source has popped what it pushed, so
  each iteration of a loop starts from the stack the loop was called with.
\<close>

definition push_left :: "string \<Rightarrow> string list \<Rightarrow> string list" where
  "push_left region_style style_stack =
     (if region_style \<noteq> [] then region_style # style_stack else style_stack)"

definition push :: "string \<Rightarrow> string list \<Rightarrow> string list" where
  "push style style_stack = (if style \<noteq> [] then style_stack @ [style] else style_stack)"

text \<open>\<^verbatim>\<open>if id := _parse_id(elem, required=False): ctx.add_id(id)\<close>\<close>

definition parse_optional_id :: "Element \<Rightarrow> Context \<Rightarrow> error + (string \<times> Context)" where
  "parse_optional_id elem ctx =
     bind (parse_id elem False) (\<lambda>i.
       if i \<noteq> [] then bind (add_id i ctx) (\<lambda>ctx. Inr (i, ctx)) else Inr (i, ctx))"

text \<open>
  The region reference of a \<^verbatim>\<open>div\<close> or \<^verbatim>\<open>p\<close> element: the index and the style of the
  region, or \<open>(-1, [])\<close> without a reference. A pair found in the table is a tuple of
  two and so always truthy.
\<close>

definition region_ref :: "Element \<Rightarrow> Context \<Rightarrow> error + (int \<times> string)" where
  "region_ref elem ctx =
     (let region_id = strip (elem_get_default elem ''region'')
      in if region_id \<noteq> [] then
           (case map_of (ctx_regions ctx) region_id of
              Some pair \<Rightarrow> Inr pair
            | None \<Rightarrow> Inl (ParseError (''Invalid region identifier: '' @ region_id)))
         else Inr (- 1, []))"

text \<open>\<^verbatim>\<open>space = Space.DEFAULT; if v := elem.get(SPACE_ATTR): space = Space.parse(v)\<close>\<close>

definition parse_space :: "Element \<Rightarrow> error + Space" where
  "parse_space elem =
     (case get_nonempty elem SPACE_ATTR of
        Some v \<Rightarrow> Space_parse v
      | None \<Rightarrow> Inr Space_DEFAULT)"

text \<open>
  The body of the loop of \<^verbatim>\<open>_parse_paragraph_content\<close> for one child: the contents
  it appends (none, a break or a span).
\<close>

definition parse_content :: "Element \<Rightarrow> string list \<Rightarrow> Context \<Rightarrow> error + (Context \<times> Content list)" where
  "parse_content elem style_stack ctx =
     (if tag elem = BR_ELEM then Inr (ctx, [Br])
      else if tag elem \<noteq> SPAN_ELEM then Inr (ctx, [])
      else
        bind (parse_optional_id elem ctx) (\<lambda>(i, ctx).
        (let style = strip (elem_get_default elem ''style'');
             style_stack = push style style_stack
         in bind (resolve_style style_stack ctx) (\<lambda>resolved_style.
            (let language = strip (elem_get_default elem LANG_ATTR)
             in bind (parse_space elem) (\<lambda>space.
                Inr (ctx,
                  [SpanC \<lparr>span_id = i, span_language = language, span_space = space,
                     span_background_color = background_color resolved_style,
                     span_color = color resolved_style,
                     span_direction = direction resolved_style,
                     span_font_family = font_family resolved_style,
                     span_font_size = font_size resolved_style,
                     span_font_style = font_style resolved_style,
                     span_font_weight = font_weight resolved_style,
                     span_text_decoration = text_decoration resolved_style,
                     span_text_outline = text_outline resolved_style,
                     span_unicode_bidi = unicode_bidi resolved_style,
                     span_wrap_option = wrap_option resolved_style,
                     span_text = (case elem_text elem of None \<Rightarrow> [] | Some t \<Rightarrow> t)\<rparr>])))))))"

fun parse_content_loop ::
  "Element list \<Rightarrow> string list \<Rightarrow> Context \<Rightarrow> error + (Context \<times> Content list)" where
  "parse_content_loop [] style_stack ctx = Inr (ctx, [])"
| "parse_content_loop (elem # elems) style_stack ctx =
     bind (parse_content elem style_stack ctx) (\<lambda>(ctx, cs).
     bind (parse_content_loop elems style_stack ctx) (\<lambda>(ctx, rest).
     Inr (ctx, cs @ rest)))"

definition parse_paragraph_content ::
  "Element \<Rightarrow> string list \<Rightarrow> Context \<Rightarrow> error + (Context \<times> Content list)" where
  "parse_paragraph_content para style_stack ctx =
     parse_content_loop (children para) style_stack ctx"

text \<open>
  The region of a paragraph (parse.py, lines 379 to 392): its own reference and the
  index of the enclosing division, \<open>-1\<close> standing for no region.
\<close>

definition para_region :: "Element \<Rightarrow> int \<Rightarrow> Context \<Rightarrow> error + (int \<times> string)" where
  "para_region elem parent_region_index ctx =
     bind (region_ref elem ctx) (\<lambda>(region_index, region_style).
       if region_index \<noteq> - 1 \<and> parent_region_index \<noteq> - 1
       then Inl (ParseError ''Multiple regions'')
       else if region_index = - 1 then
         (if parent_region_index = - 1 then Inl (ParseError ''Missing `region` attribute'')
          else Inr (parent_region_index, region_style))
       else Inr (region_index, region_style))"

text \<open>\<^verbatim>\<open>if v := elem.get(attr): ... else: raise ParseError(...)\<close> for \<^verbatim>\<open>begin\<close> and \<^verbatim>\<open>end\<close>.\<close>

definition parse_time_attr :: "Element \<Rightarrow> string \<Rightarrow> error + real" where
  "parse_time_attr elem attr =
     (case get_nonempty elem attr of
        Some v \<Rightarrow> parse_timecode attr (strip v)
      | None \<Rightarrow> Inl (ParseError (''Missing `'' @ attr @ ''` attribute'')))"

text \<open>The body of the loop of \<^verbatim>\<open>_parse_para\<close> for one \<^verbatim>\<open>p\<close> element.\<close>

definition parse_one_para ::
  "Element \<Rightarrow> string list \<Rightarrow> int \<Rightarrow> Context \<Rightarrow> error + (Context \<times> Paragraph)" where
  "parse_one_para elem style_stack parent_region_index ctx =
     bind (parse_id elem True) (\<lambda>i.
     bind (add_id i ctx) (\<lambda>ctx.
     bind (parse_time_attr elem ''begin'') (\<lambda>begin_t.
     bind (parse_time_attr elem ''end'') (\<lambda>end_t.
     bind (para_region elem parent_region_index ctx) (\<lambda>(region_index, region_style).
     (let style_stack = push_left region_style style_stack;
          style = strip (elem_get_default elem ''style'');
          style_stack = push style style_stack
      in bind (resolve_style style_stack ctx) (\<lambda>resolved_style.
         (let language = strip (elem_get_default elem LANG_ATTR)
          in bind (parse_space elem) (\<lambda>space.
             bind (parse_paragraph_content elem style_stack ctx) (\<lambda>(ctx, cs).
             Inr (ctx,
               \<lparr>para_id = i, begin_secs = begin_t, end_secs = end_t,
                para_region_index = region_index, para_language = language, para_space = space,
                para_background_color = background_color resolved_style,
                para_direction = direction resolved_style,
                para_fill_line_gap = fill_line_gap resolved_style,
                para_line_height = line_height resolved_style,
                para_line_padding = line_padding resolved_style,
                para_multi_row_align = multi_row_align resolved_style,
                para_text_align = text_align resolved_style,
                para_unicode_bidi = unicode_bidi resolved_style,
                para_contents = cs\<rparr>)))))))))))"

fun parse_para_loop ::
  "Element list \<Rightarrow> string list \<Rightarrow> int \<Rightarrow> Context \<Rightarrow> error + (Context \<times> Paragraph list)" where
  "parse_para_loop [] style_stack parent_region_index ctx = Inr (ctx, [])"
| "parse_para_loop (elem # elems) style_stack parent_region_index ctx =
     (if tag elem \<noteq> P_ELEM then parse_para_loop elems style_stack parent_region_index ctx
      else
        bind (parse_one_para elem style_stack parent_region_index ctx) (\<lambda>(ctx, para).
        bind (parse_para_loop elems style_stack parent_region_index ctx) (\<lambda>(ctx, rest).
        Inr (ctx, para # rest))))"

definition parse_para ::
  "Element \<Rightarrow> string list \<Rightarrow> int \<Rightarrow> Context \<Rightarrow> error + (Context \<times> Paragraph list)" where
  "parse_para div_elem style_stack parent_region_index ctx =
     bind (parse_para_loop (children div_elem) style_stack parent_region_index ctx)
       (\<lambda>(ctx, paragraphs).
          if paragraphs = [] then Inl (ParseError ''Missing element `p`'')
          else Inr (ctx, paragraphs))"

text \<open>The body of the loop of \<^verbatim>\<open>_parse_div\<close> for one \<^verbatim>\<open>div\<close> element.\<close>

definition parse_one_div :: "Element \<Rightarrow> string list \<Rightarrow> Context \<Rightarrow> error + (Context \<times> Div)" where
  "parse_one_div elem style_stack ctx =
     bind (parse_optional_id elem ctx) (\<lambda>(i, ctx).
     bind (region_ref elem ctx) (\<lambda>(region_index, region_style).
     (let style_stack = push_left region_style style_stack;
          style = strip (elem_get_default elem ''style'');
          style_stack = push style style_stack
      in bind (resolve_style style_stack ctx) (\<lambda>resolved_style.
         (let language = strip (elem_get_default elem LANG_ATTR)
          in bind (parse_para elem style_stack region_index ctx) (\<lambda>(ctx, paras).
             Inr (ctx,
               \<lparr>div_id = i, div_language = language,
                div_background_color = background_color resolved_style,
                div_paragraphs = paras\<rparr>)))))))"

fun parse_div_loop ::
  "Element list \<Rightarrow> string list \<Rightarrow> Context \<Rightarrow> error + (Context \<times> Div list)" where
  "parse_div_loop [] style_stack ctx = Inr (ctx, [])"
| "parse_div_loop (elem # elems) style_stack ctx =
     (if tag elem \<noteq> DIV_ELEM then parse_div_loop elems style_stack ctx
      else
        bind (parse_one_div elem style_stack ctx) (\<lambda>(ctx, d).
        bind (parse_div_loop elems style_stack ctx) (\<lambda>(ctx, rest).
        Inr (ctx, d # rest))))"

definition parse_div :: "Element \<Rightarrow> string list \<Rightarrow> Context \<Rightarrow> error + (Context \<times> Div list)" where
  "parse_div body_elem style_stack ctx =
     bind (parse_div_loop (children body_elem) style_stack ctx) (\<lambda>(ctx, ds).
       if ds = [] then Inl (ParseError ''Missing element `div`'')
       else Inr (ctx, ds))"

definition parse_body :: "Element \<Rightarrow> Context \<Rightarrow> error + (Context \<times> Body)" where
  "parse_body root_elem ctx =
     (let bodies = find_children root_elem BODY_ELEM
      in if bodies = [] then Inl (ParseError ''Missing element `body`'')
         else if length bodies > 1 then Inl (ParseError ''Multiple `body` elements'')
         else (let body_elem = last bodies;
                   style_stack = push (strip (elem_get_default body_elem ''style'')) []
               in bind (resolve_style style_stack ctx) (\<lambda>resolved_style.
                  bind (parse_div body_elem style_stack ctx) (\<lambda>(ctx, ds).
                  Inr (ctx,
                    \<lparr>body_background_color = background_color resolved_style,
                     body_divs = ds\<rparr>)))))"

subsection \<open>The entry point\<close>

definition parse :: "Element \<Rightarrow> error + Document" where
  "parse root_elem =
     (if tag root_elem \<noteq> TT_ELEM then Inl (ParseError (''Invalid root element: '' @ tag root_elem))
      else
        bind (case elem_get root_elem TIME_BASE_ATTR of
                None \<Rightarrow> Inl (ParseError ''Missing `timeBase` attribute'')
              | Some v \<Rightarrow>
                  if v \<noteq> ''media'' then Inl (ParseError (''Invalid `timeBase` attribute: '' @ v))
                  else Inr ()) (\<lambda>_.
        bind (case get_nonempty root_elem ACTIVE_AREA_ATTR of
                Some v \<Rightarrow> bind (ActiveArea_parse v) (\<lambda>a. Inr (Document_default\<lparr>active_area := a\<rparr>))
              | None \<Rightarrow> Inr Document_default) (\<lambda>doc.
        bind (case get_nonempty root_elem CELL_RESOLUTION_ATTR of
                Some v \<Rightarrow> bind (CellResolution_parse v) (\<lambda>c. Inr (doc\<lparr>cell_resolution := c\<rparr>))
              | None \<Rightarrow> Inr doc) (\<lambda>doc.
        bind (case elem_get root_elem LANG_ATTR of
                Some v \<Rightarrow> Inr (doc\<lparr>doc_language := strip v\<rparr>)
              | None \<Rightarrow> Inl (ParseError ''Missing attribute `lang`'')) (\<lambda>doc.
        bind (case get_nonempty root_elem SPACE_ATTR of
                Some v \<Rightarrow> bind (Space_parse v) (\<lambda>s. Inr (doc\<lparr>doc_space := s\<rparr>))
              | None \<Rightarrow> Inr doc) (\<lambda>doc.
        bind (parse_head root_elem (Context_init doc)) (\<lambda>ctx.
        bind (parse_body root_elem ctx) (\<lambda>(ctx, b).
        Inr ((document ctx)\<lparr>body := b\<rparr>)))))))))"

section \<open>Vocabulary of the properties\<close>

text \<open>
  A hexadecimal digit and the value of two of them, \<^verbatim>\<open>int(XX, 16)\<close> for digits
  \<^verbatim>\<open>X\<close>.
\<close>

definition hexdigit :: "char \<Rightarrow> bool" where
  "hexdigit c = (case digit_value c of None \<Rightarrow> False | Some d \<Rightarrow> d < 16)"

definition hex_value :: "char \<Rightarrow> nat" where
  "hex_value c = (case digit_value c of None \<Rightarrow> 0 | Some d \<Rightarrow> d)"

definition hex2 :: "char \<Rightarrow> char \<Rightarrow> int" where
  "hex2 c1 c2 = int (16 * hex_value c1 + hex_value c2)"

text \<open>The identifiers of a scope string that the resolver looks up.\<close>

definition scope_ids :: "string \<Rightarrow> string list" where
  "scope_ids v = filter (\<lambda>i. i \<noteq> []) (split_on (CHR '' '') v)"

text \<open>
  What a scope declares: no style that the scope string \<open>v\<close> names and the table holds
  declares a background colour or a bidi mode, or declares a foreground colour.
\<close>

definition declares_no_reset_property :: "Context \<Rightarrow> string \<Rightarrow> bool" where
  "declares_no_reset_property ctx v =
     (\<forall>i \<in> set (scope_ids v). \<forall>p. map_of (styles ctx) i = Some p \<longrightarrow>
        sp_background_color p = None \<and> sp_unicode_bidi p = None)"

definition declares_no_color :: "Context \<Rightarrow> string \<Rightarrow> bool" where
  "declares_no_color ctx v =
     (\<forall>i \<in> set (scope_ids v). \<forall>p. map_of (styles ctx) i = Some p \<longrightarrow> sp_color p = None)"

text \<open>The font sizes of the spans of a document, in document order.\<close>

definition span_font_sizes :: "Document \<Rightarrow> real list" where
  "span_font_sizes d =
     concat (map (\<lambda>dv. concat (map (\<lambda>p.
        concat (map (\<lambda>c. case c of Br \<Rightarrow> [] | SpanC s \<Rightarrow> [span_font_size s]) (para_contents p)))
       (div_paragraphs dv))) (body_divs (body d)))"

text \<open>
  The \<^verbatim>\<open>region\<close> elements of a document: the children with that tag of the
  \<^verbatim>\<open>layout\<close> children of its \<^verbatim>\<open>head\<close> children.
\<close>

definition region_elems :: "Element \<Rightarrow> Element list" where
  "region_elems root_elem =
     concat (map (\<lambda>layout. find_children layout REGION_ELEM)
       (concat (map (\<lambda>head. find_children head LAYOUT_ELEM)
          (find_children root_elem HEAD_ELEM))))"

text \<open>An element carries a region reference: its \<^verbatim>\<open>region\<close> attribute, stripped, is not empty.\<close>

definition has_region_ref :: "Element \<Rightarrow> bool" where
  "has_region_ref elem = (strip (elem_get_default elem ''region'') \<noteq> [])"

text \<open>
  The indices of the region table are positions in the region list, so none of them is
  the value \<open>-1\<close> that stands for no region.
\<close>

definition region_indices_ok :: "Context \<Rightarrow> bool" where
  "region_indices_ok ctx = (\<forall>k i s. map_of (ctx_regions ctx) k = Some (i, s) \<longrightarrow> 0 \<le> i)"

text \<open>
  The identifiers that the walker registers, in the order of the walk: the stripped
  \<^verbatim>\<open>xml:id\<close> of every \<^verbatim>\<open>style\<close> and \<^verbatim>\<open>region\<close> of the head, then of every
  \<^verbatim>\<open>div\<close>, of its \<^verbatim>\<open>p\<close> elements and of their \<^verbatim>\<open>span\<close> elements. An element
  without the attribute, or with an empty one, contributes none.
\<close>

definition elem_ids :: "Element \<Rightarrow> string list" where
  "elem_ids e = (case get_nonempty e ID_ATTR of None \<Rightarrow> [] | Some v \<Rightarrow> [strip v])"

definition span_ids :: "Element \<Rightarrow> string list" where
  "span_ids p = concat (map elem_ids (find_children p SPAN_ELEM))"

definition para_ids :: "Element \<Rightarrow> string list" where
  "para_ids dv = concat (map (\<lambda>p. elem_ids p @ span_ids p) (find_children dv P_ELEM))"

definition div_ids :: "Element \<Rightarrow> string list" where
  "div_ids b = concat (map (\<lambda>dv. elem_ids dv @ para_ids dv) (find_children b DIV_ELEM))"

definition head_child_ids :: "Element \<Rightarrow> string list" where
  "head_child_ids e =
     (if tag e = STYLING_ELEM then concat (map elem_ids (find_children e STYLE_ELEM))
      else if tag e = LAYOUT_ELEM then concat (map elem_ids (find_children e REGION_ELEM))
      else [])"

definition head_ids :: "Element \<Rightarrow> string list" where
  "head_ids h = concat (map head_child_ids (children h))"

definition document_ids :: "Element \<Rightarrow> string list" where
  "document_ids root_elem =
     concat (map head_ids (find_children root_elem HEAD_ELEM))
       @ concat (map div_ids (find_children root_elem BODY_ELEM))"

text \<open>
  Between two contexts the identifiers \<open>L\<close> were registered: they are new, pairwise
  distinct, and the only change of the registry.
\<close>

definition registers :: "Context \<Rightarrow> string list \<Rightarrow> Context \<Rightarrow> bool" where
  "registers ctx L ctx' = (ids ctx' = ids ctx \<union> set L \<and> distinct L \<and> set L \<inter> ids ctx = {})"

text \<open>The \<^verbatim>\<open>div\<close> elements of a document: those of its \<^verbatim>\<open>body\<close> children.\<close>

definition div_elems :: "Element \<Rightarrow> Element list" where
  "div_elems root_elem =
     concat (map (\<lambda>b. find_children b DIV_ELEM) (find_children root_elem BODY_ELEM))"

text \<open>
  Every paragraph of every division carries a region reference exactly when its division
  carries none.
\<close>

definition one_region_level :: "Element \<Rightarrow> bool" where
  "one_region_level root_elem =
     (\<forall>dv \<in> set (div_elems root_elem). \<forall>p \<in> set (find_children dv P_ELEM).
        has_region_ref p \<noteq> has_region_ref dv)"

text \<open>Two contexts that differ in the registry of identifiers at most.\<close>

definition frame :: "Context \<Rightarrow> Context \<Rightarrow> bool" where
  "frame ctx ctx' = (ctx' = ctx\<lparr>ids := ids ctx'\<rparr>)"

text \<open>The line-gap flags of the paragraphs of a document, in document order.\<close>

definition para_fill_line_gaps :: "Document \<Rightarrow> bool list" where
  "para_fill_line_gaps d =
     concat (map (\<lambda>dv. map para_fill_line_gap (div_paragraphs dv)) (body_divs (body d)))"

definition divisor_ok :: "int \<Rightarrow> bool" where
  "divisor_ok n = (n \<noteq> 0 \<and> \<bar>n\<bar> < 2 ^ 1024 - 2 ^ 970)"

definition declared_font_size :: "Context \<Rightarrow> string \<Rightarrow> real option" where
  "declared_font_size ctx i = (case map_of (styles ctx) i of None \<Rightarrow> None | Some p \<Rightarrow> sp_font_size p)"

definition scope_font_sizes :: "Context \<Rightarrow> string \<Rightarrow> real list" where
  "scope_font_sizes ctx v = List.map_filter (declared_font_size ctx) (scope_ids v)"

definition declared_color :: "Context \<Rightarrow> string \<Rightarrow> Color option" where
  "declared_color ctx i = (case map_of (styles ctx) i of None \<Rightarrow> None | Some p \<Rightarrow> sp_color p)"

definition scope_colors :: "Context \<Rightarrow> string \<Rightarrow> Color list" where
  "scope_colors ctx v = List.map_filter (declared_color ctx) (scope_ids v)"

text \<open>
  The channels of a colour literal: the slices of two characters of the part after
  \<^verbatim>\<open>#\<close> that \<^verbatim>\<open>Color.parse\<close> hands to \<^verbatim>\<open>int(_, base=16)\<close>, three of them or, for a
  part of eight characters, four. A channel is an integer when the builtin accepts the
  slice, and in range when its value is between 0 and 255.
\<close>

definition channel_slices :: "string \<Rightarrow> string list" where
  "channel_slices v =
     (if length v = 8 then [take 2 v, take 2 (drop 2 v), take 2 (drop 4 v), take 2 (drop 6 v)]
      else [take 2 v, take 2 (drop 2 v), take 2 (drop 4 v)])"

definition channel_in_range :: "string \<Rightarrow> bool" where
  "channel_in_range sl = (case py_int 16 sl of None \<Rightarrow> False | Some n \<Rightarrow> 0 \<le> n \<and> n \<le> 255)"

definition channel_is_int :: "string \<Rightarrow> bool" where
  "channel_is_int sl = (py_int 16 sl \<noteq> None)"

text \<open>
  The element that decides the region of a paragraph \<open>p\<close> of a division \<open>dv\<close>: the
  paragraph when it carries a reference, the division otherwise. The reference of an
  element resolves in a context to the index \<open>i\<close> when the region table holds \<open>i\<close> under
  the referenced identifier; it is the index \<open>i\<close> in a document when \<open>i\<close> is the position,
  among the \<^verbatim>\<open>region\<close> elements of the document, of the one with that identifier.
\<close>

definition region_source :: "Element \<Rightarrow> Element \<Rightarrow> Element" where
  "region_source dv p = (if has_region_ref p then p else dv)"

definition resolves_in :: "Context \<Rightarrow> Element \<Rightarrow> int \<Rightarrow> bool" where
  "resolves_in ctx e i =
     (case map_of (ctx_regions ctx) (strip (elem_get_default e ''region'')) of
        Some pair \<Rightarrow> fst pair = i
      | None \<Rightarrow> False)"

definition region_index_in :: "Element \<Rightarrow> Element \<Rightarrow> int \<Rightarrow> bool" where
  "region_index_in root_elem e i =
     (0 \<le> i \<and> nat i < length (region_elems root_elem)
      \<and> elem_ids (region_elems root_elem ! nat i) = [strip (elem_get_default e ''region'')])"

definition paragraph_regions_resolved :: "Element \<Rightarrow> Document \<Rightarrow> bool" where
  "paragraph_regions_resolved root_elem d =
     (list_all2 (\<lambda>dv dd.
        list_all2 (\<lambda>p q. region_index_in root_elem (region_source dv p) (para_region_index q))
          (find_children dv P_ELEM) (div_paragraphs dd))
        (div_elems root_elem) (body_divs (body d))
      \<and> length (regions d) = length (region_elems root_elem))"

definition para_region_indices :: "Document \<Rightarrow> int list list" where
  "para_region_indices d = map (\<lambda>dd. map para_region_index (div_paragraphs dd)) (body_divs (body d))"

text \<open>The region table after the \<^verbatim>\<open>region\<close> elements \<open>rs\<close>: one entry for each, in order,
  under its identifier and with its position as index.\<close>

definition region_table :: "Context \<Rightarrow> Element list \<Rightarrow> bool" where
  "region_table ctx rs =
     (map elem_ids rs = map (\<lambda>entry. [fst entry]) (ctx_regions ctx)
      \<and> map (\<lambda>entry. fst (snd entry)) (ctx_regions ctx) = map int [0..<length rs]
      \<and> length (regions (document ctx)) = length rs
      \<and> (\<forall>entry \<in> set (ctx_regions ctx). fst entry \<in> ids ctx))"

section \<open>Concrete inputs\<close>

text \<open>
  Two styles that declare a font size of 50 percent and one that declares a colour only,
  in a document of 15 rows.
\<close>

definition sty_half :: StyleProperties where
  "sty_half = StyleProperties_empty\<lparr>sp_font_size := Some (1 / 2)\<rparr>"

definition sty_color :: StyleProperties where
  "sty_color = StyleProperties_empty\<lparr>sp_color := Some black\<rparr>"

definition c1_ctx :: Context where
  "c1_ctx = (Context_init Document_default)
     \<lparr>styles := [(''a'', sty_half), (''b'', sty_half), (''n'', sty_color)]\<rparr>"

text \<open>
  An outer style that sets both colours and the bidi mode, and an inner style that
  declares a font size only.
\<close>

definition sty_outer :: StyleProperties where
  "sty_outer = StyleProperties_empty\<lparr>sp_background_color := Some black,
     sp_color := Some black, sp_unicode_bidi := Some UnicodeBidi_EMBED\<rparr>"

definition c3_ctx :: Context where
  "c3_ctx = (Context_init Document_default)\<lparr>styles := [(''o'', sty_outer), (''n'', sty_half)]\<rparr>"

text \<open>The accumulator after an outer style set \<^verbatim>\<open>fillLineGap\<close> to true.\<close>

definition rs_gap :: ResolvedStyle where
  "rs_gap = ResolvedStyle_default\<lparr>fill_line_gap := True\<rparr>"

text \<open>An element without text.\<close>

definition el :: "string \<Rightarrow> (string \<times> string) list \<Rightarrow> Element list \<Rightarrow> Element" where
  "el t a c = Element t a None c"

text \<open>
  The two-level cascade scenario: two styles of 50 percent, one region, a division that
  references the region and the first style, and in its paragraph a span that references
  the second style. The cell resolution attribute is the parameter.
\<close>

definition doc_head :: Element where
  "doc_head = el HEAD_ELEM []
     [el STYLING_ELEM []
        [el STYLE_ELEM [(ID_ATTR, ''s1''), (FONT_SIZE_ATTR, ''50%'')] [],
         el STYLE_ELEM [(ID_ATTR, ''s2''), (FONT_SIZE_ATTR, ''50%'')] []],
      el LAYOUT_ELEM []
        [el REGION_ELEM
           [(ID_ATTR, ''r1''), (ORIGIN_ATTR, ''10% 10%''), (EXTENT_ATTR, ''80% 80%'')] []]]"

definition doc_body :: Element where
  "doc_body = el BODY_ELEM []
     [el DIV_ELEM [(''region'', ''r1''), (''style'', ''s1'')]
        [el P_ELEM [(ID_ATTR, ''p1''), (''begin'', ''00:00:01.000''), (''end'', ''00:00:02.500'')]
           [Element SPAN_ELEM [(''style'', ''s2'')] (Some ''Hello'') []]]]"

definition two_level_doc :: "string \<Rightarrow> Element" where
  "two_level_doc cr =
     el TT_ELEM [(TIME_BASE_ATTR, ''media''), (LANG_ATTR, ''en''), (CELL_RESOLUTION_ATTR, cr)]
       [doc_head, doc_body]"

text \<open>The context that the head of this document yields, from a document \<open>d\<close>.\<close>

definition ctx_after_head :: "Document \<Rightarrow> Context" where
  "ctx_after_head d =
     \<lparr>document = d\<lparr>regions := regions d @
          [Region_default\<lparr>origin := \<lparr>org_x = 1 / 10, org_y = 1 / 10\<rparr>,
             extent := \<lparr>ext_width = 4 / 5, ext_height = 4 / 5\<rparr>\<rparr>]\<rparr>,
      ids = {''s1'', ''s2'', ''r1''},
      styles = [(''s1'', StyleProperties_empty\<lparr>sp_font_size := Some (1 / 2)\<rparr>),
                (''s2'', StyleProperties_empty\<lparr>sp_font_size := Some (1 / 2)\<rparr>)],
      ctx_regions = [(''r1'', (int (length (regions d)), []))]\<rparr>"

definition rows24 :: CellResolution where
  "rows24 = \<lparr>columns = 40, rows = 24\<rparr>"

text \<open>The same document with one style, whose colour is not a hexadecimal literal.\<close>

definition invalid_color_doc :: Element where
  "invalid_color_doc =
     el TT_ELEM [(TIME_BASE_ATTR, ''media''), (LANG_ATTR, ''en'')]
       [el HEAD_ELEM []
          [el STYLING_ELEM [] [el STYLE_ELEM [(ID_ATTR, ''s1''), (COLOR_ATTR, ''red'')] []],
           el LAYOUT_ELEM []
             [el REGION_ELEM
                [(ID_ATTR, ''r1''), (ORIGIN_ATTR, ''10% 10%''), (EXTENT_ATTR, ''80% 80%'')] []]],
        doc_body]"

text \<open>A region without an extent, and the two-level document with that region.\<close>

definition region_no_extent :: Element where
  "region_no_extent = el REGION_ELEM [(ID_ATTR, ''r1''), (ORIGIN_ATTR, ''10% 10%'')] []"

definition missing_extent_doc :: Element where
  "missing_extent_doc =
     el TT_ELEM [(TIME_BASE_ATTR, ''media''), (LANG_ATTR, ''en'')]
       [el HEAD_ELEM []
          [el STYLING_ELEM [] [el STYLE_ELEM [(ID_ATTR, ''s1''), (FONT_SIZE_ATTR, ''50%'')] []],
           el LAYOUT_ELEM [] [region_no_extent]],
        doc_body]"

text \<open>
  A context with two regions and two paragraph elements, one that references the second
  region and one without a region reference.
\<close>

definition c6_ctx :: Context where
  "c6_ctx = (ctx_after_head Document_default)
     \<lparr>ctx_regions := [(''r1'', (0, [])), (''r2'', (1, []))]\<rparr>"

definition p_own :: Element where
  "p_own = el P_ELEM
     [(ID_ATTR, ''p1''), (''begin'', ''00:00:01.000''), (''end'', ''00:00:02.500''),
      (''region'', ''r2'')] []"

definition p_none :: Element where
  "p_none = el P_ELEM
     [(ID_ATTR, ''p1''), (''begin'', ''00:00:01.000''), (''end'', ''00:00:02.500'')] []"

text \<open>The two-level document with the identifier of the first style on its paragraph.\<close>

definition duplicate_id_doc :: Element where
  "duplicate_id_doc =
     el TT_ELEM [(TIME_BASE_ATTR, ''media''), (LANG_ATTR, ''en'')]
       [doc_head,
        el BODY_ELEM []
          [el DIV_ELEM [(''region'', ''r1''), (''style'', ''s1'')]
             [el P_ELEM
                [(ID_ATTR, ''s1''), (''begin'', ''00:00:01.000''), (''end'', ''00:00:02.500'')]
                []]]]"

text \<open>The span of the two-level document, and that document for 24 rows.\<close>

definition span_s2 :: Element where
  "span_s2 = Element SPAN_ELEM [(''style'', ''s2'')] (Some ''Hello'') []"

definition doc24 :: Document where
  "doc24 = Document_default\<lparr>cell_resolution := rows24\<rparr>"

text \<open>The two-level document whose paragraph references the region as well.\<close>

definition both_regions_doc :: Element where
  "both_regions_doc =
     el TT_ELEM [(TIME_BASE_ATTR, ''media''), (LANG_ATTR, ''en'')]
       [doc_head,
        el BODY_ELEM []
          [el DIV_ELEM [(''region'', ''r1''), (''style'', ''s1'')]
             [el P_ELEM
                [(ID_ATTR, ''p1''), (''begin'', ''00:00:01.000''), (''end'', ''00:00:02.500''),
                 (''region'', ''r1'')]
                []]]]"

text \<open>
  A division whose style sets \<^verbatim>\<open>fillLineGap\<close> to true and a paragraph in it whose
  style declares \<^verbatim>\<open>fillLineGap\<close> false.
\<close>

definition fill_gap_doc :: Element where
  "fill_gap_doc =
     el TT_ELEM [(TIME_BASE_ATTR, ''media''), (LANG_ATTR, ''en'')]
       [el HEAD_ELEM []
          [el STYLING_ELEM []
             [el STYLE_ELEM [(ID_ATTR, ''a''), (FILL_LINE_GAP_ATTR, ''true'')] [],
              el STYLE_ELEM [(ID_ATTR, ''b''), (FILL_LINE_GAP_ATTR, ''false'')] []],
           el LAYOUT_ELEM []
             [el REGION_ELEM
                [(ID_ATTR, ''r1''), (ORIGIN_ATTR, ''10% 10%''), (EXTENT_ATTR, ''80% 80%'')] []]],
        el BODY_ELEM []
          [el DIV_ELEM [(''region'', ''r1''), (''style'', ''a'')]
             [el P_ELEM
                [(ID_ATTR, ''p1''), (''begin'', ''00:00:01.000''), (''end'', ''00:00:02.500''),
                 (''style'', ''b'')]
                []]]]"

text \<open>
  A division that references the second region of the context above, with the paragraph
  without a reference; and a document with two regions, a division that references the
  second one, and a division without a reference whose paragraphs reference the first
  and the second.
\<close>

definition div_r2 :: Element where
  "div_r2 = el DIV_ELEM [(''region'', ''r2'')] [p_none]"

definition two_regions_doc :: Element where
  "two_regions_doc =
     el TT_ELEM [(TIME_BASE_ATTR, ''media''), (LANG_ATTR, ''en'')]
       [el HEAD_ELEM []
          [el STYLING_ELEM [] [el STYLE_ELEM [(ID_ATTR, ''s1''), (FONT_SIZE_ATTR, ''50%'')] []],
           el LAYOUT_ELEM []
             [el REGION_ELEM
                [(ID_ATTR, ''r1''), (ORIGIN_ATTR, ''10% 10%''), (EXTENT_ATTR, ''80% 80%'')] [],
              el REGION_ELEM
                [(ID_ATTR, ''r2''), (ORIGIN_ATTR, ''10% 10%''), (EXTENT_ATTR, ''80% 80%'')] []]],
        el BODY_ELEM []
          [el DIV_ELEM [(''region'', ''r2'')]
             [el P_ELEM
                [(ID_ATTR, ''p1''), (''begin'', ''00:00:01.000''), (''end'', ''00:00:02.500'')] []],
           el DIV_ELEM []
             [el P_ELEM
                [(ID_ATTR, ''p2''), (''begin'', ''00:00:01.000''), (''end'', ''00:00:02.500''),
                 (''region'', ''r1'')] [],
              el P_ELEM
                [(ID_ATTR, ''p3''), (''begin'', ''00:00:01.000''), (''end'', ''00:00:02.500''),
                 (''region'', ''r2'')] []]]]"

section \<open>Properties\<close>

subsection \<open>Results and strings\<close>

lemma bind_Inr_iff: "bind m f = Inr y \<longleftrightarrow> (\<exists>x. m = Inr x \<and> f x = Inr y)"
  by (cases m) simp_all

lemma bind_Inl_iff: "bind m f = Inl e \<longleftrightarrow> m = Inl e \<or> (\<exists>x. m = Inr x \<and> f x = Inl e)"
  by (cases m) simp_all

lemma bind_assoc: "bind (bind m f) g = bind m (\<lambda>x. bind (f x) g)"
  by (cases m) simp_all

lemma split_on_nonempty: "split_on d s \<noteq> []"
  by (induction s) (simp_all add: Let_def)

lemma split_on_single: "d \<notin> set s \<Longrightarrow> split_on d s = [s]"
  by (induction s) (auto simp: Let_def)

lemma split_on_append: "split_on d (pre @ d # s) = split_on d pre @ split_on d s"
proof (induction pre)
  case Nil
  show ?case by (simp add: Let_def)
next
  case (Cons c pre)
  then show ?case
    using split_on_nonempty [of d pre] by (cases "split_on d pre") (simp_all add: Let_def)
qed

subsection \<open>Value parsers\<close>

lemmas float_eval =
  Unit_parse_def strip_def py_isspace_def num_strip_def num_isspace_def py_float_def
  round_subnormal_def is_digit_def split_sign_def lower_def parse_decimal_def nat_of_digits_def
  Let_def

lemma hexdigit_facts:
  "hexdigit c \<Longrightarrow> \<not> py_isspace c \<and> \<not> num_isspace c \<and> c \<noteq> CHR ''+'' \<and> c \<noteq> CHR ''-''
     \<and> c \<noteq> CHR ''_'' \<and> c \<noteq> CHR ''x'' \<and> c \<noteq> CHR ''X''"
  by (auto simp: hexdigit_def digit_value_def py_isspace_def num_isspace_def Let_def
      split: if_splits)

lemma hexdigit_value: "hexdigit c \<Longrightarrow> digit_value c = Some (hex_value c) \<and> hex_value c < 16"
  by (auto simp: hexdigit_def hex_value_def split: option.splits)

text \<open>The builtin \<^verbatim>\<open>int\<close> in base 16 on two hexadecimal digits.\<close>

lemma py_int16_pair:
  assumes "hexdigit c1" and "hexdigit c2"
  shows "py_int 16 [c1, c2] = Some (hex2 c1 c2)"
  using hexdigit_facts [OF assms(1)] hexdigit_facts [OF assms(2)]
    hexdigit_value [OF assms(1)] hexdigit_value [OF assms(2)]
  by (simp add: py_int_def num_strip_def hex2_def)

lemma hex2_range: "hexdigit c1 \<Longrightarrow> hexdigit c2 \<Longrightarrow> 0 \<le> hex2 c1 c2 \<and> hex2 c1 c2 \<le> 255"
  using hexdigit_value [of c1] hexdigit_value [of c2] by (simp add: hex2_def)

lemma int16_pair: "hexdigit c1 \<Longrightarrow> hexdigit c2 \<Longrightarrow> int16 [c1, c2] = Inr (hex2 c1 c2)"
  by (simp add: int16_def py_int16_pair)

lemma Color_parse_6:
  assumes "hexdigit r1" "hexdigit r2" "hexdigit g1" "hexdigit g2" "hexdigit b1" "hexdigit b2"
  shows "Color_parse [CHR ''#'', r1, r2, g1, g2, b1, b2]
           = Inr \<lparr>red = hex2 r1 r2, green = hex2 g1 g2, blue = hex2 b1 b2, alpha = 0\<rparr>"
proof -
  have "strip [CHR ''#'', r1, r2, g1, g2, b1, b2] = [CHR ''#'', r1, r2, g1, g2, b1, b2]"
    using hexdigit_facts [OF assms(6)] by (simp add: strip_def py_isspace_def)
  then show ?thesis
    using assms hex2_range [of r1 r2] hex2_range [of g1 g2] hex2_range [of b1 b2]
    by (simp add: Color_parse_def int16_pair Color_is_valid_def)
qed

lemma Color_parse_8:
  assumes "hexdigit r1" "hexdigit r2" "hexdigit g1" "hexdigit g2" "hexdigit b1" "hexdigit b2"
    "hexdigit a1" "hexdigit a2"
  shows "Color_parse [CHR ''#'', r1, r2, g1, g2, b1, b2, a1, a2]
           = Inr \<lparr>red = hex2 r1 r2, green = hex2 g1 g2, blue = hex2 b1 b2,
                 alpha = hex2 a1 a2\<rparr>"
proof -
  have "strip [CHR ''#'', r1, r2, g1, g2, b1, b2, a1, a2]
          = [CHR ''#'', r1, r2, g1, g2, b1, b2, a1, a2]"
    using hexdigit_facts [OF assms(8)] by (simp add: strip_def py_isspace_def)
  then show ?thesis
    using assms hex2_range [of r1 r2] hex2_range [of g1 g2] hex2_range [of b1 b2]
      hex2_range [of a1 a2]
    by (simp add: Color_parse_def int16_pair Color_is_valid_def)
qed

lemma Color_parse_length:
  "length (tl (strip s)) \<noteq> 6 \<Longrightarrow> length (tl (strip s)) \<noteq> 8
     \<Longrightarrow> Color_parse s = Inl (ValueError s)"
  by (simp add: Color_parse_def Let_def)

lemma Color_parse_valid: "Color_parse s = Inr c \<Longrightarrow> Color_is_valid c"
  by (auto simp: Color_parse_def Let_def bind_Inr_iff split: if_splits)

text \<open>A sign makes a channel negative, which \<^verbatim>\<open>is_valid\<close> rejects.\<close>

lemma Color_parse_negative_channel: "Color_parse ''#-1-1-1'' = Inl (ValueError ''#-1-1-1'')"
  by (simp add: Color_parse_def strip_def py_isspace_def num_strip_def num_isspace_def int16_def
      py_int_def digit_value_def Color_is_valid_def)

text \<open>More than three values never reach the loop of \<^verbatim>\<open>Padding.parse\<close>.\<close>

lemma Padding_parse_more_than_three:
  "length (split_value s) > 3 \<Longrightarrow> Padding_parse s = Inl (ValueError s)"
  by (simp add: Padding_parse_def Let_def)

text \<open>The shorthand for one, two and three values.\<close>

lemma Padding_parse_shorthand:
  "Padding_parse ''1%''
     = Inr \<lparr>pad_before = 1 / 100, pad_end = 1 / 100, pad_after = 1 / 100, pad_start = 1 / 100\<rparr>"
  "Padding_parse ''1% 2%''
     = Inr \<lparr>pad_before = 1 / 100, pad_end = 2 / 100, pad_after = 1 / 100, pad_start = 2 / 100\<rparr>"
  "Padding_parse ''1% 2% 3%''
     = Inr \<lparr>pad_before = 1 / 100, pad_end = 2 / 100, pad_after = 3 / 100, pad_start = 2 / 100\<rparr>"
  by (simp_all add: Padding_parse_def split_value_def float_eval)

text \<open>
  The loop itself has a branch for a fourth value, which would set the start side; the
  guard before the loop keeps four values from reaching it.
\<close>

lemma Padding_loop_fourth_value:
  "Padding_loop 0 [''1%'', ''2%'', ''3%'', ''4%'']
       \<lparr>pad_before = 0, pad_end = 0, pad_after = 0, pad_start = 0\<rparr>
     = Inr \<lparr>pad_before = 1 / 100, pad_end = 2 / 100, pad_after = 3 / 100, pad_start = 4 / 100\<rparr>"
  by (simp add: float_eval)

subsection \<open>The cascade resolver\<close>

lemma float_div_int_Inr: "float_div_int x n = Inr y \<longleftrightarrow> divisor_ok n \<and> y = x / real_of_int n"
  by (auto simp: float_div_int_def float_of_int_def divisor_ok_def bind_Inr_iff)

lemma float_of_int_0: "float_of_int 0 = Inr 0"
  by (simp add: float_of_int_def)

lemma float_div_int_ok: "divisor_ok n \<Longrightarrow> float_div_int x n = Inr (x / real_of_int n)"
  by (simp add: float_div_int_Inr)

lemma resolve_ids_append:
  "resolve_ids ctx (xs @ ys) st = bind (resolve_ids ctx xs st) (resolve_ids ctx ys)"
  by (induction xs arbitrary: st)
     (simp_all add: Let_def bind_assoc split: option.splits prod.splits)

lemma resolve_scopes_append:
  "resolve_scopes ctx i (xs @ ys) st =
     bind (resolve_scopes ctx i xs st) (resolve_scopes ctx (i + length xs) ys)"
proof (induction xs arbitrary: st i)
  case Nil
  show ?case by simp
next
  case (Cons v vs)
  have "resolve_scopes ctx (Suc i) (vs @ ys) =
          (\<lambda>x. bind (resolve_scopes ctx (Suc i) vs x) (resolve_scopes ctx (Suc i + length vs) ys))"
    by (rule ext) (rule Cons.IH)
  then show ?case by (simp add: bind_assoc)
qed

text \<open>At the head of both loops \<^verbatim>\<open>parent_font_size\<close> is the font size of the record.\<close>

lemma resolve_ids_basis:
  "resolve_ids ctx xs st = Inr st' \<Longrightarrow> snd st = font_size (fst st)
     \<Longrightarrow> snd st' = font_size (fst st')"
  by (induction xs arbitrary: st)
     (auto simp: Let_def bind_Inr_iff split: option.splits prod.splits if_splits)

lemma resolve_scopes_basis:
  "resolve_scopes ctx i xs st = Inr st' \<Longrightarrow> snd st = font_size (fst st)
     \<Longrightarrow> snd st' = font_size (fst st')"
proof (induction xs arbitrary: st i)
  case Nil
  then show ?case by simp
next
  case (Cons v vs)
  from Cons.prems(1) obtain st1 where
    a: "resolve_ids ctx (split_on (CHR '' '') v)
          (if i \<noteq> 0 then inherited (fst st) else fst st, snd st) = Inr st1"
    and b: "resolve_scopes ctx (Suc i) vs st1 = Inr st'"
    by (auto simp: bind_Inr_iff)
  have "snd st1 = font_size (fst st1)"
    using resolve_ids_basis [OF a] Cons.prems(2) by (simp add: inherited_def)
  with Cons.IH [OF b] show ?case .
qed

text \<open>Resolving a stack is resolving all but its last scope, then that scope.\<close>

lemma resolve_style_snoc:
  "resolve_style (stack @ [v]) ctx =
     bind (resolve_style stack ctx) (\<lambda>r.
       bind (resolve_ids ctx (split_on (CHR '' '') v)
               (if stack \<noteq> [] then inherited r else r, font_size r)) (\<lambda>st. Inr (fst st)))"
proof (cases "compute COMPUTE_ALL_MASK None (cell_resolution (document ctx)) ResolvedStyle_default")
  case (Inl e)
  then show ?thesis by (simp add: resolve_style_def)
next
  case (Inr r0)
  show ?thesis
  proof (cases "resolve_scopes ctx 0 stack (r0, font_size r0)")
    case (Inl e)
    with Inr show ?thesis
      by (simp add: resolve_style_def Let_def resolve_scopes_append)
  next
    case st1: (Inr st1)
    have "snd st1 = font_size (fst st1)"
      using resolve_scopes_basis [OF st1] by simp
    with Inr st1 show ?thesis
      by (cases "stack = []")
         (simp_all add: resolve_style_def Let_def resolve_scopes_append bind_assoc)
  qed
qed

lemma msk_font_bit:
  "(fst (merge_properties rs p) AND COMPUTE_FONT_SIZE_BIT \<noteq> 0)
     = (get_truthy (sp_font_size p) (\<lambda>v. v \<noteq> 0) \<noteq> None)"
  by (simp add: merge_properties_def COMPUTE_FONT_SIZE_BIT_def COMPUTE_LINE_HEIGHT_BIT_def
      COMPUTE_LINE_PADDING_BIT_def COMPUTE_TEXT_OUTLINE_BIT_def Let_def)

lemma merge_font_size:
  "font_size (snd (merge_properties rs p))
     = assign (get_truthy (sp_font_size p) (\<lambda>v. v \<noteq> 0)) (font_size rs)"
  by (simp add: merge_properties_def Let_def)

lemma merge_background_color:
  "background_color (snd (merge_properties rs p))
     = assign (sp_background_color p) (background_color rs)"
  by (simp add: merge_properties_def Let_def get_truthy_def assign_def split: option.splits)

lemma merge_unicode_bidi:
  "unicode_bidi (snd (merge_properties rs p)) = assign (sp_unicode_bidi p) (unicode_bidi rs)"
  by (simp add: merge_properties_def Let_def get_truthy_def assign_def split: option.splits)

lemma merge_color:
  "color (snd (merge_properties rs p)) = assign (sp_color p) (color rs)"
  by (simp add: merge_properties_def Let_def get_truthy_def assign_def split: option.splits)

lemma compute_font_size:
  "compute m (Some b) cr rs = Inr r \<Longrightarrow>
     font_size r = (if m AND COMPUTE_FONT_SIZE_BIT \<noteq> 0 then font_size rs * b else font_size rs)"
  by (auto simp: compute_def Let_def bind_Inr_iff split: if_splits)

lemma compute_keeps:
  assumes "compute m b cr rs = Inr r"
  shows "background_color r = background_color rs"
    and "unicode_bidi r = unicode_bidi rs"
    and "color r = color rs"
  using assms by (auto simp: compute_def Let_def bind_Inr_iff)

text \<open>With a parent basis, only the division by the column count can fail.\<close>

lemma compute_Some_ok:
  "divisor_ok (columns cr) \<Longrightarrow> \<exists>r. compute m (Some b) cr rs = Inr r"
  by (simp add: compute_def Let_def float_div_int_ok)

text \<open>The first step of the resolver divides by both counts.\<close>

lemma compute_all_Inr:
  "(\<exists>r. compute COMPUTE_ALL_MASK None cr ResolvedStyle_default = Inr r)
     = (divisor_ok (rows cr) \<and> divisor_ok (columns cr))"
  by (auto simp: compute_def Let_def bind_Inr_iff float_div_int_Inr COMPUTE_ALL_MASK_def
      COMPUTE_FONT_SIZE_BIT_def COMPUTE_LINE_HEIGHT_BIT_def COMPUTE_LINE_PADDING_BIT_def
      COMPUTE_TEXT_OUTLINE_BIT_def)

lemma resolve_style_Inr_divisors:
  "resolve_style stack ctx = Inr r \<Longrightarrow>
     divisor_ok (rows (cell_resolution (document ctx)))
     \<and> divisor_ok (columns (cell_resolution (document ctx)))"
  using compute_all_Inr [of "cell_resolution (document ctx)"]
  by (auto simp: resolve_style_def bind_Inr_iff)

text \<open>
  A field that neither \<^verbatim>\<open>compute\<close> nor the merge of a style satisfying \<open>keep\<close> changes
  is the same after the inner loop, when every style looked up satisfies \<open>keep\<close>.
\<close>

lemma resolve_ids_field:
  assumes "resolve_ids ctx xs st = Inr st'"
    and "\<And>p rs. keep p \<Longrightarrow> sel (snd (merge_properties rs p)) = sel rs"
    and "\<And>m b cr rs r. compute m b cr rs = Inr r \<Longrightarrow> sel r = sel rs"
    and "\<forall>i \<in> set xs. i \<noteq> [] \<longrightarrow> (\<forall>p. map_of (styles ctx) i = Some p \<longrightarrow> keep p)"
  shows "sel (fst st') = sel (fst st)"
  using assms(1,4)
proof (induction xs arbitrary: st)
  case Nil
  then show ?case by simp
next
  case (Cons i xs)
  show ?case
  proof (cases "i = []")
    case True
    with Cons show ?thesis by simp
  next
    case False
    with Cons.prems(1) obtain p where p: "map_of (styles ctx) i = Some p"
      by (auto split: option.splits)
    obtain m rs1 where mp: "merge_properties (fst st) p = (m, rs1)"
      by (cases "merge_properties (fst st) p")
    from Cons.prems(1) False p mp obtain rs2 where
      c: "compute m (Some (snd st)) (cell_resolution (document ctx)) rs1 = Inr rs2"
      and step: "resolve_ids ctx xs (rs2, font_size rs2) = Inr st'"
      by (auto simp: Let_def bind_Inr_iff)
    have "keep p"
      using Cons.prems(2) False p by simp
    then have "sel rs2 = sel (fst st)"
      using assms(2) [of p "fst st"] mp assms(3) [OF c] by simp
    moreover have "sel (fst st') = sel (fst (rs2, font_size rs2))"
      using Cons.IH [OF step] Cons.prems(2) by simp
    ultimately show ?thesis by simp
  qed
qed

lemmas resolver_defs =
  resolve_style_def Context_init_def Document_default_def StyleProperties_empty_def
  ResolvedStyle_default_def compute_def merge_properties_def COMPUTE_ALL_MASK_def
  COMPUTE_FONT_SIZE_BIT_def COMPUTE_LINE_HEIGHT_BIT_def COMPUTE_LINE_PADDING_BIT_def
  COMPUTE_TEXT_OUTLINE_BIT_def get_truthy_def assign_def inherited_def Let_def

lemmas resolver_eval_defs = resolver_defs float_div_int_def float_of_int_def

subsection \<open>Evaluating the walker on the concrete documents\<close>

lemmas elem_names =
  ID_ATTR_def LANG_ATTR_def SPACE_ATTR_def TT_ELEM_def TIME_BASE_ATTR_def ACTIVE_AREA_ATTR_def
  CELL_RESOLUTION_ATTR_def HEAD_ELEM_def STYLING_ELEM_def LAYOUT_ELEM_def STYLE_ELEM_def
  BACKGROUND_COLOR_ATTR_def COLOR_ATTR_def DIRECTION_ATTR_def FILL_LINE_GAP_ATTR_def
  FONT_FAMILY_ATTR_def FONT_SIZE_ATTR_def FONT_STYLE_ATTR_def FONT_WEIGHT_ATTR_def
  LINE_HEIGHT_ATTR_def LINE_PADDING_ATTR_def MULTI_ROW_ALIGN_ATTR_def TEXT_ALIGN_ATTR_def
  TEXT_DECORATION_ATTR_def TEXT_OUTLINE_ATTR_def UNICODE_BIDI_ATTR_def WRAP_OPTION_ATTR_def
  REGION_ELEM_def ORIGIN_ATTR_def EXTENT_ATTR_def DISPLAY_ALIGN_ATTR_def OVERFLOW_ATTR_def
  PADDING_ATTR_def SHOW_BACKGROUND_ATTR_def WRITING_MODE_ATTR_def BODY_ELEM_def DIV_ELEM_def
  P_ELEM_def BR_ELEM_def SPAN_ELEM_def

lemmas walker_defs =
  parse_head_def find_children_def parse_styles_def parse_regions_def parse_style_def
  parse_region_def region_state_init_def parse_id_def get_nonempty_def elem_get_def
  elem_get_default_def
  add_id_def style_attr_def region_attr_def parse_body_def parse_div_def parse_one_div_def
  parse_optional_id_def region_ref_def push_def push_left_def parse_para_def parse_one_para_def
  parse_time_attr_def parse_timecode_def scan_timecode_def scan_int_def scan_char_def
  para_region_def parse_space_def parse_paragraph_content_def parse_content_def

lemma FontSize_50: "FontSize_parse ''50%'' = Inr (1 / 2)"
  by (simp add: FontSize_parse_def float_eval)

lemma Origin_10: "Origin_parse ''10% 10%'' = Inr \<lparr>org_x = 1 / 10, org_y = 1 / 10\<rparr>"
  by (simp add: Origin_parse_def split_value_def float_eval)

lemma Extent_80: "Extent_parse ''80% 80%'' = Inr \<lparr>ext_width = 4 / 5, ext_height = 4 / 5\<rparr>"
  by (simp add: Extent_parse_def split_value_def float_eval)

lemma CellResolution_40_24: "CellResolution_parse ''40 24'' = Inr rows24"
  by (simp add: CellResolution_parse_def split_value_def strip_def py_isspace_def num_strip_def
      num_isspace_def int10_def py_int_def digit_value_def CellResolution_is_valid_def
      rows24_def)

lemma CellResolution_parse_nonempty: "CellResolution_parse cr = Inr c \<Longrightarrow> cr \<noteq> []"
  by (auto simp: CellResolution_parse_def split_value_def strip_def)

lemma CellResolution_parse_positive:
  "CellResolution_parse cr = Inr c \<Longrightarrow> 0 < rows c \<and> 0 < columns c"
  by (auto simp: CellResolution_parse_def CellResolution_is_valid_def bind_Inr_iff Let_def
      split: list.splits if_splits)

lemma rows24_small: "rows rows24 < 2 ^ 1024 - 2 ^ 970" "columns rows24 < 2 ^ 1024 - 2 ^ 970"
  by (simp_all add: rows24_def)

lemma two_level_head:
  "parse_head (two_level_doc cr) (Context_init d) = Inr (ctx_after_head d)"
  by (simp add: two_level_doc_def doc_head_def doc_body_def el_def elem_names walker_defs
      get_truthy_def strip_def py_isspace_def Context_init_def ctx_after_head_def
      FontSize_50 Origin_10 Extent_80 insert_commute)

lemma two_level_body:
  "regions d = [] \<Longrightarrow> divisor_ok (rows (cell_resolution d))
     \<Longrightarrow> divisor_ok (columns (cell_resolution d)) \<Longrightarrow>
     \<exists>ctx b. parse_body (two_level_doc cr) (ctx_after_head d) = Inr (ctx, b)
       \<and> cell_resolution ((document ctx)\<lparr>body := b\<rparr>) = cell_resolution d
       \<and> span_font_sizes ((document ctx)\<lparr>body := b\<rparr>)
           = [1 / 4 * (1 / real_of_int (rows (cell_resolution d)))]"
  by (simp add: two_level_doc_def doc_head_def doc_body_def el_def elem_names walker_defs
      strip_def py_isspace_def ctx_after_head_def is_digit_def nat_of_digits_def
      resolver_defs float_div_int_ok float_of_int_0 span_font_sizes_def)

subsection \<open>Regions must carry an origin and an extent\<close>

lemma region_attr_flags:
  assumes "region_attr name val s = Inr s'"
  shows "rs_origin_parsed s' = (rs_origin_parsed s \<or> name = ORIGIN_ATTR)"
    and "rs_extent_parsed s' = (rs_extent_parsed s \<or> (name \<noteq> ORIGIN_ATTR \<and> name = EXTENT_ATTR))"
  using assms
  by (auto simp: region_attr_def bind_Inr_iff split: if_splits)

lemma origin_extent_distinct: "ORIGIN_ATTR \<noteq> EXTENT_ATTR"
  by (simp add: ORIGIN_ATTR_def EXTENT_ATTR_def)

lemma region_attrs_flags:
  "region_attrs items s = Inr s' \<Longrightarrow>
     rs_origin_parsed s' = (rs_origin_parsed s \<or> map_of items ORIGIN_ATTR \<noteq> None)
   \<and> rs_extent_parsed s' = (rs_extent_parsed s \<or> map_of items EXTENT_ATTR \<noteq> None)"
proof (induction items arbitrary: s)
  case Nil
  then show ?case by simp
next
  case (Cons a items)
  obtain name val where a: "a = (name, val)" by (cases a)
  from Cons.prems obtain s1 where
    s1: "region_attr name val s = Inr s1" and rest: "region_attrs items s1 = Inr s'"
    by (auto simp: a bind_Inr_iff)
  show ?case
    using Cons.IH [OF rest] region_attr_flags [OF s1] origin_extent_distinct
    by (auto simp: a)
qed

lemma parse_region_Inr:
  assumes "parse_region elem ctx = Inr ctx'"
  shows "elem_get elem ORIGIN_ATTR \<noteq> None \<and> elem_get elem EXTENT_ATTR \<noteq> None"
proof -
  from assms obtain s where
    s: "region_attrs (attrib elem) region_state_init = Inr s"
    and f: "rs_origin_parsed s" "rs_extent_parsed s"
    by (auto simp: parse_region_def bind_Inr_iff split: if_splits)
  from region_attrs_flags [OF s] f show ?thesis
    by (simp add: elem_get_def region_state_init_def)
qed

lemma parse_regions_loop_Inr:
  "parse_regions_loop elems ctx = Inr ctx' \<Longrightarrow>
     \<forall>e \<in> set elems. tag e = REGION_ELEM \<longrightarrow>
       elem_get e ORIGIN_ATTR \<noteq> None \<and> elem_get e EXTENT_ATTR \<noteq> None"
proof (induction elems arbitrary: ctx)
  case Nil
  then show ?case by simp
next
  case (Cons e elems)
  show ?case
  proof (cases "tag e = REGION_ELEM")
    case False
    with Cons show ?thesis by auto
  next
    case True
    with Cons.prems obtain ctx1 where
      a: "parse_region e ctx = Inr ctx1" and b: "parse_regions_loop elems ctx1 = Inr ctx'"
      by (auto simp: bind_Inr_iff)
    from parse_region_Inr [OF a] Cons.IH [OF b] show ?thesis by auto
  qed
qed

lemma parse_head_loop_Inr:
  "parse_head_loop elems sc lc ctx = Inr r \<Longrightarrow>
     \<forall>l \<in> set elems. tag l = LAYOUT_ELEM \<longrightarrow>
       (\<forall>e \<in> set (find_children l REGION_ELEM).
          elem_get e ORIGIN_ATTR \<noteq> None \<and> elem_get e EXTENT_ATTR \<noteq> None)"
proof (induction elems arbitrary: sc lc ctx)
  case Nil
  then show ?case by simp
next
  case (Cons l elems)
  have ne: "STYLING_ELEM \<noteq> LAYOUT_ELEM"
    by (simp add: STYLING_ELEM_def LAYOUT_ELEM_def)
  consider (styling) "tag l = STYLING_ELEM" | (layout) "tag l = LAYOUT_ELEM" "tag l \<noteq> STYLING_ELEM"
    | (other) "tag l \<noteq> STYLING_ELEM" "tag l \<noteq> LAYOUT_ELEM"
    by blast
  then show ?case
  proof cases
    case styling
    with Cons.prems obtain ctx1 where
      "parse_head_loop elems (sc + 1) lc ctx1 = Inr r"
      by (auto simp: bind_Inr_iff split: if_splits)
    from Cons.IH [OF this] styling ne show ?thesis by auto
  next
    case layout
    with Cons.prems obtain ctx1 where
      a: "parse_regions l ctx = Inr ctx1"
      and b: "parse_head_loop elems sc (lc + 1) ctx1 = Inr r"
      by (auto simp: bind_Inr_iff split: if_splits)
    from parse_regions_loop_Inr [OF a [unfolded parse_regions_def]] Cons.IH [OF b]
    show ?thesis by (auto simp: find_children_def)
  next
    case other
    with Cons.prems have "parse_head_loop elems sc lc ctx = Inr r" by simp
    from Cons.IH [OF this] other show ?thesis by auto
  qed
qed

lemma parse_head_Inr:
  assumes "parse_head root_elem ctx = Inr ctx'"
  shows "\<forall>e \<in> set (region_elems root_elem).
           elem_get e ORIGIN_ATTR \<noteq> None \<and> elem_get e EXTENT_ATTR \<noteq> None"
proof -
  from assms have len: "length (find_children root_elem HEAD_ELEM) = 1"
    by (cases "find_children root_elem HEAD_ELEM")
       (auto simp: parse_head_def Let_def split: if_splits)
  then obtain h where h: "find_children root_elem HEAD_ELEM = [h]"
    by (cases "find_children root_elem HEAD_ELEM") auto
  from assms obtain r where "parse_head_loop (children h) 0 0 ctx = Inr r"
    by (auto simp: parse_head_def h bind_Inr_iff)
  from parse_head_loop_Inr [OF this] show ?thesis
    unfolding region_elems_def h by (auto simp: find_children_def)
qed

lemma parse_Inr_head:
  "parse root_elem = Inr d \<Longrightarrow> \<exists>doc ctx. parse_head root_elem (Context_init doc) = Inr ctx"
  by (auto simp: parse_def bind_Inr_iff split: if_splits)

subsection \<open>The region of a paragraph\<close>

lemma add_id_frame:
  "add_id i ctx = Inr ctx' \<Longrightarrow> ctx' = ctx\<lparr>ids := insert i (ids ctx)\<rparr>"
  by (auto simp: add_id_def split: if_splits)

lemma para_region_ids [simp]: "para_region elem p (ctx\<lparr>ids := X\<rparr>) = para_region elem p ctx"
  by (simp add: para_region_def region_ref_def Let_def)

lemma para_region_both:
  assumes "region_indices_ok ctx" and "has_region_ref elem" and "p \<noteq> - 1"
  shows "\<exists>err. para_region elem p ctx = Inl err"
proof (cases "map_of (ctx_regions ctx) (strip (elem_get_default elem ''region''))")
  case None
  with assms(2) show ?thesis
    by (simp add: para_region_def region_ref_def has_region_ref_def)
next
  case (Some pair)
  obtain i s where pair: "pair = (i, s)" by (cases pair)
  with Some assms(1) have "0 \<le> i" by (auto simp: region_indices_ok_def)
  with Some pair assms(2,3) show ?thesis
    by (simp add: para_region_def region_ref_def has_region_ref_def)
qed

lemma para_region_none:
  "\<not> has_region_ref elem \<Longrightarrow>
     para_region elem p ctx =
       (if p = - 1 then Inl (ParseError ''Missing `region` attribute'') else Inr (p, []))"
  by (simp add: para_region_def region_ref_def has_region_ref_def)

lemma para_region_own:
  assumes "region_indices_ok ctx" and "has_region_ref elem"
    and "map_of (ctx_regions ctx) (strip (elem_get_default elem ''region'')) = Some (i, s)"
  shows "para_region elem (- 1) ctx = Inr (i, s)"
proof -
  from assms(1,3) have "0 \<le> i" by (auto simp: region_indices_ok_def)
  with assms(2,3) show ?thesis
    by (simp add: para_region_def region_ref_def has_region_ref_def)
qed

lemma parse_one_para_region:
  assumes "parse_one_para elem stack p ctx = Inr (ctx', para)"
  shows "\<exists>s. para_region elem p ctx = Inr (para_region_index para, s)"
proof -
  from assms obtain i ctx1 where
    a: "add_id i ctx = Inr ctx1"
    and b: "\<exists>ri rs. para_region elem p ctx1 = Inr (ri, rs) \<and> para_region_index para = ri"
    by (auto simp: parse_one_para_def bind_Inr_iff Let_def)
  from add_id_frame [OF a] b show ?thesis by auto
qed

lemma parse_one_para_Inl:
  assumes "para_region elem p ctx = Inl err"
  shows "\<exists>err'. parse_one_para elem stack p ctx = Inl err'"
proof (cases "parse_one_para elem stack p ctx")
  case (Inl e)
  then show ?thesis by blast
next
  case (Inr r)
  obtain ctx' para where "r = (ctx', para)" by (cases r)
  with Inr parse_one_para_region [of elem stack p ctx ctx' para] assms show ?thesis by auto
qed

text \<open>The head builds a region table whose indices are not negative.\<close>

lemma region_indices_ok_init: "region_indices_ok (Context_init d)"
  by (simp add: region_indices_ok_def Context_init_def)

lemma parse_style_regions: "parse_style e ctx = Inr ctx' \<Longrightarrow> ctx_regions ctx' = ctx_regions ctx"
  by (auto simp: parse_style_def bind_Inr_iff dest!: add_id_frame)

lemma parse_styles_loop_regions:
  "parse_styles_loop es ctx = Inr ctx' \<Longrightarrow> ctx_regions ctx' = ctx_regions ctx"
  by (induction es arbitrary: ctx) (auto simp: bind_Inr_iff split: if_splits dest: parse_style_regions)

lemma parse_region_ok:
  assumes "parse_region e ctx = Inr ctx'" and "region_indices_ok ctx"
  shows "region_indices_ok ctx'"
proof -
  from assms(1) have "\<exists>x st. ctx_regions ctx' =
          AList.update x (int (length (regions (document ctx))), st) (ctx_regions ctx)"
    by (auto simp: parse_region_def bind_Inr_iff split: if_splits dest!: add_id_frame
        intro!: exI)
  then obtain x st where
    c: "ctx_regions ctx' =
          AList.update x (int (length (regions (document ctx))), st) (ctx_regions ctx)"
    by blast
  show ?thesis
    unfolding region_indices_ok_def
  proof (intro allI impI)
    fix k i s
    assume "map_of (ctx_regions ctx') k = Some (i, s)"
    then show "0 \<le> i"
      using assms(2) by (auto simp: c update_conv' region_indices_ok_def split: if_splits)
  qed
qed

lemma parse_regions_loop_ok:
  "parse_regions_loop es ctx = Inr ctx' \<Longrightarrow> region_indices_ok ctx \<Longrightarrow> region_indices_ok ctx'"
  by (induction es arbitrary: ctx) (auto simp: bind_Inr_iff split: if_splits dest: parse_region_ok)

lemma parse_head_loop_ok:
  "parse_head_loop es sc lc ctx = Inr (sc', lc', ctx') \<Longrightarrow> region_indices_ok ctx
     \<Longrightarrow> region_indices_ok ctx'"
proof (induction es arbitrary: sc lc ctx)
  case Nil
  then show ?case by simp
next
  case (Cons e es)
  consider (styling) "tag e = STYLING_ELEM" | (layout) "tag e = LAYOUT_ELEM" "tag e \<noteq> STYLING_ELEM"
    | (other) "tag e \<noteq> STYLING_ELEM" "tag e \<noteq> LAYOUT_ELEM"
    by blast
  then show ?case
  proof cases
    case styling
    with Cons.prems(1) obtain ctx1 where
      a: "parse_styles e ctx = Inr ctx1"
      and b: "parse_head_loop es (sc + 1) lc ctx1 = Inr (sc', lc', ctx')"
      by (auto simp: bind_Inr_iff split: if_splits)
    from parse_styles_loop_regions [OF a [unfolded parse_styles_def]] Cons.prems(2)
    have "region_indices_ok ctx1" by (simp add: region_indices_ok_def)
    from Cons.IH [OF b this] show ?thesis .
  next
    case layout
    with Cons.prems(1) obtain ctx1 where
      a: "parse_regions e ctx = Inr ctx1"
      and b: "parse_head_loop es sc (lc + 1) ctx1 = Inr (sc', lc', ctx')"
      by (auto simp: bind_Inr_iff split: if_splits)
    from parse_regions_loop_ok [OF a [unfolded parse_regions_def] Cons.prems(2)]
    have "region_indices_ok ctx1" .
    from Cons.IH [OF b this] show ?thesis .
  next
    case other
    with Cons.prems(1) have "parse_head_loop es sc lc ctx = Inr (sc', lc', ctx')" by simp
    from Cons.IH [OF this Cons.prems(2)] show ?thesis .
  qed
qed

lemma parse_head_regions_ok:
  "parse_head root_elem (Context_init d) = Inr ctx \<Longrightarrow> region_indices_ok ctx"
  by (auto simp: parse_head_def Let_def bind_Inr_iff split: if_splits
      dest!: parse_head_loop_ok [OF _ region_indices_ok_init])

subsection \<open>The identifier registry\<close>

lemma registers_same: "ids ctx' = ids ctx \<Longrightarrow> registers ctx [] ctx'"
  by (simp add: registers_def)

lemma registers_trans:
  "registers ctx L1 ctx1 \<Longrightarrow> registers ctx1 L2 ctx2 \<Longrightarrow> registers ctx (L1 @ L2) ctx2"
  by (auto simp: registers_def)

lemma registers_update [simp]:
  "registers ctx L (ctx'\<lparr>styles := X\<rparr>) = registers ctx L ctx'"
  "registers ctx L (ctx'\<lparr>ctx_regions := Y\<rparr>) = registers ctx L ctx'"
  "registers ctx L (ctx'\<lparr>document := Z\<rparr>) = registers ctx L ctx'"
  by (simp_all add: registers_def)

lemma add_id_registers: "add_id i ctx = Inr ctx' \<Longrightarrow> registers ctx [i] ctx'"
  by (auto simp: add_id_def registers_def split: if_splits)

lemma parse_id_required: "parse_id e True = Inr i \<Longrightarrow> elem_ids e = [i]"
  by (auto simp: parse_id_def elem_ids_def Let_def split: option.splits if_splits)

lemma parse_id_optional:
  "parse_id e False = Inr i \<Longrightarrow> elem_ids e = (if i = [] then [] else [i])"
  by (auto simp: parse_id_def elem_ids_def Let_def split: option.splits if_splits)

lemma parse_optional_id_registers:
  "parse_optional_id e ctx = Inr (i, ctx') \<Longrightarrow> registers ctx (elem_ids e) ctx'"
  by (auto simp: parse_optional_id_def bind_Inr_iff registers_same
      dest!: parse_id_optional add_id_registers split: if_splits)

lemma parse_style_registers:
  "parse_style e ctx = Inr ctx' \<Longrightarrow> registers ctx (elem_ids e) ctx'"
  by (auto simp: parse_style_def bind_Inr_iff dest!: parse_id_required add_id_registers)

lemma parse_styles_loop_registers:
  "parse_styles_loop es ctx = Inr ctx' \<Longrightarrow>
     registers ctx (concat (map elem_ids (filter (\<lambda>e. tag e = STYLE_ELEM) es))) ctx'"
proof (induction es arbitrary: ctx)
  case Nil
  then show ?case by (simp add: registers_same)
next
  case (Cons e es)
  show ?case
  proof (cases "tag e = STYLE_ELEM")
    case False
    with Cons show ?thesis by simp
  next
    case True
    with Cons.prems obtain ctx1 where
      a: "parse_style e ctx = Inr ctx1" and b: "parse_styles_loop es ctx1 = Inr ctx'"
      by (auto simp: bind_Inr_iff)
    from registers_trans [OF parse_style_registers [OF a] Cons.IH [OF b]] True
    show ?thesis by simp
  qed
qed

lemma parse_region_registers:
  "parse_region e ctx = Inr ctx' \<Longrightarrow> registers ctx (elem_ids e) ctx'"
  by (auto simp: parse_region_def bind_Inr_iff dest!: parse_id_required add_id_registers
      split: if_splits)

lemma parse_regions_loop_registers:
  "parse_regions_loop es ctx = Inr ctx' \<Longrightarrow>
     registers ctx (concat (map elem_ids (filter (\<lambda>e. tag e = REGION_ELEM) es))) ctx'"
proof (induction es arbitrary: ctx)
  case Nil
  then show ?case by (simp add: registers_same)
next
  case (Cons e es)
  show ?case
  proof (cases "tag e = REGION_ELEM")
    case False
    with Cons show ?thesis by simp
  next
    case True
    with Cons.prems obtain ctx1 where
      a: "parse_region e ctx = Inr ctx1" and b: "parse_regions_loop es ctx1 = Inr ctx'"
      by (auto simp: bind_Inr_iff)
    from registers_trans [OF parse_region_registers [OF a] Cons.IH [OF b]] True
    show ?thesis by simp
  qed
qed

lemma parse_head_loop_registers:
  "parse_head_loop es sc lc ctx = Inr (sc', lc', ctx') \<Longrightarrow>
     registers ctx (concat (map head_child_ids es)) ctx'"
proof (induction es arbitrary: sc lc ctx)
  case Nil
  then show ?case by (simp add: registers_same)
next
  case (Cons e es)
  consider (styling) "tag e = STYLING_ELEM" | (layout) "tag e = LAYOUT_ELEM" "tag e \<noteq> STYLING_ELEM"
    | (other) "tag e \<noteq> STYLING_ELEM" "tag e \<noteq> LAYOUT_ELEM"
    by blast
  then show ?case
  proof cases
    case styling
    with Cons.prems obtain ctx1 where
      a: "parse_styles e ctx = Inr ctx1"
      and b: "parse_head_loop es (sc + 1) lc ctx1 = Inr (sc', lc', ctx')"
      by (auto simp: bind_Inr_iff split: if_splits)
    from registers_trans [OF parse_styles_loop_registers [OF a [unfolded parse_styles_def]]
        Cons.IH [OF b]] styling
    show ?thesis by (simp add: head_child_ids_def find_children_def)
  next
    case layout
    with Cons.prems obtain ctx1 where
      a: "parse_regions e ctx = Inr ctx1"
      and b: "parse_head_loop es sc (lc + 1) ctx1 = Inr (sc', lc', ctx')"
      by (auto simp: bind_Inr_iff split: if_splits)
    from registers_trans [OF parse_regions_loop_registers [OF a [unfolded parse_regions_def]]
        Cons.IH [OF b]] layout
    show ?thesis by (simp add: head_child_ids_def find_children_def)
  next
    case other
    with Cons.prems have "parse_head_loop es sc lc ctx = Inr (sc', lc', ctx')" by simp
    from Cons.IH [OF this] other show ?thesis by (simp add: head_child_ids_def)
  qed
qed

lemma parse_head_registers:
  assumes "parse_head root_elem ctx = Inr ctx'"
  shows "registers ctx (concat (map head_ids (find_children root_elem HEAD_ELEM))) ctx'"
proof -
  from assms have "length (find_children root_elem HEAD_ELEM) = 1"
    by (cases "find_children root_elem HEAD_ELEM")
       (auto simp: parse_head_def Let_def split: if_splits)
  then obtain h where h: "find_children root_elem HEAD_ELEM = [h]"
    by (cases "find_children root_elem HEAD_ELEM") auto
  from assms obtain sc lc where "parse_head_loop (children h) 0 0 ctx = Inr (sc, lc, ctx')"
    by (auto simp: parse_head_def h bind_Inr_iff split: if_splits)
  from parse_head_loop_registers [OF this] show ?thesis
    by (simp add: h head_ids_def)
qed

lemma parse_content_registers:
  "parse_content e stack ctx = Inr (ctx', cs) \<Longrightarrow>
     registers ctx (if tag e = SPAN_ELEM then elem_ids e else []) ctx'"
proof -
  assume a: "parse_content e stack ctx = Inr (ctx', cs)"
  have ne: "BR_ELEM \<noteq> SPAN_ELEM" by (simp add: BR_ELEM_def SPAN_ELEM_def)
  show ?thesis
  proof (cases "tag e = SPAN_ELEM")
    case False
    with a show ?thesis
      by (auto simp: parse_content_def registers_same split: if_splits)
  next
    case True
    with a ne obtain i where "parse_optional_id e ctx = Inr (i, ctx')"
      by (auto simp: parse_content_def bind_Inr_iff Let_def)
    from parse_optional_id_registers [OF this] True show ?thesis by simp
  qed
qed

lemma parse_content_loop_registers:
  "parse_content_loop es stack ctx = Inr (ctx', cs) \<Longrightarrow>
     registers ctx (concat (map elem_ids (filter (\<lambda>e. tag e = SPAN_ELEM) es))) ctx'"
proof (induction es arbitrary: ctx cs)
  case Nil
  then show ?case by (simp add: registers_same)
next
  case (Cons e es)
  from Cons.prems obtain ctx1 c1 rest where
    a: "parse_content e stack ctx = Inr (ctx1, c1)"
    and b: "parse_content_loop es stack ctx1 = Inr (ctx', rest)"
    by (auto simp: bind_Inr_iff)
  from registers_trans [OF parse_content_registers [OF a] Cons.IH [OF b]]
  show ?case by (cases "tag e = SPAN_ELEM") simp_all
qed

lemma parse_one_para_registers:
  assumes "parse_one_para e stack p ctx = Inr (ctx', para)"
  shows "registers ctx (elem_ids e @ span_ids e) ctx'"
proof -
  from assms obtain i ctx1 stack1 cs where
    a: "parse_id e True = Inr i" and b: "add_id i ctx = Inr ctx1"
    and c: "parse_paragraph_content e stack1 ctx1 = Inr (ctx', cs)"
    by (auto simp: parse_one_para_def bind_Inr_iff Let_def)
  from parse_content_loop_registers [OF c [unfolded parse_paragraph_content_def]]
  have "registers ctx1 (span_ids e) ctx'"
    by (simp add: span_ids_def find_children_def)
  from registers_trans [OF add_id_registers [OF b] this] parse_id_required [OF a]
  show ?thesis by simp
qed

lemma parse_para_loop_registers:
  "parse_para_loop es stack p ctx = Inr (ctx', ps) \<Longrightarrow>
     registers ctx (concat (map (\<lambda>e. elem_ids e @ span_ids e) (filter (\<lambda>e. tag e = P_ELEM) es))) ctx'"
proof (induction es arbitrary: ctx ps)
  case Nil
  then show ?case by (simp add: registers_same)
next
  case (Cons e es)
  show ?case
  proof (cases "tag e = P_ELEM")
    case False
    with Cons show ?thesis by simp
  next
    case True
    with Cons.prems obtain ctx1 q rest where
      a: "parse_one_para e stack p ctx = Inr (ctx1, q)"
      and b: "parse_para_loop es stack p ctx1 = Inr (ctx', rest)"
      by (auto simp: bind_Inr_iff)
    from registers_trans [OF parse_one_para_registers [OF a] Cons.IH [OF b]] True
    show ?thesis by simp
  qed
qed

lemma parse_one_div_registers:
  assumes "parse_one_div e stack ctx = Inr (ctx', d)"
  shows "registers ctx (elem_ids e @ para_ids e) ctx'"
proof -
  from assms obtain i ctx1 stack1 ri ps where
    a: "parse_optional_id e ctx = Inr (i, ctx1)"
    and c: "parse_para e stack1 ri ctx1 = Inr (ctx', ps)"
    by (auto simp: parse_one_div_def bind_Inr_iff Let_def)
  from c have "parse_para_loop (children e) stack1 ri ctx1 = Inr (ctx', ps)"
    by (auto simp: parse_para_def bind_Inr_iff split: if_splits)
  from parse_para_loop_registers [OF this]
  have "registers ctx1 (para_ids e) ctx'"
    by (simp add: para_ids_def find_children_def)
  from registers_trans [OF parse_optional_id_registers [OF a] this]
  show ?thesis .
qed

lemma parse_div_loop_registers:
  "parse_div_loop es stack ctx = Inr (ctx', ds) \<Longrightarrow>
     registers ctx (concat (map (\<lambda>e. elem_ids e @ para_ids e) (filter (\<lambda>e. tag e = DIV_ELEM) es))) ctx'"
proof (induction es arbitrary: ctx ds)
  case Nil
  then show ?case by (simp add: registers_same)
next
  case (Cons e es)
  show ?case
  proof (cases "tag e = DIV_ELEM")
    case False
    with Cons show ?thesis by simp
  next
    case True
    with Cons.prems obtain ctx1 q rest where
      a: "parse_one_div e stack ctx = Inr (ctx1, q)"
      and b: "parse_div_loop es stack ctx1 = Inr (ctx', rest)"
      by (auto simp: bind_Inr_iff)
    from registers_trans [OF parse_one_div_registers [OF a] Cons.IH [OF b]] True
    show ?thesis by simp
  qed
qed

lemma parse_body_registers:
  assumes "parse_body root_elem ctx = Inr (ctx', b)"
  shows "registers ctx (concat (map div_ids (find_children root_elem BODY_ELEM))) ctx'"
proof -
  from assms have "length (find_children root_elem BODY_ELEM) = 1"
    by (cases "find_children root_elem BODY_ELEM")
       (auto simp: parse_body_def Let_def split: if_splits)
  then obtain be where be: "find_children root_elem BODY_ELEM = [be]"
    by (cases "find_children root_elem BODY_ELEM") auto
  from assms obtain stack ds where "parse_div be stack ctx = Inr (ctx', ds)"
    by (auto simp: parse_body_def be bind_Inr_iff Let_def)
  then have "parse_div_loop (children be) stack ctx = Inr (ctx', ds)"
    by (auto simp: parse_div_def bind_Inr_iff split: if_splits)
  from parse_div_loop_registers [OF this] show ?thesis
    unfolding be by (simp add: div_ids_def find_children_def)
qed

lemma parse_registers:
  assumes "parse root_elem = Inr d"
  shows "\<exists>doc ctx'. registers (Context_init doc) (document_ids root_elem) ctx'"
proof -
  from assms obtain doc ctx1 ctx2 b where
    a: "parse_head root_elem (Context_init doc) = Inr ctx1"
    and b: "parse_body root_elem ctx1 = Inr (ctx2, b)"
    by (auto simp: parse_def bind_Inr_iff split: if_splits)
  from registers_trans [OF parse_head_registers [OF a] parse_body_registers [OF b]]
  show ?thesis by (auto simp: document_ids_def)
qed

text \<open>
  The whole parse of the two-level document: the head, then the body, whose span has the
  stack of the style of the division and its own style.
\<close>

lemma two_level_parse:
  assumes "CellResolution_parse cr = Inr c"
    and "rows c < 2 ^ 1024 - 2 ^ 970" and "columns c < 2 ^ 1024 - 2 ^ 970"
  shows "\<exists>d. parse (two_level_doc cr) = Inr d \<and> cell_resolution d = c
           \<and> span_font_sizes d = [1 / 4 * (1 / real_of_int (rows c))]"
proof -
  define d0 where "d0 = Document_default\<lparr>cell_resolution := c, doc_language := ''en''\<rparr>"
  have cr: "cr \<noteq> []"
    using assms(1) by (rule CellResolution_parse_nonempty)
  have r0: "regions d0 = []" and c0: "cell_resolution d0 = c"
    by (simp_all add: d0_def Document_default_def)
  have ok: "divisor_ok (rows (cell_resolution d0))" "divisor_ok (columns (cell_resolution d0))"
    using CellResolution_parse_positive [OF assms(1)] assms(2,3)
    by (simp_all add: c0 divisor_ok_def)
  from two_level_body [OF r0 ok, of cr] obtain ctx b where
    b: "parse_body (two_level_doc cr) (ctx_after_head d0) = Inr (ctx, b)"
    and c: "cell_resolution ((document ctx)\<lparr>body := b\<rparr>) = c"
    and f: "span_font_sizes ((document ctx)\<lparr>body := b\<rparr>) = [1 / 4 * (1 / real_of_int (rows c))]"
    by (auto simp: c0)
  have top: "tag (two_level_doc cr) = TT_ELEM"
    "elem_get (two_level_doc cr) TIME_BASE_ATTR = Some ''media''"
    "get_nonempty (two_level_doc cr) ACTIVE_AREA_ATTR = None"
    "get_nonempty (two_level_doc cr) CELL_RESOLUTION_ATTR = Some cr"
    "elem_get (two_level_doc cr) LANG_ATTR = Some ''en''"
    "get_nonempty (two_level_doc cr) SPACE_ATTR = None"
    using cr
    by (simp_all add: two_level_doc_def el_def elem_names elem_get_def get_nonempty_def
        get_truthy_def)
  have "parse (two_level_doc cr) = Inr ((document ctx)\<lparr>body := b\<rparr>)"
    using assms(1) b
    by (simp add: parse_def top strip_def py_isspace_def two_level_head d0_def)
  with c f show ?thesis by simp
qed

lemma duplicate_id_rejected:
  "parse duplicate_id_doc = Inl (ParseError ''Non unique identifier: s1'')"
  by (simp add: parse_def duplicate_id_doc_def doc_head_def el_def elem_names walker_defs  strip_def py_isspace_def Context_init_def FontSize_50 Origin_10 Extent_80
      resolver_eval_defs)

subsection \<open>Contexts that differ in the registry only\<close>

lemma frame_refl [simp]: "frame ctx ctx"
  by (simp add: frame_def)

lemma frame_trans: "frame ctx ctx1 \<Longrightarrow> frame ctx1 ctx2 \<Longrightarrow> frame ctx ctx2"
  by (cases ctx, cases ctx1, cases ctx2) (simp add: frame_def)

lemma frame_ok: "frame ctx ctx' \<Longrightarrow> region_indices_ok ctx \<Longrightarrow> region_indices_ok ctx'"
  by (cases ctx, cases ctx') (simp add: frame_def region_indices_ok_def)

lemma add_id_preserves: "add_id i ctx = Inr ctx' \<Longrightarrow> frame ctx ctx'"
  by (auto simp: add_id_def frame_def split: if_splits)

lemma parse_optional_id_frame: "parse_optional_id e ctx = Inr (i, ctx') \<Longrightarrow> frame ctx ctx'"
  by (auto simp: parse_optional_id_def bind_Inr_iff split: if_splits dest: add_id_preserves)

lemma parse_content_frame: "parse_content e stack ctx = Inr (ctx', cs) \<Longrightarrow> frame ctx ctx'"
  by (auto simp: parse_content_def bind_Inr_iff Let_def split: if_splits
      dest: parse_optional_id_frame)

lemma parse_content_loop_frame:
  "parse_content_loop es stack ctx = Inr (ctx', cs) \<Longrightarrow> frame ctx ctx'"
proof (induction es arbitrary: ctx cs)
  case Nil
  then show ?case by simp
next
  case (Cons e es)
  from Cons.prems obtain ctx1 c1 rest where
    a: "parse_content e stack ctx = Inr (ctx1, c1)"
    and b: "parse_content_loop es stack ctx1 = Inr (ctx', rest)"
    by (auto simp: bind_Inr_iff)
  from frame_trans [OF parse_content_frame [OF a] Cons.IH [OF b]] show ?case .
qed

lemma parse_one_para_frame:
  assumes "parse_one_para e stack p ctx = Inr (ctx', para)"
  shows "frame ctx ctx'"
proof -
  from assms obtain i ctx1 stack1 cs where
    b: "add_id i ctx = Inr ctx1"
    and c: "parse_paragraph_content e stack1 ctx1 = Inr (ctx', cs)"
    by (auto simp: parse_one_para_def bind_Inr_iff Let_def)
  from frame_trans [OF add_id_preserves [OF b]
      parse_content_loop_frame [OF c [unfolded parse_paragraph_content_def]]]
  show ?thesis .
qed

text \<open>
  A paragraph that parses has its own region reference exactly when its division has
  none.
\<close>

lemma parse_one_para_exactly_one:
  assumes "parse_one_para e stack p ctx = Inr (ctx', para)" and "region_indices_ok ctx"
  shows "has_region_ref e = (p = - 1)"
proof (cases "has_region_ref e")
  case True
  show ?thesis
  proof (cases "p = - 1")
    case True
    with \<open>has_region_ref e\<close> show ?thesis by simp
  next
    case False
    from para_region_both [OF assms(2) True False] obtain err where
      "para_region e p ctx = Inl err" by blast
    from parse_one_para_Inl [OF this, of stack] assms(1) show ?thesis by simp
  qed
next
  case False
  from parse_one_para_region [OF assms(1)] para_region_none [OF False, of p ctx]
  show ?thesis using False by (auto split: if_splits)
qed

lemma parse_para_loop_exactly_one:
  "parse_para_loop es stack p ctx = Inr (ctx', ps) \<Longrightarrow> region_indices_ok ctx \<Longrightarrow>
     (\<forall>e \<in> set es. tag e = P_ELEM \<longrightarrow> has_region_ref e = (p = - 1)) \<and> frame ctx ctx'"
proof (induction es arbitrary: ctx ps)
  case Nil
  then show ?case by simp
next
  case (Cons e es)
  show ?case
  proof (cases "tag e = P_ELEM")
    case False
    with Cons show ?thesis by simp
  next
    case True
    with Cons.prems(1) obtain ctx1 q rest where
      a: "parse_one_para e stack p ctx = Inr (ctx1, q)"
      and b: "parse_para_loop es stack p ctx1 = Inr (ctx', rest)"
      by (auto simp: bind_Inr_iff)
    have f: "frame ctx ctx1" by (rule parse_one_para_frame [OF a])
    from Cons.IH [OF b frame_ok [OF f Cons.prems(2)]]
      parse_one_para_exactly_one [OF a Cons.prems(2)] frame_trans [OF f]
    show ?thesis by auto
  qed
qed

lemma region_ref_index:
  assumes "region_ref e ctx = Inr (ri, rs)" and "region_indices_ok ctx"
  shows "(ri = - 1) = (\<not> has_region_ref e)"
proof (cases "has_region_ref e")
  case False
  with assms(1) show ?thesis
    by (simp add: region_ref_def has_region_ref_def)
next
  case True
  with assms(1) have "map_of (ctx_regions ctx) (strip (elem_get_default e ''region'')) = Some (ri, rs)"
    by (auto simp: region_ref_def has_region_ref_def Let_def split: option.splits)
  with assms(2) have "0 \<le> ri" by (auto simp: region_indices_ok_def)
  with True show ?thesis by simp
qed

lemma parse_one_div_exactly_one:
  assumes "parse_one_div e stack ctx = Inr (ctx', d)" and "region_indices_ok ctx"
  shows "(\<forall>p \<in> set (find_children e P_ELEM). has_region_ref p \<noteq> has_region_ref e)
       \<and> frame ctx ctx'"
proof -
  from assms(1) obtain i ctx1 ri rs stack1 ps where
    a: "parse_optional_id e ctx = Inr (i, ctx1)"
    and r: "region_ref e ctx1 = Inr (ri, rs)"
    and c: "parse_para e stack1 ri ctx1 = Inr (ctx', ps)"
    by (auto simp: parse_one_div_def bind_Inr_iff Let_def)
  have f: "frame ctx ctx1" by (rule parse_optional_id_frame [OF a])
  have ok1: "region_indices_ok ctx1" by (rule frame_ok [OF f assms(2)])
  from c have "parse_para_loop (children e) stack1 ri ctx1 = Inr (ctx', ps)"
    by (auto simp: parse_para_def bind_Inr_iff split: if_splits)
  from parse_para_loop_exactly_one [OF this ok1] region_ref_index [OF r ok1] frame_trans [OF f]
  show ?thesis by (auto simp: find_children_def)
qed

lemma parse_div_loop_exactly_one:
  "parse_div_loop es stack ctx = Inr (ctx', ds) \<Longrightarrow> region_indices_ok ctx \<Longrightarrow>
     (\<forall>e \<in> set es. tag e = DIV_ELEM \<longrightarrow>
        (\<forall>p \<in> set (find_children e P_ELEM). has_region_ref p \<noteq> has_region_ref e))"
proof (induction es arbitrary: ctx ds)
  case Nil
  then show ?case by simp
next
  case (Cons e es)
  show ?case
  proof (cases "tag e = DIV_ELEM")
    case False
    with Cons show ?thesis by simp
  next
    case True
    with Cons.prems(1) obtain ctx1 q rest where
      a: "parse_one_div e stack ctx = Inr (ctx1, q)"
      and b: "parse_div_loop es stack ctx1 = Inr (ctx', rest)"
      by (auto simp: bind_Inr_iff)
    from parse_one_div_exactly_one [OF a Cons.prems(2)]
    have one: "\<forall>p \<in> set (find_children e P_ELEM). has_region_ref p \<noteq> has_region_ref e"
      and f: "frame ctx ctx1" by simp_all
    from Cons.IH [OF b frame_ok [OF f Cons.prems(2)]] one show ?thesis by simp
  qed
qed

lemma parse_exactly_one:
  assumes "parse root_elem = Inr d"
  shows "\<forall>dv \<in> set (div_elems root_elem). \<forall>p \<in> set (find_children dv P_ELEM).
           has_region_ref p \<noteq> has_region_ref dv"
proof -
  from assms obtain doc ctx1 ctx2 b where
    a: "parse_head root_elem (Context_init doc) = Inr ctx1"
    and b: "parse_body root_elem ctx1 = Inr (ctx2, b)"
    by (auto simp: parse_def bind_Inr_iff split: if_splits)
  have ok: "region_indices_ok ctx1" by (rule parse_head_regions_ok [OF a])
  from b have "length (find_children root_elem BODY_ELEM) = 1"
    by (cases "find_children root_elem BODY_ELEM")
       (auto simp: parse_body_def Let_def split: if_splits)
  then obtain be where be: "find_children root_elem BODY_ELEM = [be]"
    by (cases "find_children root_elem BODY_ELEM") auto
  from b obtain stack ds where "parse_div be stack ctx1 = Inr (ctx2, ds)"
    by (auto simp: parse_body_def be bind_Inr_iff Let_def)
  then have "parse_div_loop (children be) stack ctx1 = Inr (ctx2, ds)"
    by (auto simp: parse_div_def bind_Inr_iff split: if_splits)
  from parse_div_loop_exactly_one [OF this ok] show ?thesis
    unfolding div_elems_def be by (simp add: find_children_def)
qed

text \<open>The four cases of the region of one paragraph.\<close>

lemma para_region_cases:
  assumes "region_indices_ok ctx"
  shows "(has_region_ref elem \<and> parent \<noteq> - 1 \<longrightarrow>
            (\<exists>err. parse_one_para elem stack parent ctx = Inl err))
       \<and> (\<not> has_region_ref elem \<and> parent = - 1 \<longrightarrow>
            para_region elem parent ctx = Inl (ParseError ''Missing `region` attribute'')
            \<and> (\<exists>err. parse_one_para elem stack parent ctx = Inl err))
       \<and> (has_region_ref elem \<and> parent = - 1
            \<and> map_of (ctx_regions ctx) (strip (elem_get_default elem ''region'')) = Some (i, s) \<longrightarrow>
            para_region elem parent ctx = Inr (i, s)
            \<and> (\<forall>ctx' para. parse_one_para elem stack parent ctx = Inr (ctx', para) \<longrightarrow>
                  para_region_index para = i))
       \<and> (\<not> has_region_ref elem \<and> parent \<noteq> - 1 \<longrightarrow>
            para_region elem parent ctx = Inr (parent, [])
            \<and> (\<forall>ctx' para. parse_one_para elem stack parent ctx = Inr (ctx', para) \<longrightarrow>
                  para_region_index para = parent))"
proof (intro conjI impI)
  assume "has_region_ref elem \<and> parent \<noteq> - 1"
  with para_region_both [OF assms, of elem parent] parse_one_para_Inl
  show "\<exists>err. parse_one_para elem stack parent ctx = Inl err" by blast
next
  assume h: "\<not> has_region_ref elem \<and> parent = - 1"
  then show m: "para_region elem parent ctx = Inl (ParseError ''Missing `region` attribute'')"
    by (simp add: para_region_none)
  from parse_one_para_Inl [OF m] show "\<exists>err. parse_one_para elem stack parent ctx = Inl err" .
next
  assume h: "has_region_ref elem \<and> parent = - 1
            \<and> map_of (ctx_regions ctx) (strip (elem_get_default elem ''region'')) = Some (i, s)"
  then show r: "para_region elem parent ctx = Inr (i, s)"
    using para_region_own [OF assms, of elem i s] by simp
  show "\<forall>ctx' para. parse_one_para elem stack parent ctx = Inr (ctx', para) \<longrightarrow>
                  para_region_index para = i"
    using parse_one_para_region [of elem stack parent ctx] r by fastforce
next
  assume h: "\<not> has_region_ref elem \<and> parent \<noteq> - 1"
  then show r: "para_region elem parent ctx = Inr (parent, [])"
    by (simp add: para_region_none)
  show "\<forall>ctx' para. parse_one_para elem stack parent ctx = Inr (ctx', para) \<longrightarrow>
                  para_region_index para = parent"
    using parse_one_para_region [of elem stack parent ctx] r by fastforce
qed

subsection \<open>Two levels of 50 percent\<close>

lemma resolve_ids_ids [simp]: "resolve_ids (ctx\<lparr>ids := X\<rparr>) xs st = resolve_ids ctx xs st"
  by (induction xs arbitrary: st) (simp_all add: Let_def split: option.splits prod.splits)

lemma resolve_scopes_ids [simp]:
  "resolve_scopes (ctx\<lparr>ids := X\<rparr>) i xs = resolve_scopes ctx i xs"
proof (induction xs arbitrary: i)
  case Nil
  show ?case by (rule ext) simp
next
  case (Cons v vs)
  show ?case by (rule ext) (simp add: Cons.IH)
qed

lemma resolve_style_ids [simp]: "resolve_style stack (ctx\<lparr>ids := X\<rparr>) = resolve_style stack ctx"
  by (simp add: resolve_style_def)

lemma resolve_style_frame: "frame ctx ctx' \<Longrightarrow> resolve_style stack ctx' = resolve_style stack ctx"
  by (metis frame_def resolve_style_ids)

lemma resolve_style_Nil:
  "resolve_style [] ctx = Inr r
     \<Longrightarrow> font_size r = 1 / real_of_int (rows (cell_resolution (document ctx)))"
  by (auto simp: resolve_style_def compute_def ResolvedStyle_default_def COMPUTE_ALL_MASK_def
      COMPUTE_FONT_SIZE_BIT_def COMPUTE_LINE_HEIGHT_BIT_def COMPUTE_LINE_PADDING_BIT_def
      COMPUTE_TEXT_OUTLINE_BIT_def Let_def bind_Inr_iff float_div_int_Inr)

lemma resolve_style_prefix:
  "resolve_style (stack @ [v]) ctx = Inr r \<Longrightarrow> \<exists>r0. resolve_style stack ctx = Inr r0"
  by (auto simp: resolve_style_snoc bind_Inr_iff)

lemma resolve_style_snoc_single:
  assumes "i \<noteq> []" and "CHR '' '' \<notin> set i"
    and "map_of (styles ctx) i = Some p"
    and "sp_font_size p = Some f" and "f \<noteq> 0"
    and "resolve_style stack ctx = Inr r"
  shows "\<exists>r'. resolve_style (stack @ [i]) ctx = Inr r' \<and> font_size r' = f * font_size r"
proof -
  define r1 where "r1 = (if stack \<noteq> [] then inherited r else r)"
  have fr1: "font_size r1 = font_size r" by (simp add: r1_def inherited_def)
  obtain m rs1 where mp: "merge_properties r1 p = (m, rs1)"
    by (cases "merge_properties r1 p")
  have m: "m AND COMPUTE_FONT_SIZE_BIT \<noteq> 0"
    using msk_font_bit [of r1 p] mp assms(4,5) by (simp add: get_truthy_def)
  have fs1: "font_size rs1 = f"
    using merge_font_size [of r1 p] mp assms(4,5) by (simp add: get_truthy_def assign_def)
  from compute_Some_ok [of "cell_resolution (document ctx)" m "font_size r" rs1]
    resolve_style_Inr_divisors [OF assms(6)]
  obtain r2 where
    c: "compute m (Some (font_size r)) (cell_resolution (document ctx)) rs1 = Inr r2"
    by blast
  have "resolve_style (stack @ [i]) ctx = Inr r2"
    using assms(1,2,3,6) mp c
    by (simp add: resolve_style_snoc split_on_single Let_def r1_def)
  moreover have "font_size r2 = f * font_size r"
    using m fs1 compute_font_size [OF c] by simp
  ultimately show ?thesis by blast
qed

lemma resolve_style_two_levels:
  assumes "sd \<noteq> []" and "CHR '' '' \<notin> set sd" and "ss \<noteq> []" and "CHR '' '' \<notin> set ss"
    and "map_of (styles ctx) sd = Some pd" and "sp_font_size pd = Some (1 / 2)"
    and "map_of (styles ctx) ss = Some ps" and "sp_font_size ps = Some (1 / 2)"
    and "resolve_style [sd, ss] ctx = Inr r"
  shows "font_size r = 1 / 4 * (1 / real_of_int (rows (cell_resolution (document ctx))))"
proof -
  from resolve_style_prefix [of "[sd]" ss ctx r] assms(9) obtain r1' where
    "resolve_style [sd] ctx = Inr r1'" by auto
  with resolve_style_prefix [of "[]" sd ctx r1'] obtain r0 where
    r0: "resolve_style [] ctx = Inr r0" by auto
  have f0: "font_size r0 = 1 / real_of_int (rows (cell_resolution (document ctx)))"
    using resolve_style_Nil [OF r0] .
  from resolve_style_snoc_single [OF assms(1,2,5,6) _ r0] obtain r1 where
    r1: "resolve_style [sd] ctx = Inr r1" and f1: "font_size r1 = 1 / 2 * font_size r0"
    by auto
  from resolve_style_snoc_single [OF assms(3,4,7,8) _ r1] obtain r2 where
    r2: "resolve_style [sd, ss] ctx = Inr r2" and f2: "font_size r2 = 1 / 2 * font_size r1"
    by auto
  from r2 f2 f1 f0 assms(9) show ?thesis by simp
qed

lemma span_two_levels:
  assumes "tag e = SPAN_ELEM" and "strip (elem_get_default e ''style'') = ss"
    and "sd \<noteq> []" and "CHR '' '' \<notin> set sd" and "ss \<noteq> []" and "CHR '' '' \<notin> set ss"
    and "map_of (styles ctx) sd = Some pd" and "sp_font_size pd = Some (1 / 2)"
    and "map_of (styles ctx) ss = Some ps" and "sp_font_size ps = Some (1 / 2)"
    and "parse_content e [sd] ctx = Inr (ctx', cs)"
  shows "\<exists>s. cs = [SpanC s]
           \<and> span_font_size s = 1 / 4 * (1 / real_of_int (rows (cell_resolution (document ctx))))"
proof -
  have ne: "SPAN_ELEM \<noteq> BR_ELEM" by (simp add: BR_ELEM_def SPAN_ELEM_def)
  from assms(1,2,5,11) ne obtain i ctx1 r where
    a: "parse_optional_id e ctx = Inr (i, ctx1)"
    and b: "resolve_style [sd, ss] ctx1 = Inr r"
    and c: "\<exists>s. cs = [SpanC s] \<and> span_font_size s = font_size r"
    by (auto simp: parse_content_def bind_Inr_iff Let_def push_def)
  from resolve_style_frame [OF parse_optional_id_frame [OF a]] b
  have "resolve_style [sd, ss] ctx = Inr r" by simp
  from resolve_style_two_levels [OF assms(3,4,5,6,7,8,9,10) this] c show ?thesis by auto
qed

lemma both_regions_rejected: "parse both_regions_doc = Inl (ParseError ''Multiple regions'')"
  by (simp add: parse_def both_regions_doc_def doc_head_def el_def elem_names walker_defs  strip_def py_isspace_def Context_init_def FontSize_50 Origin_10 Extent_80
      is_digit_def nat_of_digits_def resolver_eval_defs)

lemma fill_gap_parse: "map_sum id para_fill_line_gaps (parse fill_gap_doc) = Inr [True]"
  by (simp add: parse_def fill_gap_doc_def el_def elem_names walker_defs
      strip_def py_isspace_def Context_init_def Origin_10 Extent_80 is_digit_def
      nat_of_digits_def resolver_eval_defs para_fill_line_gaps_def)

subsection \<open>Font sizes and colours within one scope\<close>

lemma resolve_ids_font_sizes:
  assumes "resolve_ids ctx xs st = Inr st'" and "snd st = font_size (fst st)"
    and "0 \<notin> set (List.map_filter (declared_font_size ctx) (filter (\<lambda>i. i \<noteq> []) xs))"
  shows "font_size (fst st')
           = prod_list (List.map_filter (declared_font_size ctx) (filter (\<lambda>i. i \<noteq> []) xs))
               * font_size (fst st)"
  using assms
proof (induction xs arbitrary: st)
  case Nil
  then show ?case by (simp add: List.map_filter_simps)
next
  case (Cons i xs)
  show ?case
  proof (cases "i = []")
    case True
    with Cons show ?thesis by simp
  next
    case False
    with Cons.prems(1) obtain p where p: "map_of (styles ctx) i = Some p"
      by (auto split: option.splits)
    obtain m rs1 where mp: "merge_properties (fst st) p = (m, rs1)"
      by (cases "merge_properties (fst st) p")
    from Cons.prems(1) False p mp obtain rs2 where
      c: "compute m (Some (snd st)) (cell_resolution (document ctx)) rs1 = Inr rs2"
      and step: "resolve_ids ctx xs (rs2, font_size rs2) = Inr st'"
      by (auto simp: Let_def bind_Inr_iff)
    have d: "declared_font_size ctx i = sp_font_size p"
      using p by (simp add: declared_font_size_def)
    have rest: "0 \<notin> set (List.map_filter (declared_font_size ctx) (filter (\<lambda>i. i \<noteq> []) xs))"
      using Cons.prems(3) False by (auto simp: List.map_filter_simps split: option.splits)
    have ih: "font_size (fst st')
           = prod_list (List.map_filter (declared_font_size ctx) (filter (\<lambda>i. i \<noteq> []) xs))
               * font_size rs2"
      using Cons.IH [OF step _ rest] by simp
    show ?thesis
    proof (cases "sp_font_size p")
      case None
      have "font_size rs2 = font_size (fst st)"
        using compute_font_size [OF c] msk_font_bit [of "fst st" p]
          merge_font_size [of "fst st" p] mp None
        by (simp add: get_truthy_def assign_def)
      with ih d None False show ?thesis by (simp add: List.map_filter_simps)
    next
      case (Some f)
      with Cons.prems(3) False d have f: "f \<noteq> 0"
        by (auto simp: List.map_filter_simps)
      have "font_size rs2 = f * font_size (fst st)"
        using compute_font_size [OF c] msk_font_bit [of "fst st" p]
          merge_font_size [of "fst st" p] mp Some f Cons.prems(2)
        by (simp add: get_truthy_def assign_def)
      with ih d Some False show ?thesis by (simp add: List.map_filter_simps)
    qed
  qed
qed

lemma resolve_ids_colors:
  assumes "resolve_ids ctx xs st = Inr st'"
  shows "color (fst st')
           = last (color (fst st)
                   # List.map_filter (declared_color ctx) (filter (\<lambda>i. i \<noteq> []) xs))"
  using assms
proof (induction xs arbitrary: st)
  case Nil
  then show ?case by (simp add: List.map_filter_simps)
next
  case (Cons i xs)
  show ?case
  proof (cases "i = []")
    case True
    with Cons show ?thesis by simp
  next
    case False
    with Cons.prems(1) obtain p where p: "map_of (styles ctx) i = Some p"
      by (auto split: option.splits)
    obtain m rs1 where mp: "merge_properties (fst st) p = (m, rs1)"
      by (cases "merge_properties (fst st) p")
    from Cons.prems(1) False p mp obtain rs2 where
      c: "compute m (Some (snd st)) (cell_resolution (document ctx)) rs1 = Inr rs2"
      and step: "resolve_ids ctx xs (rs2, font_size rs2) = Inr st'"
      by (auto simp: Let_def bind_Inr_iff)
    have d: "declared_color ctx i = sp_color p"
      using p by (simp add: declared_color_def)
    have "color rs2 = assign (sp_color p) (color (fst st))"
      using compute_keeps(3) [OF c] merge_color [of "fst st" p] mp by simp
    with Cons.IH [OF step] d False show ?thesis
      by (simp add: List.map_filter_simps assign_def split: option.splits)
  qed
qed

lemma scope_font_sizes_compound_aux:
  assumes "resolve_style (stack @ [v]) ctx = Inr r"
  shows "\<exists>prev. resolve_style stack ctx = Inr prev
       \<and> (0 \<notin> set (scope_font_sizes ctx v) \<longrightarrow>
            font_size r = prod_list (scope_font_sizes ctx v) * font_size prev)
       \<and> color r = last (color prev # scope_colors ctx v)"
proof -
  from assms obtain r0 st where
    r0: "resolve_style stack ctx = Inr r0"
    and st: "resolve_ids ctx (split_on (CHR '' '') v)
               (if stack \<noteq> [] then inherited r0 else r0, font_size r0) = Inr st"
    and r: "r = fst st"
    by (auto simp: resolve_style_snoc bind_Inr_iff)
  have "font_size r = prod_list (scope_font_sizes ctx v) * font_size r0"
    if "0 \<notin> set (scope_font_sizes ctx v)"
    using resolve_ids_font_sizes [OF st] that r
    by (simp add: scope_font_sizes_def scope_ids_def inherited_def)
  moreover have "color r = last (color r0 # scope_colors ctx v)"
    using resolve_ids_colors [OF st] r
    by (simp add: scope_colors_def scope_ids_def inherited_def)
  ultimately show ?thesis using r0 by blast
qed

subsection \<open>The index of the region of a paragraph\<close>

lemma update_fresh: "k \<notin> fst ` set al \<Longrightarrow> AList.update k v al = al @ [(k, v)]"
  by (induction al) auto

lemma frame_regions: "frame ctx ctx' \<Longrightarrow> ctx_regions ctx' = ctx_regions ctx"
  by (cases ctx, cases ctx') (simp add: frame_def)

lemma frame_document: "frame ctx ctx' \<Longrightarrow> document ctx' = document ctx"
  by (cases ctx, cases ctx') (simp add: frame_def)

lemma region_table_init: "regions d = [] \<Longrightarrow> region_table (Context_init d) []"
  by (simp add: region_table_def Context_init_def)

lemma parse_id_elem_ids: "parse_id e True = Inr i \<Longrightarrow> elem_ids e = [i]"
  by (auto simp: parse_id_def elem_ids_def Let_def split: option.splits if_splits)

lemma parse_region_table:
  assumes "parse_region e ctx = Inr ctx'" and "region_table ctx rs"
  shows "region_table ctx' (rs @ [e])"
proof -
  from assms(1) have "\<exists>i ctx1 sty reg. parse_id e True = Inr i \<and> add_id i ctx = Inr ctx1
      \<and> ctx' = ctx1\<lparr>ctx_regions :=
                      AList.update i (int (length (regions (document ctx1))), sty)
                        (ctx_regions ctx1),
                    document := (document ctx1)\<lparr>regions := regions (document ctx1) @ [reg]\<rparr>\<rparr>"
    by (auto simp: parse_region_def bind_Inr_iff split: if_splits)
  then obtain i ctx1 sty reg where
    i: "parse_id e True = Inr i" and a: "add_id i ctx = Inr ctx1"
    and c: "ctx' = ctx1\<lparr>ctx_regions :=
                      AList.update i (int (length (regions (document ctx1))), sty)
                        (ctx_regions ctx1),
                    document := (document ctx1)\<lparr>regions := regions (document ctx1) @ [reg]\<rparr>\<rparr>"
    by blast
  from a have fresh: "i \<notin> ids ctx" and c1: "ctx1 = ctx\<lparr>ids := insert i (ids ctx)\<rparr>"
    by (auto simp: add_id_def split: if_splits)
  from fresh assms(2) have "i \<notin> fst ` set (ctx_regions ctx)"
    by (auto simp: region_table_def)
  then have u: "AList.update i v (ctx_regions ctx) = ctx_regions ctx @ [(i, v)]" for v
    by (rule update_fresh)
  from assms(2) have len: "length (ctx_regions ctx) = length rs"
    by (auto simp: region_table_def dest: map_eq_imp_length_eq)
  show ?thesis
    using assms(2) parse_id_elem_ids [OF i] len
    by (auto simp: region_table_def c c1 u)
qed

lemma parse_regions_loop_table:
  "parse_regions_loop es ctx = Inr ctx' \<Longrightarrow> region_table ctx rs
     \<Longrightarrow> region_table ctx' (rs @ filter (\<lambda>e. tag e = REGION_ELEM) es)"
proof (induction es arbitrary: ctx rs)
  case Nil
  then show ?case by simp
next
  case (Cons e es)
  show ?case
  proof (cases "tag e = REGION_ELEM")
    case False
    with Cons show ?thesis by simp
  next
    case True
    with Cons.prems(1) obtain ctx1 where
      a: "parse_region e ctx = Inr ctx1" and b: "parse_regions_loop es ctx1 = Inr ctx'"
      by (auto simp: bind_Inr_iff)
    from Cons.IH [OF b parse_region_table [OF a Cons.prems(2)]] True show ?thesis by simp
  qed
qed

lemma parse_style_table:
  assumes "parse_style e ctx = Inr ctx'" and "region_table ctx rs"
  shows "region_table ctx' rs"
proof -
  from assms(1) obtain X S where "ctx' = ctx\<lparr>ids := insert X (ids ctx), styles := S\<rparr>"
    by (auto simp: parse_style_def bind_Inr_iff dest!: add_id_frame)
  with assms(2) show ?thesis by (simp add: region_table_def)
qed

lemma parse_styles_loop_table:
  "parse_styles_loop es ctx = Inr ctx' \<Longrightarrow> region_table ctx rs \<Longrightarrow> region_table ctx' rs"
proof (induction es arbitrary: ctx)
  case Nil
  then show ?case by simp
next
  case (Cons e es)
  then show ?case
    by (cases "tag e = STYLE_ELEM") (auto simp: bind_Inr_iff dest: parse_style_table)
qed


lemma parse_head_loop_table:
  "parse_head_loop es sc lc ctx = Inr (sc', lc', ctx') \<Longrightarrow> region_table ctx rs
     \<Longrightarrow> region_table ctx'
           (rs @ concat (map (\<lambda>l. find_children l REGION_ELEM)
                           (filter (\<lambda>e. tag e = LAYOUT_ELEM) es)))"
proof (induction es arbitrary: sc lc ctx rs)
  case Nil
  then show ?case by simp
next
  case (Cons e es)
  consider (styling) "tag e = STYLING_ELEM" | (layout) "tag e = LAYOUT_ELEM" "tag e \<noteq> STYLING_ELEM"
    | (other) "tag e \<noteq> STYLING_ELEM" "tag e \<noteq> LAYOUT_ELEM"
    by blast
  then show ?case
  proof cases
    case styling
    then have nl: "tag e \<noteq> LAYOUT_ELEM" by (simp add: STYLING_ELEM_def LAYOUT_ELEM_def)
    from styling Cons.prems(1) obtain ctx1 where
      a: "parse_styles e ctx = Inr ctx1"
      and b: "parse_head_loop es (sc + 1) lc ctx1 = Inr (sc', lc', ctx')"
      by (auto simp: bind_Inr_iff split: if_splits)
    from parse_styles_loop_table [OF a [unfolded parse_styles_def] Cons.prems(2)]
    have "region_table ctx1 rs" .
    from Cons.IH [OF b this] nl show ?thesis by simp
  next
    case layout
    with Cons.prems(1) obtain ctx1 where
      a: "parse_regions e ctx = Inr ctx1"
      and b: "parse_head_loop es sc (lc + 1) ctx1 = Inr (sc', lc', ctx')"
      by (auto simp: bind_Inr_iff split: if_splits)
    from parse_regions_loop_table [OF a [unfolded parse_regions_def] Cons.prems(2)]
    have "region_table ctx1 (rs @ find_children e REGION_ELEM)"
      by (simp add: find_children_def)
    from Cons.IH [OF b this] layout show ?thesis by simp
  next
    case other
    with Cons.prems(1) have "parse_head_loop es sc lc ctx = Inr (sc', lc', ctx')" by simp
    from Cons.IH [OF this Cons.prems(2)] other show ?thesis by simp
  qed
qed

lemma parse_head_table:
  assumes "parse_head root_elem (Context_init d) = Inr ctx" and "regions d = []"
  shows "region_table ctx (region_elems root_elem)"
proof -
  from assms(1) have "length (find_children root_elem HEAD_ELEM) = 1"
    by (cases "find_children root_elem HEAD_ELEM")
       (auto simp: parse_head_def Let_def split: if_splits)
  then obtain h where h: "find_children root_elem HEAD_ELEM = [h]"
    by (cases "find_children root_elem HEAD_ELEM") auto
  from assms(1) obtain sc lc where
    "parse_head_loop (children h) 0 0 (Context_init d) = Inr (sc, lc, ctx)"
    by (auto simp: parse_head_def h bind_Inr_iff Let_def split: if_splits)
  from parse_head_loop_table [OF this region_table_init [OF assms(2)]]
  show ?thesis
    unfolding region_elems_def h by (simp add: find_children_def)
qed

text \<open>An entry of the table is the position of the \<^verbatim>\<open>region\<close> element with its key.\<close>

lemma region_table_lookup:
  assumes "region_table ctx rs" and "map_of (ctx_regions ctx) k = Some (i, s)"
  shows "0 \<le> i \<and> nat i < length rs \<and> elem_ids (rs ! nat i) = [k]"
proof -
  from assms(2) have "(k, (i, s)) \<in> set (ctx_regions ctx)" by (rule map_of_SomeD)
  then obtain n where n: "n < length (ctx_regions ctx)" and e: "ctx_regions ctx ! n = (k, (i, s))"
    by (auto simp: in_set_conv_nth)
  from assms(1) have
    m1: "map elem_ids rs = map (\<lambda>entry. [fst entry]) (ctx_regions ctx)"
    and m2: "map (\<lambda>entry. fst (snd entry)) (ctx_regions ctx) = map int [0..<length rs]"
    by (simp_all add: region_table_def)
  from m1 have len: "length rs = length (ctx_regions ctx)"
    by (rule map_eq_imp_length_eq)
  from m2 n len have "map (\<lambda>entry. fst (snd entry)) (ctx_regions ctx) ! n = map int [0..<length rs] ! n"
    by simp
  with n len e have i: "i = int n" by simp
  from m1 have "map elem_ids rs ! n = map (\<lambda>entry. [fst entry]) (ctx_regions ctx) ! n" by simp
  with n len e have "elem_ids (rs ! n) = [k]" by simp
  with i n len show ?thesis by simp
qed

lemma resolves_in_frame: "frame ctx ctx' \<Longrightarrow> resolves_in ctx' e i = resolves_in ctx e i"
  by (simp add: resolves_in_def frame_regions)

text \<open>
  A paragraph that is returned and has its own reference was handed \<open>-1\<close> and carries
  the index of the table; one without a reference carries the index it was handed.
\<close>

lemma parse_one_para_index:
  assumes "parse_one_para e stack p ctx = Inr (ctx', q)" and "region_indices_ok ctx"
  shows "if has_region_ref e then p = - 1 \<and> resolves_in ctx e (para_region_index q)
         else p \<noteq> - 1 \<and> para_region_index q = p"
proof -
  from parse_one_para_region [OF assms(1)] obtain s where
    r: "para_region e p ctx = Inr (para_region_index q, s)" by blast
  show ?thesis
  proof (cases "has_region_ref e")
    case False
    with r para_region_none [OF False, of p ctx] show ?thesis by (auto split: if_splits)
  next
    case True
    from parse_one_para_exactly_one [OF assms] True have p: "p = - 1" by simp
    from r True obtain pair where
      m: "map_of (ctx_regions ctx) (strip (elem_get_default e ''region'')) = Some pair"
      by (auto simp: para_region_def region_ref_def has_region_ref_def Let_def bind_Inr_iff
          split: option.splits)
    obtain i s' where pair: "pair = (i, s')" by (cases pair)
    from para_region_own [OF assms(2) True m [unfolded pair]] r p
    have "para_region_index q = i" by simp
    with m pair p True show ?thesis by (simp add: resolves_in_def)
  qed
qed

lemma parse_para_loop_index:
  "parse_para_loop es stack p ctx = Inr (ctx', ps) \<Longrightarrow> region_indices_ok ctx \<Longrightarrow>
     list_all2 (\<lambda>e q. if has_region_ref e then p = - 1 \<and> resolves_in ctx e (para_region_index q)
                      else p \<noteq> - 1 \<and> para_region_index q = p)
       (filter (\<lambda>e. tag e = P_ELEM) es) ps"
proof (induction es arbitrary: ctx ps)
  case Nil
  then show ?case by simp
next
  case (Cons e es)
  show ?case
  proof (cases "tag e = P_ELEM")
    case False
    with Cons show ?thesis by simp
  next
    case True
    with Cons.prems(1) obtain ctx1 q rest where
      a: "parse_one_para e stack p ctx = Inr (ctx1, q)"
      and b: "parse_para_loop es stack p ctx1 = Inr (ctx', rest)"
      and ps: "ps = q # rest"
      by (auto simp: bind_Inr_iff)
    have f: "frame ctx ctx1" by (rule parse_one_para_frame [OF a])
    have eq: "resolves_in ctx1 = resolves_in ctx"
      by (intro ext) (rule resolves_in_frame [OF f])
    from Cons.IH [OF b frame_ok [OF f Cons.prems(2)]]
    have "list_all2 (\<lambda>e q. if has_region_ref e
                              then p = - 1 \<and> resolves_in ctx e (para_region_index q)
                              else p \<noteq> - 1 \<and> para_region_index q = p)
            (filter (\<lambda>e. tag e = P_ELEM) es) rest"
      unfolding eq .
    with parse_one_para_index [OF a Cons.prems(2)] True ps show ?thesis by simp
  qed
qed

text \<open>
  The paragraphs of a division that is returned carry the index of the region that the
  paragraph references, or else of the region that the division references.
\<close>

lemma parse_one_div_index:
  assumes "parse_one_div dv stack ctx = Inr (ctx', dd)" and "region_indices_ok ctx"
  shows "list_all2 (\<lambda>p q. resolves_in ctx (region_source dv p) (para_region_index q))
           (find_children dv P_ELEM) (div_paragraphs dd)"
proof -
  from assms(1) obtain i ctx1 ri rs stack1 ps where
    a: "parse_optional_id dv ctx = Inr (i, ctx1)"
    and r: "region_ref dv ctx1 = Inr (ri, rs)"
    and c: "parse_para dv stack1 ri ctx1 = Inr (ctx', ps)"
    and d: "div_paragraphs dd = ps"
    by (auto simp: parse_one_div_def bind_Inr_iff Let_def)
  have f: "frame ctx ctx1" by (rule parse_optional_id_frame [OF a])
  have ok1: "region_indices_ok ctx1" by (rule frame_ok [OF f assms(2)])
  have eq: "resolves_in ctx1 = resolves_in ctx"
    by (intro ext) (rule resolves_in_frame [OF f])
  from c have "parse_para_loop (children dv) stack1 ri ctx1 = Inr (ctx', ps)"
    by (auto simp: parse_para_def bind_Inr_iff split: if_splits)
  from parse_para_loop_index [OF this ok1]
  have l: "list_all2 (\<lambda>e q. if has_region_ref e
                              then ri = - 1 \<and> resolves_in ctx e (para_region_index q)
                              else ri \<noteq> - 1 \<and> para_region_index q = ri)
            (find_children dv P_ELEM) ps"
    unfolding eq find_children_def .
  have dvr: "resolves_in ctx dv ri" if "ri \<noteq> - 1"
    using r that
    by (auto simp: region_ref_def resolves_in_def frame_regions [OF f] Let_def
        split: if_splits option.splits)
  from l show ?thesis
    unfolding d
    by (rule list_all2_mono) (auto simp: region_source_def dvr split: if_splits)
qed

lemma parse_div_loop_index:
  "parse_div_loop es stack ctx = Inr (ctx', ds) \<Longrightarrow> region_indices_ok ctx \<Longrightarrow>
     list_all2 (\<lambda>dv dd.
        list_all2 (\<lambda>p q. resolves_in ctx (region_source dv p) (para_region_index q))
          (find_children dv P_ELEM) (div_paragraphs dd))
       (filter (\<lambda>e. tag e = DIV_ELEM) es) ds
     \<and> frame ctx ctx'"
proof (induction es arbitrary: ctx ds)
  case Nil
  then show ?case by simp
next
  case (Cons e es)
  show ?case
  proof (cases "tag e = DIV_ELEM")
    case False
    with Cons show ?thesis by simp
  next
    case True
    with Cons.prems(1) obtain ctx1 q rest where
      a: "parse_one_div e stack ctx = Inr (ctx1, q)"
      and b: "parse_div_loop es stack ctx1 = Inr (ctx', rest)"
      and ds: "ds = q # rest"
      by (auto simp: bind_Inr_iff)
    from parse_one_div_exactly_one [OF a Cons.prems(2)] have f: "frame ctx ctx1" by simp
    have eq: "resolves_in ctx1 = resolves_in ctx"
      by (intro ext) (rule resolves_in_frame [OF f])
    from Cons.IH [OF b frame_ok [OF f Cons.prems(2)]]
    have "list_all2 (\<lambda>dv dd.
        list_all2 (\<lambda>p q. resolves_in ctx (region_source dv p) (para_region_index q))
          (find_children dv P_ELEM) (div_paragraphs dd))
       (filter (\<lambda>e. tag e = DIV_ELEM) es) rest" and f2: "frame ctx1 ctx'"
      unfolding eq by simp_all
    with parse_one_div_index [OF a Cons.prems(2)] True ds frame_trans [OF f f2]
    show ?thesis by simp
  qed
qed

text \<open>The head starts from a document without regions.\<close>

lemma parse_Inr_parts:
  assumes "parse root_elem = Inr d"
  shows "\<exists>doc ctx1 ctx2 b. regions doc = []
           \<and> parse_head root_elem (Context_init doc) = Inr ctx1
           \<and> parse_body root_elem ctx1 = Inr (ctx2, b)
           \<and> d = (document ctx2)\<lparr>body := b\<rparr>"
proof -
  from assms have tt: "tag root_elem = TT_ELEM"
    by (auto simp: parse_def split: if_splits)
  from assms tt obtain d1 d2 d3 d4 ctx1 ctx2 b where
    s1: "(case get_nonempty root_elem ACTIVE_AREA_ATTR of
            Some v \<Rightarrow> bind (ActiveArea_parse v) (\<lambda>a. Inr (Document_default\<lparr>active_area := a\<rparr>))
          | None \<Rightarrow> Inr Document_default) = Inr d1"
    and s2: "(case get_nonempty root_elem CELL_RESOLUTION_ATTR of
            Some v \<Rightarrow> bind (CellResolution_parse v) (\<lambda>c. Inr (d1\<lparr>cell_resolution := c\<rparr>))
          | None \<Rightarrow> Inr d1) = Inr d2"
    and s3: "(case elem_get root_elem LANG_ATTR of
            Some v \<Rightarrow> Inr (d2\<lparr>doc_language := strip v\<rparr>)
          | None \<Rightarrow> Inl (ParseError ''Missing attribute `lang`'')) = Inr d3"
    and s4: "(case get_nonempty root_elem SPACE_ATTR of
            Some v \<Rightarrow> bind (Space_parse v) (\<lambda>s. Inr (d3\<lparr>doc_space := s\<rparr>))
          | None \<Rightarrow> Inr d3) = Inr d4"
    and h: "parse_head root_elem (Context_init d4) = Inr ctx1"
    and b: "parse_body root_elem ctx1 = Inr (ctx2, b)"
    and d: "d = (document ctx2)\<lparr>body := b\<rparr>"
    by (auto simp: parse_def bind_Inr_iff)
  from s1 have "regions d1 = []"
    by (auto simp: bind_Inr_iff Document_default_def split: option.splits)
  with s2 have "regions d2 = []"
    by (auto simp: bind_Inr_iff split: option.splits)
  with s3 have "regions d3 = []"
    by (auto simp: bind_Inr_iff split: option.splits)
  with s4 have "regions d4 = []"
    by (auto simp: bind_Inr_iff split: option.splits)
  with h b d show ?thesis by blast
qed

lemma parse_regions_resolved:
  assumes "parse root_elem = Inr d"
  shows "paragraph_regions_resolved root_elem d"
proof -
  from parse_Inr_parts [OF assms] obtain doc ctx1 ctx2 b where
    r0: "regions doc = []"
    and a: "parse_head root_elem (Context_init doc) = Inr ctx1"
    and b: "parse_body root_elem ctx1 = Inr (ctx2, b)"
    and d: "d = (document ctx2)\<lparr>body := b\<rparr>"
    by blast
  have ok: "region_indices_ok ctx1" by (rule parse_head_regions_ok [OF a])
  have tbl: "region_table ctx1 (region_elems root_elem)"
    by (rule parse_head_table [OF a r0])
  from b have "length (find_children root_elem BODY_ELEM) = 1"
    by (cases "find_children root_elem BODY_ELEM")
       (auto simp: parse_body_def Let_def split: if_splits)
  then obtain be where be: "find_children root_elem BODY_ELEM = [be]"
    by (cases "find_children root_elem BODY_ELEM") auto
  from b obtain stack ds where dv: "parse_div be stack ctx1 = Inr (ctx2, ds)"
    and bd: "body_divs b = ds"
    by (auto simp: parse_body_def be bind_Inr_iff Let_def)
  then have "parse_div_loop (children be) stack ctx1 = Inr (ctx2, ds)"
    by (auto simp: parse_div_def bind_Inr_iff split: if_splits)
  from parse_div_loop_index [OF this ok]
  have l: "list_all2 (\<lambda>dv dd.
        list_all2 (\<lambda>p q. resolves_in ctx1 (region_source dv p) (para_region_index q))
          (find_children dv P_ELEM) (div_paragraphs dd))
       (div_elems root_elem) ds" and f: "frame ctx1 ctx2"
    unfolding div_elems_def be by (simp_all add: find_children_def)
  have step: "region_index_in root_elem e i" if "resolves_in ctx1 e i" for e i
  proof -
    from that obtain s where
      "map_of (ctx_regions ctx1) (strip (elem_get_default e ''region'')) = Some (i, s)"
      by (auto simp: resolves_in_def split: option.splits)
    from region_table_lookup [OF tbl this] show ?thesis
      by (simp add: region_index_in_def)
  qed
  have "list_all2 (\<lambda>dv dd.
        list_all2 (\<lambda>p q. region_index_in root_elem (region_source dv p) (para_region_index q))
          (find_children dv P_ELEM) (div_paragraphs dd))
       (div_elems root_elem) ds"
    by (rule list_all2_mono [OF l]) (erule list_all2_mono, rule step)
  moreover have "length (regions d) = length (region_elems root_elem)"
    using tbl by (simp add: d region_table_def frame_document [OF f])
  ultimately show ?thesis
    by (simp add: paragraph_regions_resolved_def d bd)
qed

lemma two_regions_parse:
  "\<exists>d. parse two_regions_doc = Inr d \<and> para_region_indices d = [[1], [0, 1]]"
  by (simp add: parse_def two_regions_doc_def el_def elem_names walker_defs get_truthy_def
      strip_def py_isspace_def Context_init_def FontSize_50 Origin_10 Extent_80
      is_digit_def nat_of_digits_def resolver_eval_defs para_region_indices_def)

lemma div_r2_parse:
  "\<exists>ctx' dd. parse_one_div div_r2 [] c6_ctx = Inr (ctx', dd)"
  by (simp add: div_r2_def p_none_def el_def c6_ctx_def ctx_after_head_def elem_names
      walker_defs get_truthy_def strip_def py_isspace_def is_digit_def nat_of_digits_def
      resolver_eval_defs)

subsection \<open>Colour channels out of range\<close>

lemma Color_parse_accepts_iff:
  assumes "strip u = CHR ''#'' # v" and "length v = 6 \<or> length v = 8"
  shows "(\<exists>c. Color_parse u = Inr c) = list_all channel_in_range (channel_slices v)"
  using assms
  by (auto simp: Color_parse_def Let_def bind_Inr_iff int16_def channel_slices_def
      channel_in_range_def Color_is_valid_def split: option.splits if_splits)

lemma Color_parse_out_of_range:
  assumes "strip u = CHR ''#'' # v" and "length v = 6 \<or> length v = 8"
    and "list_all channel_is_int (channel_slices v)"
    and "\<not> list_all channel_in_range (channel_slices v)"
  shows "Color_parse u = Inl (ValueError u)"
  using assms
  by (auto simp: Color_parse_def Let_def int16_def channel_slices_def channel_is_int_def
      channel_in_range_def Color_is_valid_def split: option.splits if_splits)

lemma Color_parse_no_hash:
  "strip u = [] \<or> hd (strip u) \<noteq> CHR ''#'' \<Longrightarrow> Color_parse u = Inl (ValueError u)"
  by (auto simp: Color_parse_def Let_def)

text \<open>A sign before a hexadecimal digit other than zero is a negative channel.\<close>

lemma py_int16_negative:
  assumes "hexdigit c"
  shows "py_int 16 [CHR ''-'', c] = Some (- int (hex_value c))"
  using hexdigit_facts [OF assms] hexdigit_value [OF assms]
  by (simp add: py_int_def num_strip_def num_isspace_def)

lemmas channel_eval =
  channel_slices_def channel_in_range_def channel_is_int_def py_int_def num_strip_def
  num_isspace_def digit_value_def strip_def py_isspace_def hexdigit_def hex2_def hex_value_def

subsection \<open>Claims\<close>

text \<open>
  Claim C1, as the code has it. Whenever a scope \<open>v\<close> on top of the scopes \<open>stack\<close>
  resolves, the scopes below it resolve, and the font size resolved for \<open>v\<close> is the
  product of the font sizes that the identifiers of its reference string declare, in
  their order, times the font size resolved for the previous scope. So an identifier
  that declares no font size leaves the size as it is (the unit computation runs for the
  properties that the identifier touches only), one declaration anywhere in the string
  gives that fraction of the previous scope's size, and several declarations multiply:
  the basis of each is the running size, which is the previous scope's size for the
  first of them only. On a key without a basis, the colour, the last declaration of the
  scope wins, and the colour of the previous scope stays when there is none. (A declared
  font size of zero is left out: the merge does not assign it.)
\<close>

theorem same_scope_font_sizes_compound:
  assumes "resolve_style (stack @ [v]) ctx = Inr r"
  shows "\<exists>prev. resolve_style stack ctx = Inr prev
       \<and> (0 \<notin> set (scope_font_sizes ctx v) \<longrightarrow>
            font_size r = prod_list (scope_font_sizes ctx v) * font_size prev)
       \<and> color r = last (color prev # scope_colors ctx v)"
  using assms by (rule scope_font_sizes_compound_aux)

theorem same_scope_font_sizes_compound_witness:
  "scope_font_sizes c1_ctx ''a n'' = [1 / 2]
   \<and> scope_font_sizes c1_ctx ''a n b'' = [1 / 2, 1 / 2]
   \<and> scope_colors c1_ctx ''a n b'' = [black]
   \<and> (\<exists>prev r1 r2. resolve_style [''a''] c1_ctx = Inr prev
        \<and> resolve_style ([''a''] @ [''a n'']) c1_ctx = Inr r1
        \<and> resolve_style ([''a''] @ [''a n b'']) c1_ctx = Inr r2
        \<and> font_size prev = 1 / 30 \<and> color prev = white
        \<and> font_size r1 = 1 / 2 * font_size prev \<and> font_size r1 = 1 / 60
        \<and> font_size r2 = 1 / 2 * (1 / 2) * font_size prev \<and> font_size r2 = 1 / 120
        \<and> color r2 = black)"
proof -
  have ids: "scope_ids ''a n'' = [''a'', ''n'']" "scope_ids ''a n b'' = [''a'', ''n'', ''b'']"
    by (simp_all add: scope_ids_def Let_def)
  have s1: "scope_font_sizes c1_ctx ''a n'' = [1 / 2]"
    and s2: "scope_font_sizes c1_ctx ''a n b'' = [1 / 2, 1 / 2]"
    and c2: "scope_colors c1_ctx ''a n b'' = [black]"
    by (simp_all add: scope_font_sizes_def scope_colors_def ids List.map_filter_simps
        declared_font_size_def declared_color_def c1_ctx_def sty_half_def sty_color_def
        StyleProperties_empty_def)
  have p: "\<exists>prev. resolve_style [''a''] c1_ctx = Inr prev \<and> font_size prev = 1 / 30
      \<and> color prev = white"
    by (simp add: c1_ctx_def sty_half_def sty_color_def resolver_eval_defs white_def)
  then obtain prev where
    prev: "resolve_style [''a''] c1_ctx = Inr prev" and fp: "font_size prev = 1 / 30"
    and cp: "color prev = white" by blast
  have "\<exists>r1. resolve_style ([''a''] @ [''a n'']) c1_ctx = Inr r1"
    by (simp add: c1_ctx_def sty_half_def sty_color_def resolver_eval_defs)
  then obtain r1 where r1: "resolve_style ([''a''] @ [''a n'']) c1_ctx = Inr r1" by blast
  have "\<exists>r2. resolve_style ([''a''] @ [''a n b'']) c1_ctx = Inr r2"
    by (simp add: c1_ctx_def sty_half_def sty_color_def resolver_eval_defs)
  then obtain r2 where r2: "resolve_style ([''a''] @ [''a n b'']) c1_ctx = Inr r2" by blast
  from same_scope_font_sizes_compound [OF r1] prev s1
  have f1: "font_size r1 = 1 / 2 * font_size prev" by simp
  from same_scope_font_sizes_compound [OF r2] prev s2 c2
  have f2: "font_size r2 = 1 / 2 * (1 / 2) * font_size prev" and k2: "color r2 = black"
    by simp_all
  from s1 s2 c2 prev r1 r2 fp cp f1 f2 k2 show ?thesis by simp
qed

text \<open>
  Claim C1 as the spec states it fails. The stack has the scopes \<^verbatim>\<open>a\<close> and \<^verbatim>\<open>a b\<close>,
  both styles declare 50 percent. The previous scope resolves to 1/30; the last font
  size declared in the second scope is 1/2, and the scope resolves to 1/120, not to
  1/2 of 1/30.
\<close>

theorem last_font_size_times_previous_scope_counterexample:
  "map_sum id font_size (resolve_style [''a''] c1_ctx) = Inr (1 / 30)
   \<and> map_sum id font_size (resolve_style [''a'', ''a b''] c1_ctx) = Inr (1 / 120)
   \<and> (1 / 120 :: real) \<noteq> (1 / 2) * (1 / 30)"
  by (simp add: c1_ctx_def sty_half_def sty_color_def resolver_eval_defs)

text \<open>
  Claim C3. In a stack of at least two scopes whose innermost scope \<open>v\<close> names no style
  that declares a background colour or a bidi mode, the resolved background colour is
  transparent and the bidi mode is normal, whatever the outer scopes set; and when \<open>v\<close>
  declares no foreground colour either, the resolved colour is the one resolved for the
  outer scopes.
\<close>

theorem non_inheriting_reset:
  assumes "stack \<noteq> []"
    and "resolve_style (stack @ [v]) ctx = Inr r"
    and "declares_no_reset_property ctx v"
  shows "background_color r = transparent \<and> unicode_bidi r = UnicodeBidi_NORMAL
       \<and> (declares_no_color ctx v \<longrightarrow>
            (\<exists>outer. resolve_style stack ctx = Inr outer \<and> color r = color outer))"
proof -
  from assms(1,2) obtain r0 st where
    r0: "resolve_style stack ctx = Inr r0"
    and st: "resolve_ids ctx (split_on (CHR '' '') v) (inherited r0, font_size r0) = Inr st"
    and r: "r = fst st"
    by (auto simp: resolve_style_snoc bind_Inr_iff)
  have bg: "background_color (fst st) = background_color (fst (inherited r0, font_size r0))"
    using assms(3)
    by (intro resolve_ids_field [OF st, where keep = "\<lambda>p. sp_background_color p = None"])
       (simp_all add: merge_background_color compute_keeps assign_def
          declares_no_reset_property_def scope_ids_def)
  have bidi: "unicode_bidi (fst st) = unicode_bidi (fst (inherited r0, font_size r0))"
    using assms(3)
    by (intro resolve_ids_field [OF st, where keep = "\<lambda>p. sp_unicode_bidi p = None"])
       (simp_all add: merge_unicode_bidi compute_keeps assign_def
          declares_no_reset_property_def scope_ids_def)
  have col: "color (fst st) = color (fst (inherited r0, font_size r0))"
    if "declares_no_color ctx v"
    using that
    by (intro resolve_ids_field [OF st, where keep = "\<lambda>p. sp_color p = None"])
       (simp_all add: merge_color compute_keeps assign_def declares_no_color_def scope_ids_def)
  from bg bidi col r0 r show ?thesis by (simp add: inherited_def)
qed

theorem non_inheriting_reset_witness:
  "[''o''] \<noteq> [] \<and> declares_no_reset_property c3_ctx ''n'' \<and> declares_no_color c3_ctx ''n''
   \<and> map_sum id background_color (resolve_style [''o''] c3_ctx) = Inr black
   \<and> map_sum id unicode_bidi (resolve_style [''o''] c3_ctx) = Inr UnicodeBidi_EMBED
   \<and> (\<exists>r. resolve_style ([''o''] @ [''n'']) c3_ctx = Inr r
        \<and> background_color r = transparent \<and> unicode_bidi r = UnicodeBidi_NORMAL
        \<and> (\<exists>outer. resolve_style [''o''] c3_ctx = Inr outer \<and> color r = color outer
              \<and> color outer = black))"
proof -
  have h3: "declares_no_reset_property c3_ctx ''n''"
    by (simp add: declares_no_reset_property_def scope_ids_def c3_ctx_def sty_half_def
        StyleProperties_empty_def)
  have h4: "declares_no_color c3_ctx ''n''"
    by (simp add: declares_no_color_def scope_ids_def c3_ctx_def sty_half_def
        StyleProperties_empty_def)
  have outer: "map_sum id background_color (resolve_style [''o''] c3_ctx) = Inr black
     \<and> map_sum id unicode_bidi (resolve_style [''o''] c3_ctx) = Inr UnicodeBidi_EMBED
     \<and> map_sum id color (resolve_style [''o''] c3_ctx) = Inr black"
    by (simp add: c3_ctx_def sty_half_def sty_outer_def resolver_eval_defs)
  obtain r where h2: "resolve_style ([''o''] @ [''n'']) c3_ctx = Inr r"
    by (simp add: c3_ctx_def sty_half_def sty_outer_def resolver_eval_defs)
  have "background_color r = transparent \<and> unicode_bidi r = UnicodeBidi_NORMAL
       \<and> (declares_no_color c3_ctx ''n'' \<longrightarrow>
            (\<exists>outer. resolve_style [''o''] c3_ctx = Inr outer \<and> color r = color outer))"
    by (rule non_inheriting_reset [OF _ h2 h3]) simp
  with h3 h4 h2 outer show ?thesis by auto
qed

text \<open>
  Claim C4 fails on the code. The accumulator has \<^verbatim>\<open>fill_line_gap\<close> true and the merged
  declaration holds the key \<^verbatim>\<open>fill_line_gap\<close> with the value false: the field stays
  true. The same happens to a declared font size or line padding of zero and to an
  empty font family list, none of which is assigned. In a document, the paragraph whose
  style declares \<^verbatim>\<open>fillLineGap\<close> false inside a division whose style declares it
  true is returned with the flag true.
\<close>

theorem merge_properties_skips_falsy_values:
  "fill_line_gap (snd (merge_properties rs_gap
      (StyleProperties_empty\<lparr>sp_fill_line_gap := Some False\<rparr>))) = True
   \<and> font_size (snd (merge_properties rs_gap
      (StyleProperties_empty\<lparr>sp_font_size := Some 0\<rparr>))) = 1
   \<and> fst (merge_properties rs_gap (StyleProperties_empty\<lparr>sp_font_size := Some 0\<rparr>)) = 0
   \<and> font_family (snd (merge_properties rs_gap
      (StyleProperties_empty\<lparr>sp_font_family := Some []\<rparr>))) = [''default'']
   \<and> map_sum id para_fill_line_gaps (parse fill_gap_doc) = Inr [True]"
  by (simp add: rs_gap_def merge_properties_def StyleProperties_empty_def
      ResolvedStyle_default_def get_truthy_def assign_def Let_def fill_gap_parse)

text \<open>
  Claim C8. A string of \<^verbatim>\<open>#\<close> and six hexadecimal digits parses to the three channels
  with alpha 0; with eight digits the alpha channel is the value of the last two. A
  string whose part after the first character (once stripped) has neither six nor eight
  characters is rejected, every colour returned has its four channels between 0 and
  255, and the constants \<^verbatim>\<open>black()\<close> and \<^verbatim>\<open>white()\<close> have alpha 255. A literal of six
  or eight characters after \<^verbatim>\<open>#\<close> is accepted exactly when every channel is in
  range; when every channel is an integer and one of them is out of range, the error is
  the \<^verbatim>\<open>ValueError\<close> of the literal. A literal that does not start with \<^verbatim>\<open>#\<close> is
  rejected. A channel is out of range when it is negative: a minus sign before a
  hexadecimal digit is read by \<^verbatim>\<open>int\<close> as the negated digit.
\<close>

theorem Color_parse_alpha:
  "(hexdigit r1 \<and> hexdigit r2 \<and> hexdigit g1 \<and> hexdigit g2 \<and> hexdigit b1 \<and> hexdigit b2 \<longrightarrow>
      Color_parse [CHR ''#'', r1, r2, g1, g2, b1, b2]
        = Inr \<lparr>red = hex2 r1 r2, green = hex2 g1 g2, blue = hex2 b1 b2, alpha = 0\<rparr>
      \<and> (hexdigit a1 \<and> hexdigit a2 \<longrightarrow>
            Color_parse [CHR ''#'', r1, r2, g1, g2, b1, b2, a1, a2]
              = Inr \<lparr>red = hex2 r1 r2, green = hex2 g1 g2, blue = hex2 b1 b2,
                     alpha = hex2 a1 a2\<rparr>
            \<and> py_int 16 [a1, a2] = Some (hex2 a1 a2)))
   \<and> (length (tl (strip s)) \<noteq> 6 \<and> length (tl (strip s)) \<noteq> 8 \<longrightarrow>
        Color_parse s = Inl (ValueError s))
   \<and> (\<forall>c. Color_parse t = Inr c \<longrightarrow> Color_is_valid c)
   \<and> alpha black = 255 \<and> alpha white = 255
   \<and> (strip u = CHR ''#'' # v \<and> (length v = 6 \<or> length v = 8) \<longrightarrow>
        (\<exists>c. Color_parse u = Inr c) = list_all channel_in_range (channel_slices v)
        \<and> (list_all channel_is_int (channel_slices v)
             \<and> \<not> list_all channel_in_range (channel_slices v) \<longrightarrow>
            Color_parse u = Inl (ValueError u)))
   \<and> (strip u = [] \<or> hd (strip u) \<noteq> CHR ''#'' \<longrightarrow> Color_parse u = Inl (ValueError u))
   \<and> (hexdigit d \<longrightarrow> py_int 16 [CHR ''-'', d] = Some (- int (hex_value d)))"
  using Color_parse_accepts_iff [of u v] Color_parse_out_of_range [of u v]
    Color_parse_no_hash [of u] py_int16_negative [of d]
  by (simp add: Color_parse_6 Color_parse_8 py_int16_pair Color_parse_length Color_parse_valid
      black_def white_def)

theorem Color_parse_alpha_witness:
  "Color_parse ''#ff0080'' = Inr \<lparr>red = 255, green = 0, blue = 128, alpha = 0\<rparr>
   \<and> Color_parse ''#ff008010'' = Inr \<lparr>red = 255, green = 0, blue = 128, alpha = 16\<rparr>
   \<and> py_int 16 ''10'' = Some 16
   \<and> length (tl (strip ''#ff00'')) = 4 \<and> Color_parse ''#ff00'' = Inl (ValueError ''#ff00'')
   \<and> Color_is_valid \<lparr>red = 255, green = 0, blue = 128, alpha = 0\<rparr>
   \<and> py_int 16 ''-1'' = Some (- 1)
   \<and> channel_slices ''-1-1-1'' = [''-1'', ''-1'', ''-1'']
   \<and> list_all channel_is_int (channel_slices ''-1-1-1'')
   \<and> \<not> list_all channel_in_range (channel_slices ''-1-1-1'')
   \<and> Color_parse ''#-1-1-1'' = Inl (ValueError ''#-1-1-1'')
   \<and> \<not> list_all channel_in_range (channel_slices ''gg0000'')
   \<and> (\<nexists>c. Color_parse ''#gg0000'' = Inr c)
   \<and> Color_parse ''ff0080'' = Inl (ValueError ''ff0080'')"
proof -
  note t1 = Color_parse_alpha [where ?r1.0 = "CHR ''f''" and ?r2.0 = "CHR ''f''"
      and ?g1.0 = "CHR ''0''" and ?g2.0 = "CHR ''0''" and ?b1.0 = "CHR ''8''"
      and ?b2.0 = "CHR ''0''" and ?a1.0 = "CHR ''1''" and ?a2.0 = "CHR ''0''"
      and s = "''#ff00''" and t = "''#ff0080''" and u = "''#-1-1-1''" and v = "''-1-1-1''"
      and d = "CHR ''1''"]
  note t2 = Color_parse_alpha [where u = "''#gg0000''" and v = "''gg0000''"]
  note t3 = Color_parse_alpha [where u = "''ff0080''"]
  have a: "Color_parse ''#ff0080'' = Inr \<lparr>red = 255, green = 0, blue = 128, alpha = 0\<rparr>
   \<and> Color_parse ''#ff008010'' = Inr \<lparr>red = 255, green = 0, blue = 128, alpha = 16\<rparr>
   \<and> py_int 16 ''10'' = Some 16
   \<and> length (tl (strip ''#ff00'')) = 4 \<and> Color_parse ''#ff00'' = Inl (ValueError ''#ff00'')
   \<and> Color_is_valid \<lparr>red = 255, green = 0, blue = 128, alpha = 0\<rparr>"
    using t1
    by (simp add: hexdigit_def hex2_def hex_value_def digit_value_def strip_def py_isspace_def)
  have n: "py_int 16 ''-1'' = Some (- 1)"
    using t1 by (simp add: hexdigit_def hex_value_def digit_value_def)
  have sl: "channel_slices ''-1-1-1'' = [''-1'', ''-1'', ''-1'']"
    by (simp add: channel_slices_def)
  have i: "list_all channel_is_int (channel_slices ''-1-1-1'')"
    and o: "\<not> list_all channel_in_range (channel_slices ''-1-1-1'')"
    using n by (simp_all add: sl channel_is_int_def channel_in_range_def)
  have st: "strip ''#-1-1-1'' = CHR ''#'' # ''-1-1-1''"
    "strip ''#gg0000'' = CHR ''#'' # ''gg0000''" "hd (strip ''ff0080'') \<noteq> CHR ''#''"
    by (simp_all add: strip_def py_isspace_def)
  from t1 st(1) i o have neg: "Color_parse ''#-1-1-1'' = Inl (ValueError ''#-1-1-1'')"
    by simp
  have g: "\<not> list_all channel_in_range (channel_slices ''gg0000'')"
    by (simp add: channel_eval)
  from t2 st(2) g have gg: "\<nexists>c. Color_parse ''#gg0000'' = Inr c"
    by simp
  from t3 st(3) have nh: "Color_parse ''ff0080'' = Inl (ValueError ''ff0080'')"
    by simp
  from a n sl i o neg g gg nh show ?thesis by simp
qed

text \<open>
  Claim C9 fails on the code: a list of four values is rejected, by the guard
  \<^verbatim>\<open>len(values) > 3\<close> that precedes the loop.
\<close>

theorem Padding_parse_rejects_four_values:
  "Padding_parse ''1% 2% 3% 4%'' = Inl (ValueError ''1% 2% 3% 4%'')"
  by (simp add: Padding_parse_def split_value_def strip_def py_isspace_def)

text \<open>
  Claim C2. In the two-level scenario (a style of 50 percent on the division, another
  style of 50 percent on the span, no other style referenced): a span that
  \<^verbatim>\<open>_parse_paragraph_content\<close> builds under the stack of the style of the division has
  a font size of a quarter of \<open>1 / rows\<close>, whatever else the two styles declare; and
  for every cell resolution attribute that parses to counts that convert to a float
  (both below \<open>2^1024 - 2^970\<close>; from there on the division by the count raises
  \<^verbatim>\<open>OverflowError\<close>), the two-level document parses and the font size of its span is a
  quarter of \<open>1 / rows\<close>, the row count being that of the parsed cell resolution.
\<close>

theorem two_level_cascade:
  "(tag e = SPAN_ELEM \<and> strip (elem_get_default e ''style'') = ss
      \<and> sd \<noteq> [] \<and> CHR '' '' \<notin> set sd \<and> ss \<noteq> [] \<and> CHR '' '' \<notin> set ss
      \<and> map_of (styles ctx) sd = Some pd \<and> sp_font_size pd = Some (1 / 2)
      \<and> map_of (styles ctx) ss = Some ps \<and> sp_font_size ps = Some (1 / 2)
      \<and> parse_content e [sd] ctx = Inr (ctx', cs) \<longrightarrow>
      (\<exists>s. cs = [SpanC s]
         \<and> span_font_size s = 1 / 4 * (1 / real_of_int (rows (cell_resolution (document ctx))))))
   \<and> (CellResolution_parse cr = Inr c
        \<and> rows c < 2 ^ 1024 - 2 ^ 970 \<and> columns c < 2 ^ 1024 - 2 ^ 970 \<longrightarrow>
        (\<exists>d. parse (two_level_doc cr) = Inr d \<and> cell_resolution d = c
           \<and> span_font_sizes d = [1 / 4 * (1 / real_of_int (rows c))]))"
  using span_two_levels [of e ss sd ctx pd ps ctx' cs] two_level_parse [of cr c]
  by blast

theorem two_level_cascade_witness:
  "tag span_s2 = SPAN_ELEM \<and> strip (elem_get_default span_s2 ''style'') = ''s2''
   \<and> map_of (styles (ctx_after_head doc24)) ''s1'' = Some sty_half
   \<and> map_of (styles (ctx_after_head doc24)) ''s2'' = Some sty_half
   \<and> sp_font_size sty_half = Some (1 / 2)
   \<and> (\<exists>ctx' s. parse_content span_s2 [''s1''] (ctx_after_head doc24) = Inr (ctx', [SpanC s])
          \<and> span_font_size s = 1 / 4 * (1 / 24))
   \<and> CellResolution_parse ''40 24'' = Inr rows24
   \<and> rows rows24 < 2 ^ 1024 - 2 ^ 970 \<and> columns rows24 < 2 ^ 1024 - 2 ^ 970
   \<and> (\<exists>d. parse (two_level_doc ''40 24'') = Inr d \<and> cell_resolution d = rows24
          \<and> span_font_sizes d = [1 / 4 * (1 / 24)])"
proof -
  have h1: "tag span_s2 = SPAN_ELEM" "strip (elem_get_default span_s2 ''style'') = ''s2''"
    by (simp_all add: span_s2_def elem_get_default_def elem_get_def strip_def py_isspace_def)
  have h2: "map_of (styles (ctx_after_head doc24)) ''s1'' = Some sty_half"
    "map_of (styles (ctx_after_head doc24)) ''s2'' = Some sty_half"
    "sp_font_size sty_half = Some (1 / 2)"
    by (simp_all add: ctx_after_head_def sty_half_def)
  have "\<exists>ctx' cs. parse_content span_s2 [''s1''] (ctx_after_head doc24) = Inr (ctx', cs)"
    by (simp add: span_s2_def ctx_after_head_def doc24_def rows24_def elem_names walker_defs
        strip_def py_isspace_def resolver_eval_defs)
  then obtain ctx' cs where
    h3: "parse_content span_s2 [''s1''] (ctx_after_head doc24) = Inr (ctx', cs)" by blast
  have r: "rows (cell_resolution (document (ctx_after_head doc24))) = 24"
    by (simp add: ctx_after_head_def doc24_def rows24_def)
  have small: "rows rows24 < 2 ^ 1024 - 2 ^ 970" "columns rows24 < 2 ^ 1024 - 2 ^ 970"
    by (rule rows24_small)+
  have c24: "rows rows24 = 24" by (simp add: rows24_def)
  from two_level_cascade
    [where e = span_s2 and ss = "''s2''" and sd = "''s1''" and ctx = "ctx_after_head doc24"
       and pd = sty_half and ps = sty_half and ctx' = ctx' and cs = cs
       and cr = "''40 24''" and c = rows24]
    h1 h2 h3 r CellResolution_40_24 small
  have "(\<exists>s. cs = [SpanC s] \<and> span_font_size s = 1 / 4 * (1 / 24))
     \<and> (\<exists>d. parse (two_level_doc ''40 24'') = Inr d \<and> cell_resolution d = rows24
          \<and> span_font_sizes d = [1 / 4 * (1 / 24)])"
    by (simp add: c24)
  with h1 h2 h3 CellResolution_40_24 small show ?thesis by auto
qed

text \<open>
  Claim C5 fails on the code. The colour \<^verbatim>\<open>red\<close> of a style is rejected by
  \<^verbatim>\<open>Color.parse\<close> with a \<^verbatim>\<open>ValueError\<close>; \<^verbatim>\<open>_parse_styles\<close> does not catch it, and it
  leaves \<^verbatim>\<open>parse\<close> as it is, not as a \<^verbatim>\<open>ParseError\<close>.
\<close>

theorem value_error_escapes:
  "parse invalid_color_doc = Inl (ValueError ''red'')"
  by (simp add: parse_def invalid_color_doc_def doc_body_def el_def elem_names walker_defs
      get_truthy_def strip_def py_isspace_def Context_init_def Color_parse_def)

text \<open>
  Claim C10. When a \<^verbatim>\<open>region\<close> element of the document has no origin or no extent
  attribute, the parse fails; and where the identifier of that region is registered and
  its attributes parse, the error of \<^verbatim>\<open>_parse_regions\<close> for it is the missing-attribute
  error, for the origin first. (An earlier error of the document wins, as everywhere.)
\<close>

theorem region_needs_origin_and_extent:
  assumes "e \<in> set (region_elems root_elem)"
    and "elem_get e ORIGIN_ATTR = None \<or> elem_get e EXTENT_ATTR = None"
  shows "(\<exists>err. parse root_elem = Inl err)
       \<and> (\<forall>ctx i ctx1 s. parse_id e True = Inr i \<and> add_id i ctx = Inr ctx1
             \<and> region_attrs (attrib e) region_state_init = Inr s \<longrightarrow>
            parse_region e ctx = Inl (ParseError
              (if elem_get e ORIGIN_ATTR = None then ''Missing `origin` attribute''
               else ''Missing `extent` attribute'')))"
proof
  show "\<exists>err. parse root_elem = Inl err"
  proof (cases "parse root_elem")
    case (Inl err)
    then show ?thesis by blast
  next
    case (Inr d)
    from parse_Inr_head [OF Inr] obtain doc ctx where
      "parse_head root_elem (Context_init doc) = Inr ctx" by blast
    from parse_head_Inr [OF this] assms show ?thesis by blast
  qed
next
  show "\<forall>ctx i ctx1 s. parse_id e True = Inr i \<and> add_id i ctx = Inr ctx1
             \<and> region_attrs (attrib e) region_state_init = Inr s \<longrightarrow>
            parse_region e ctx = Inl (ParseError
              (if elem_get e ORIGIN_ATTR = None then ''Missing `origin` attribute''
               else ''Missing `extent` attribute''))"
  proof (intro allI impI)
    fix ctx i ctx1 s
    assume h: "parse_id e True = Inr i \<and> add_id i ctx = Inr ctx1
             \<and> region_attrs (attrib e) region_state_init = Inr s"
    from region_attrs_flags [of "attrib e" region_state_init s] h
    have "rs_origin_parsed s = (elem_get e ORIGIN_ATTR \<noteq> None)"
      "rs_extent_parsed s = (elem_get e EXTENT_ATTR \<noteq> None)"
      by (simp_all add: region_state_init_def elem_get_def)
    with h assms(2) show "parse_region e ctx = Inl (ParseError
              (if elem_get e ORIGIN_ATTR = None then ''Missing `origin` attribute''
               else ''Missing `extent` attribute''))"
      by (auto simp: parse_region_def region_state_init_def)
  qed
qed

theorem region_needs_origin_and_extent_witness:
  "region_no_extent \<in> set (region_elems missing_extent_doc)
   \<and> elem_get region_no_extent EXTENT_ATTR = None
   \<and> (\<exists>err. parse missing_extent_doc = Inl err)
   \<and> parse missing_extent_doc = Inl (ParseError ''Missing `extent` attribute'')"
proof -
  have h1: "region_no_extent \<in> set (region_elems missing_extent_doc)"
    by (simp add: region_elems_def missing_extent_doc_def region_no_extent_def doc_body_def
        el_def find_children_def elem_names)
  have h2: "elem_get region_no_extent ORIGIN_ATTR = None
      \<or> elem_get region_no_extent EXTENT_ATTR = None"
    by (simp add: region_no_extent_def el_def elem_get_def elem_names)
  have h3: "elem_get region_no_extent EXTENT_ATTR = None"
    by (simp add: region_no_extent_def el_def elem_get_def elem_names)
  have ev: "parse missing_extent_doc = Inl (ParseError ''Missing `extent` attribute'')"
    by (simp add: parse_def missing_extent_doc_def region_no_extent_def doc_body_def el_def
        elem_names walker_defs get_truthy_def strip_def py_isspace_def Context_init_def
        FontSize_50 Origin_10)
  from region_needs_origin_and_extent [OF h1 h2] h1 h3 ev show ?thesis by blast
qed

text \<open>
  Claim C6. For a \<^verbatim>\<open>p\<close> element handled by \<^verbatim>\<open>_parse_para\<close> with the region index of
  its division (\<open>-1\<close> when the division has no region reference), in a context whose
  region table is well formed: with a reference on both levels the paragraph is
  rejected; with none it is rejected, by the missing-region error; with its own
  reference to a declared region only, the region resolves to the index of that region;
  with the reference of the division only, to the index of the division; and a paragraph
  that is returned has that region index. For the whole parse: in a document that parses,
  every paragraph of every division carries a region reference exactly when its division
  carries none. The index that a division hands to its paragraphs is the one of the
  region it references: every paragraph of a division that \<^verbatim>\<open>_parse_div\<close> returns
  carries the index that the table holds for the reference of the paragraph, or else of
  the division. And in a document that parses, that index is the position, among the
  \<^verbatim>\<open>region\<close> elements, of the region with the referenced identifier, the document
  holding one region for each of these elements.
\<close>

theorem paragraph_region_resolution:
  "(region_indices_ok ctx \<longrightarrow>
      (has_region_ref elem \<and> parent \<noteq> - 1 \<longrightarrow>
            (\<exists>err. parse_one_para elem stack parent ctx = Inl err))
       \<and> (\<not> has_region_ref elem \<and> parent = - 1 \<longrightarrow>
            para_region elem parent ctx = Inl (ParseError ''Missing `region` attribute'')
            \<and> (\<exists>err. parse_one_para elem stack parent ctx = Inl err))
       \<and> (has_region_ref elem \<and> parent = - 1
            \<and> map_of (ctx_regions ctx) (strip (elem_get_default elem ''region'')) = Some (i, s) \<longrightarrow>
            para_region elem parent ctx = Inr (i, s)
            \<and> (\<forall>ctx' para. parse_one_para elem stack parent ctx = Inr (ctx', para) \<longrightarrow>
                  para_region_index para = i))
       \<and> (\<not> has_region_ref elem \<and> parent \<noteq> - 1 \<longrightarrow>
            para_region elem parent ctx = Inr (parent, [])
            \<and> (\<forall>ctx' para. parse_one_para elem stack parent ctx = Inr (ctx', para) \<longrightarrow>
                  para_region_index para = parent)))
   \<and> (\<forall>d. parse root_elem = Inr d \<longrightarrow> one_region_level root_elem)
   \<and> (region_indices_ok ctx \<and> parse_one_div dv stack ctx = Inr (ctx1, dd) \<longrightarrow>
        list_all2 (\<lambda>p q. resolves_in ctx (region_source dv p) (para_region_index q))
          (find_children dv P_ELEM) (div_paragraphs dd))
   \<and> (\<forall>d. parse root_elem = Inr d \<longrightarrow> paragraph_regions_resolved root_elem d)"
  using para_region_cases [of ctx elem parent stack i s] parse_exactly_one [of root_elem]
    parse_one_div_index [of dv stack ctx ctx1 dd] parse_regions_resolved [of root_elem]
  unfolding one_region_level_def by blast

theorem paragraph_region_resolution_witness:
  "region_indices_ok c6_ctx \<and> has_region_ref p_own \<and> \<not> has_region_ref p_none
   \<and> map_of (ctx_regions c6_ctx) (strip (elem_get_default p_own ''region'')) = Some (1, [])
   \<and> parse_one_para p_own [] 0 c6_ctx = Inl (ParseError ''Multiple regions'')
   \<and> parse_one_para p_none [] (- 1) c6_ctx = Inl (ParseError ''Missing `region` attribute'')
   \<and> map_sum id (\<lambda>r. para_region_index (snd r)) (parse_one_para p_own [] (- 1) c6_ctx) = Inr 1
   \<and> map_sum id (\<lambda>r. para_region_index (snd r)) (parse_one_para p_none [] 0 c6_ctx) = Inr 0
   \<and> (\<exists>d. parse (two_level_doc ''40 24'') = Inr d)
   \<and> one_region_level (two_level_doc ''40 24'')
   \<and> parse both_regions_doc = Inl (ParseError ''Multiple regions'')
   \<and> map_sum id (\<lambda>r. map para_region_index (div_paragraphs (snd r)))
        (parse_one_div div_r2 [] c6_ctx) = Inr [1]
   \<and> (\<exists>d. parse two_regions_doc = Inr d \<and> paragraph_regions_resolved two_regions_doc d
          \<and> para_region_indices d = [[1], [0, 1]])"
proof -
  have ok: "region_indices_ok c6_ctx"
    by (simp add: region_indices_ok_def c6_ctx_def ctx_after_head_def)
  have own: "has_region_ref p_own" and none: "\<not> has_region_ref p_none"
    and m: "map_of (ctx_regions c6_ctx) (strip (elem_get_default p_own ''region'')) = Some (1, [])"
    by (simp_all add: has_region_ref_def p_own_def p_none_def el_def elem_get_default_def
        elem_get_def elem_names strip_def py_isspace_def c6_ctx_def ctx_after_head_def)
  have ev: "\<exists>c1 q1 c2 q2. parse_one_para p_own [] (- 1) c6_ctx = Inr (c1, q1)
      \<and> parse_one_para p_none [] 0 c6_ctx = Inr (c2, q2)"
    by (simp add: p_own_def p_none_def el_def c6_ctx_def ctx_after_head_def elem_names
        walker_defs strip_def py_isspace_def is_digit_def nat_of_digits_def resolver_eval_defs)
  then obtain c1 q1 c2 q2 where
    e1: "parse_one_para p_own [] (- 1) c6_ctx = Inr (c1, q1)"
    and e2: "parse_one_para p_none [] 0 c6_ctx = Inr (c2, q2)"
    by blast
  have both: "parse_one_para p_own [] 0 c6_ctx = Inl (ParseError ''Multiple regions'')"
    and neither: "parse_one_para p_none [] (- 1) c6_ctx
        = Inl (ParseError ''Missing `region` attribute'')"
    by (simp_all add: p_own_def p_none_def el_def c6_ctx_def ctx_after_head_def elem_names
        walker_defs get_truthy_def strip_def py_isspace_def is_digit_def nat_of_digits_def
        float_of_int_def)
  from two_level_parse [OF CellResolution_40_24 rows24_small] obtain d where
    d: "parse (two_level_doc ''40 24'') = Inr d" by blast
  from div_r2_parse obtain c3 dd where
    e3: "parse_one_div div_r2 [] c6_ctx = Inr (c3, dd)" by blast
  from two_regions_parse obtain d2 where
    d2: "parse two_regions_doc = Inr d2" and ix: "para_region_indices d2 = [[1], [0, 1]]"
    by blast
  note t1 = paragraph_region_resolution
    [where ctx = c6_ctx and elem = p_own and parent = "- 1" and i = 1 and s = "[]"
       and stack = "[]" and root_elem = "two_level_doc ''40 24''"
       and dv = div_r2 and ?ctx1.0 = c3 and dd = dd]
  note t2 = paragraph_region_resolution
    [where ctx = c6_ctx and elem = p_none and parent = 0 and i = 0 and s = "[]"
       and stack = "[]" and root_elem = two_regions_doc
       and dv = div_r2 and ?ctx1.0 = c3 and dd = dd]
  from t1 ok own m e1 have i1: "para_region_index q1 = 1" by simp
  from t2 ok none e2 have i2: "para_region_index q2 = 0" by simp
  from t1 d have g: "one_region_level (two_level_doc ''40 24'')"
    by blast
  from t1 ok e3 have "list_all2 (\<lambda>p q. resolves_in c6_ctx (region_source div_r2 p)
        (para_region_index q)) (find_children div_r2 P_ELEM) (div_paragraphs dd)"
    by blast
  then have i3: "map para_region_index (div_paragraphs dd) = [1]"
    using none
    by (auto simp: div_r2_def el_def find_children_def p_none_def elem_names list_all2_Cons1
        region_source_def resolves_in_def c6_ctx_def elem_get_default_def elem_get_def
        strip_def py_isspace_def)
  from t2 d2 have g2: "paragraph_regions_resolved two_regions_doc d2" by blast
  from ok own none m both neither e1 e2 i1 i2 d g both_regions_rejected e3 i3 d2 g2 ix
  show ?thesis by auto
qed

text \<open>
  Claim C7. Registering an identifier that the registry holds is the uniqueness error,
  registering a new one adds it; and since every element kind registers in the one
  registry and every error aborts, a document that parses has pairwise distinct
  identifiers across its styles, regions, divisions, paragraphs and spans.
\<close>

theorem identifiers_unique:
  "(i \<in> ids ctx \<longrightarrow> add_id i ctx = Inl (ParseError (''Non unique identifier: '' @ i)))
   \<and> (i \<notin> ids ctx \<longrightarrow> add_id i ctx = Inr (ctx\<lparr>ids := insert i (ids ctx)\<rparr>))
   \<and> (\<forall>d. parse root_elem = Inr d \<longrightarrow> distinct (document_ids root_elem))"
proof (intro conjI allI impI)
  fix d
  assume "parse root_elem = Inr d"
  from parse_registers [OF this] show "distinct (document_ids root_elem)"
    by (auto simp: registers_def)
qed (simp_all add: add_id_def)

theorem identifiers_unique_witness:
  "''s1'' \<in> ids (ctx_after_head Document_default)
   \<and> add_id ''s1'' (ctx_after_head Document_default)
       = Inl (ParseError ''Non unique identifier: s1'')
   \<and> ''p1'' \<notin> ids (ctx_after_head Document_default)
   \<and> add_id ''p1'' (ctx_after_head Document_default)
       = Inr ((ctx_after_head Document_default)
               \<lparr>ids := insert ''p1'' (ids (ctx_after_head Document_default))\<rparr>)
   \<and> (\<exists>d. parse (two_level_doc ''40 24'') = Inr d)
   \<and> distinct (document_ids (two_level_doc ''40 24''))
   \<and> document_ids (two_level_doc ''40 24'') = [''s1'', ''s2'', ''r1'', ''p1'']
   \<and> document_ids duplicate_id_doc = [''s1'', ''s2'', ''r1'', ''s1'']
   \<and> parse duplicate_id_doc = Inl (ParseError ''Non unique identifier: s1'')"
proof -
  have in1: "''s1'' \<in> ids (ctx_after_head Document_default)"
    and out1: "''p1'' \<notin> ids (ctx_after_head Document_default)"
    by (simp_all add: ctx_after_head_def)
  from two_level_parse [OF CellResolution_40_24 rows24_small] obtain d where
    d: "parse (two_level_doc ''40 24'') = Inr d" by blast
  have l: "document_ids (two_level_doc ''40 24'') = [''s1'', ''s2'', ''r1'', ''p1'']"
    "document_ids duplicate_id_doc = [''s1'', ''s2'', ''r1'', ''s1'']"
    by (simp_all add: document_ids_def head_ids_def head_child_ids_def div_ids_def para_ids_def
        span_ids_def elem_ids_def two_level_doc_def duplicate_id_doc_def doc_head_def
        doc_body_def el_def find_children_def get_nonempty_def get_truthy_def elem_get_def
        elem_names strip_def py_isspace_def)
  from identifiers_unique [of "''s1''" "ctx_after_head Document_default" "two_level_doc ''40 24''"]
    identifiers_unique [of "''p1''" "ctx_after_head Document_default" "two_level_doc ''40 24''"]
    in1 out1 d l duplicate_id_rejected
  show ?thesis by simp
qed

end
